theory Spec2Isabelle
  imports Complex_Main "HOL-Library.Monad_Syntax"
begin

section \<open>Numbers\<close>

text \<open>
  The statistics functions of \<^verbatim>\<open>app/utils\<close> (\<^verbatim>\<open>clamp\<close>, \<^verbatim>\<open>quantile\<close>,
  \<^verbatim>\<open>winsorize\<close>, \<^verbatim>\<open>computeLineChartAnalysis\<close>) work on JavaScript numbers.
  A finite number is modelled as a \<^typ>\<open>real\<close>: arithmetic is exact, so the rounding and
  the overflow of IEEE doubles are outside this model. A JavaScript value that is not a
  finite number (\<^verbatim>\<open>NaN\<close>, \<^verbatim>\<open>Infinity\<close>, or \<^verbatim>\<open>undefined\<close> used in arithmetic) is
  \<open>None\<close>: the three operations of this code that can make one out of finite numbers
  are written out below, and a computation that meets one yields \<open>None\<close> as a whole.
  \<^verbatim>\<open>null\<close> in the input series and in an optional field of the result is \<open>None\<close>
  of an inner option type.

  What depends on the rounding or on the overflow of doubles (the range of
  \<^verbatim>\<open>rSquared\<close>, the finiteness of the result, the exact conditions under which a sum
  is 0) is settled in the second embedding, over IEEE doubles, that follows this one.
\<close>

definition js_div :: "real \<Rightarrow> real \<Rightarrow> real option" where
  \<comment> \<open>\<^verbatim>\<open>a / b\<close>: \<^verbatim>\<open>NaN\<close> or \<^verbatim>\<open>\<plusminus>Infinity\<close> when \<open>b\<close> is 0.\<close>
  "js_div a b = (if b = 0 then None else Some (a / b))"

definition js_sqrt :: "real \<Rightarrow> real option" where
  \<comment> \<open>\<^verbatim>\<open>Math.sqrt(a)\<close>: \<^verbatim>\<open>NaN\<close> when \<open>a\<close> is negative.\<close>
  "js_sqrt a = (if a < 0 then None else Some (sqrt a))"

definition js_at :: "'a list \<Rightarrow> int \<Rightarrow> 'a option" where
  \<comment> \<open>\<^verbatim>\<open>xs[i]\<close>: \<^verbatim>\<open>undefined\<close> outside \<open>0 .. length - 1\<close>.\<close>
  "js_at xs i = (if 0 \<le> i \<and> i < int (length xs) then Some (xs ! nat i) else None)"

section \<open>clamp, quantile, winsorize\<close>

definition sum_numbers :: "real list \<Rightarrow> real" where
  \<comment> \<open>\<^verbatim>\<open>sum\<close>: \<^verbatim>\<open>numbers.reduce((a, b) => a + b, 0)\<close>\<close>
  "sum_numbers numbers = foldl (\<lambda>a b. a + b) 0 numbers"

definition clamp :: "real \<Rightarrow> real \<Rightarrow> real \<Rightarrow> real" where
  "clamp v minValue maxValue =
     (if v < minValue then minValue
      else if v > maxValue then maxValue
      else v)"

text \<open>
  In \<open>quantile\<close> the reads of the first and of the last element fall back to 0 when
  they are \<^verbatim>\<open>undefined\<close>; the reads of \<^verbatim>\<open>lower\<close> and \<^verbatim>\<open>upper\<close> do not, and an
  \<^verbatim>\<open>undefined\<close> there would make the result \<^verbatim>\<open>NaN\<close>.
\<close>

definition quantile :: "real list \<Rightarrow> real \<Rightarrow> real option" where
  "quantile sortedValues quantileValue =
     (let len = length sortedValues in
      if len = 0 then Some 0
      else if quantileValue \<le> 0 then
        (case js_at sortedValues 0 of None \<Rightarrow> Some 0 | Some first \<Rightarrow> Some first)
      else if quantileValue \<ge> 1 then
        (case js_at sortedValues (int len - 1) of None \<Rightarrow> Some 0 | Some lst \<Rightarrow> Some lst)
      else do {
        let position = (real len - 1) * quantileValue;
        let lowerIndex = \<lfloor>position\<rfloor>;
        let upperIndex = \<lceil>position\<rceil>;
        let weight = position - of_int lowerIndex;
        lower \<leftarrow> js_at sortedValues lowerIndex;
        upper \<leftarrow> js_at sortedValues upperIndex;
        Some (lower + (upper - lower) * weight)
      })"

text \<open>
  \<^verbatim>\<open>values.toSorted((a, b) => a - b)\<close> is a sorted copy in ascending numeric order:
  \<open>sort\<close>. The input list itself is mapped in its own order.
\<close>

definition winsorize :: "real list \<Rightarrow> real \<Rightarrow> real \<Rightarrow> real list option" where
  "winsorize vals lowerQuantile upperQuantile = do {
     let sorted = sort vals;
     lowerBound \<leftarrow> quantile sorted lowerQuantile;
     upperBound \<leftarrow> quantile sorted upperQuantile;
     Some (map (\<lambda>v. clamp v lowerBound upperBound) vals)
   }"

section \<open>computeLineChartAnalysis\<close>

datatype volatility = V_very_stable | V_moderate | V_volatile | V_undefined

datatype trend = T_strong | T_weak | T_none | T_undefined

record Interpretation =
  volatility :: volatility
  trend :: trend

text \<open>The result type; its field \<^verbatim>\<open>interpretation\<close> is \<open>interp\<close> here.\<close>

record LineChartAnalysis =
  mean :: real
  standardDeviation :: real
  coefficientOfVariation :: "real option"
  slope :: real
  rSquared :: "real option"
  interp :: Interpretation

text \<open>An element \<^verbatim>\<open>{ value, index }\<close> of \<^verbatim>\<open>indexedValues\<close>.\<close>

record IndexedValue =
  iv_value :: real
  iv_index :: nat

text \<open>
  The first loop: the entries that are not \<^verbatim>\<open>null\<close>, each with its position \<open>i\<close> in
  the input.
\<close>

fun indexValues :: "real option list \<Rightarrow> nat \<Rightarrow> IndexedValue list" where
  "indexValues [] i = []"
| "indexValues (None # vs) i = indexValues vs (i + 1)"
| "indexValues (Some v # vs) i = \<lparr>iv_value = v, iv_index = i\<rparr> # indexValues vs (i + 1)"

text \<open>
  The loop that accumulates \<^verbatim>\<open>sumX\<close>, \<^verbatim>\<open>sumY\<close>, \<^verbatim>\<open>sumXY\<close> and \<^verbatim>\<open>sumXX\<close>; an
  iteration whose \<^verbatim>\<open>entry\<close> or \<^verbatim>\<open>y\<close> is \<^verbatim>\<open>undefined\<close> is skipped.
\<close>

definition regressionSums :: "IndexedValue list \<Rightarrow> real list \<Rightarrow> real \<times> real \<times> real \<times> real" where
  "regressionSums indexedValues winsorizedYValues =
     fold (\<lambda>i (sumX, sumY, sumXY, sumXX).
             case (js_at indexedValues (int i), js_at winsorizedYValues (int i)) of
               (Some entry, Some y) \<Rightarrow>
                 (let x = real (iv_index entry)
                  in (sumX + x, sumY + y, sumXY + x * y, sumXX + x * x))
             | _ \<Rightarrow> (sumX, sumY, sumXY, sumXX))
          [0..<length indexedValues] (0, 0, 0, 0)"

text \<open>The loop that accumulates \<^verbatim>\<open>ssTotal\<close> and \<^verbatim>\<open>ssResidual\<close>.\<close>

definition squaresSums ::
  "IndexedValue list \<Rightarrow> real list \<Rightarrow> real \<Rightarrow> real \<Rightarrow> real \<Rightarrow> real \<times> real" where
  "squaresSums indexedValues winsorizedYValues slp intercept meanY =
     fold (\<lambda>i (ssTotal, ssResidual).
             case (js_at indexedValues (int i), js_at winsorizedYValues (int i)) of
               (Some entry, Some y) \<Rightarrow>
                 (let x = real (iv_index entry);
                      diff = y - meanY;
                      predicted = slp * x + intercept;
                      residual = y - predicted
                  in (ssTotal + diff * diff, ssResidual + residual * residual))
             | _ \<Rightarrow> (ssTotal, ssResidual))
          [0..<length indexedValues] (0, 0)"

text \<open>\<^verbatim>\<open>winsorizedYValues\<close>: winsorized from 20 observations on, the values as they are below.\<close>

definition winsorizedYValuesOf :: "real list \<Rightarrow> real list option" where
  "winsorizedYValuesOf originalYValues =
     (if length originalYValues \<ge> 20 then winsorize originalYValues 0.05 0.95
      else Some originalYValues)"

text \<open>The classification of \<^verbatim>\<open>volatility\<close> from \<^verbatim>\<open>coefficientOfVariation\<close>.\<close>

definition volatilityOf :: "real option \<Rightarrow> volatility" where
  "volatilityOf cov =
     (case cov of
        None \<Rightarrow> V_undefined
      | Some cv \<Rightarrow>
          if cv < 0.1 then V_very_stable
          else if cv < 0.25 then V_moderate
          else V_volatile)"

text \<open>The classification of \<^verbatim>\<open>trend\<close>: the base trend from \<^verbatim>\<open>rSquared\<close>, then the upgrade.\<close>

definition trendOf :: "real \<Rightarrow> real option \<Rightarrow> real \<Rightarrow> trend" where
  "trendOf sd r2 relativeSlope =
     (if sd = 0 then T_none
      else case r2 of
        None \<Rightarrow> T_undefined
      | Some r \<Rightarrow>
          (let base = (if r > 0.75 then T_strong else if r > 0.4 then T_weak else T_none)
           in if base = T_none then (if relativeSlope \<ge> 0.03 then T_weak else base)
              else if base = T_weak then (if relativeSlope \<ge> 0.06 then T_strong else base)
              else base))"

text \<open>
  The function itself. Its first loop is \<open>indexValues\<close>; \<open>n\<close> is the number of
  observations. The branches \<open>n = 0\<close> and \<open>n = 1\<close> return at once. Otherwise the
  statements follow in the order of the source, each division through \<open>js_div\<close> and the
  square root through \<open>js_sqrt\<close>: \<open>sm\<close> is \<^verbatim>\<open>_sum\<close>, \<open>variance\<close> is
  \<^verbatim>\<open>varianceSum / n\<close>, and \<open>ratio\<close> is \<^verbatim>\<open>ssResidual / ssTotal\<close>.
\<close>

definition computeLineChartAnalysis :: "real option list \<Rightarrow> LineChartAnalysis option" where
  "computeLineChartAnalysis vals =
     (let indexedValues = indexValues vals 0;
          n = length indexedValues
      in
      if n = 0 then
        Some \<lparr>mean = 0, standardDeviation = 0, coefficientOfVariation = None, slope = 0,
              rSquared = None,
              interp = \<lparr>volatility = V_undefined, trend = T_undefined\<rparr>\<rparr>
      else if n = 1 then
        (let onlyValue = (case js_at indexedValues 0 of None \<Rightarrow> 0 | Some e \<Rightarrow> iv_value e)
         in Some \<lparr>mean = onlyValue, standardDeviation = 0, coefficientOfVariation = None,
                  slope = 0, rSquared = None,
                  interp = \<lparr>volatility = V_very_stable, trend = T_none\<rparr>\<rparr>)
      else do {
        let sm = fold (\<lambda>entry s. s + iv_value entry) indexedValues 0;
        mean \<leftarrow> js_div sm (real n);
        let varianceSum =
          fold (\<lambda>entry s. let diff = iv_value entry - mean in s + diff * diff) indexedValues 0;
        variance \<leftarrow> js_div varianceSum (real n);
        standardDeviation \<leftarrow> js_sqrt variance;
        coefficientOfVariation \<leftarrow>
          (if mean = 0 then Some None else map_option Some (js_div standardDeviation mean));
        let originalYValues = map iv_value indexedValues;
        winsorizedYValues \<leftarrow> winsorizedYValuesOf originalYValues;
        let (sumX, sumY, sumXY, sumXX) = regressionSums indexedValues winsorizedYValues;
        let denominator = real n * sumXX - sumX * sumX;
        slope \<leftarrow> (if denominator = 0 then Some 0
                else js_div (real n * sumXY - sumX * sumY) denominator);
        rSquared \<leftarrow> (if denominator \<noteq> 0 then do {
                 meanY \<leftarrow> js_div sumY (real n);
                 intercept \<leftarrow> js_div (sumY - slope * sumX) (real n);
                 let (ssTotal, ssResidual) =
                   squaresSums indexedValues winsorizedYValues slope intercept meanY;
                 if ssTotal \<noteq> 0 then do {
                   ratio \<leftarrow> js_div ssResidual ssTotal;
                   Some (Some (1 - ratio))
                 } else Some None
               } else Some None);
        robustMeanY \<leftarrow> (if length winsorizedYValues > 0
                        then js_div (sum_numbers winsorizedYValues)
                               (real (length winsorizedYValues))
                        else Some 0);
        relativeSlope \<leftarrow> (if robustMeanY = 0 then Some 0 else js_div \<bar>slope\<bar> robustMeanY);
        Some \<lparr>mean = mean, standardDeviation = standardDeviation,
              coefficientOfVariation = coefficientOfVariation, slope = slope,
              rSquared = rSquared,
              interp = \<lparr>volatility = volatilityOf coefficientOfVariation,
                                trend = trendOf standardDeviation rSquared relativeSlope\<rparr>\<rparr>
      })"

section \<open>The regression in the specification's words\<close>

text \<open>
  The specification describes the fit by its closed form over the observations
  \<open>(x, y)\<close>: \<open>slope = (n\<Sum>xy - \<Sum>x\<Sum>y) / (n\<Sum>x\<^sup>2 - (\<Sum>x)\<^sup>2)\<close>, 0 when the denominator is 0,
  and \<open>rSquared = 1 - SS_residual / SS_total\<close>, undefined when the denominator or
  \<open>SS_total\<close> is 0. The following definitions state that closed form; they are
  compared with the loops of \<open>computeLineChartAnalysis\<close> below.
\<close>

text \<open>
  The observation sequence of the specification: the entries that are not missing, each
  with its original 0-based position in the series.
\<close>

definition spec_indices :: "real option list \<Rightarrow> nat list" where
  "spec_indices vals = filter (\<lambda>i. vals ! i \<noteq> None) [0..<length vals]"

definition spec_values :: "real option list \<Rightarrow> real list" where
  "spec_values vals = map the (filter (\<lambda>v. v \<noteq> None) vals)"

definition spec_denominator :: "real list \<Rightarrow> real" where
  "spec_denominator xs =
     real (length xs) * (\<Sum>x\<leftarrow>xs. x * x) - sum_list xs * sum_list xs"

definition spec_slope :: "real list \<Rightarrow> real list \<Rightarrow> real" where
  "spec_slope xs ys =
     (if spec_denominator xs = 0 then 0
      else (real (length xs) * (\<Sum>(x, y)\<leftarrow>zip xs ys. x * y) - sum_list xs * sum_list ys)
             / spec_denominator xs)"

definition spec_ssTotal :: "real list \<Rightarrow> real" where
  "spec_ssTotal ys = (\<Sum>y\<leftarrow>ys. (y - sum_list ys / real (length ys))\<^sup>2)"

definition spec_ssResidual :: "real list \<Rightarrow> real list \<Rightarrow> real" where
  "spec_ssResidual xs ys =
     (let b = spec_slope xs ys;
          a = (sum_list ys - b * sum_list xs) / real (length xs)
      in \<Sum>(x, y)\<leftarrow>zip xs ys. (y - (b * x + a))\<^sup>2)"

definition spec_rSquared :: "real list \<Rightarrow> real list \<Rightarrow> real option" where
  "spec_rSquared xs ys =
     (if spec_denominator xs = 0 \<or> spec_ssTotal ys = 0 then None
      else Some (1 - spec_ssResidual xs ys / spec_ssTotal ys))"

section \<open>IEEE doubles\<close>

text \<open>
  A second embedding of the same functions, over IEEE 754 binary64 numbers with their
  rounding, overflow and special values: it is the one in which the range of
  \<^verbatim>\<open>rSquared\<close> and the finiteness of the result are settled, since both depend on the
  rounding of each operation. Every name of this embedding ends in \<open>64\<close>.

  A double is \<open>Fin r\<close> for a finite number \<open>r\<close>, \<^verbatim>\<open>Infinity\<close>, \<^verbatim>\<open>-Infinity\<close> or
  \<^verbatim>\<open>NaN\<close>. The two zeros are one value \<open>Fin 0\<close>: they differ only under a division
  by zero, and all comparisons of this code (\<^verbatim>\<open>===\<close>, \<^verbatim>\<open><\<close>, \<^verbatim>\<open>>=\<close>) treat them
  alike. Every operation rounds its exact result, so the results are doubles whenever
  the numbers of the series are; a series is a list of doubles and \<^verbatim>\<open>null\<close>s, and
  may hold \<^verbatim>\<open>NaN\<close> and the infinities.
\<close>

datatype f64 = Fin real | PInf | NInf | NaN

text \<open>
  Rounding to nearest, ties to even. \<open>expo x\<close> is the binary exponent of \<open>x\<close>; the
  spacing of the doubles around \<open>x\<close> is \<open>2 powi (expo x - 52)\<close>, and
  \<open>2 powi (- 1074)\<close> in the subnormal range. A rounded value of magnitude
  \<open>2 powi 1024\<close> or more overflows to an infinity.
\<close>

definition expo :: "real \<Rightarrow> int" where
  "expo x = \<lfloor>log 2 \<bar>x\<bar>\<rfloor>"

definition round_even :: "real \<Rightarrow> int" where
  "round_even y =
     (let f = \<lfloor>y\<rfloor>; d = y - of_int f
      in if d < 1 / 2 then f else if 1 / 2 < d then f + 1 else if even f then f else f + 1)"

definition round64 :: "real \<Rightarrow> f64" where
  "round64 x =
     (if x = 0 then Fin 0
      else let q = 2 powi (max (expo x) (- 1022) - 52);
               r = of_int (round_even (x / q)) * q
           in if 2 powi 1024 \<le> \<bar>r\<bar> then (if 0 < x then PInf else NInf) else Fin r)"

text \<open>
  The operations: on finite operands the exact result, rounded; on the others the
  table of IEEE 754.
\<close>

fun f_neg :: "f64 \<Rightarrow> f64" where
  "f_neg (Fin a) = Fin (- a)"
| "f_neg PInf = NInf"
| "f_neg NInf = PInf"
| "f_neg NaN = NaN"

fun f_add :: "f64 \<Rightarrow> f64 \<Rightarrow> f64" where
  "f_add (Fin a) (Fin b) = round64 (a + b)"
| "f_add NaN _ = NaN"
| "f_add _ NaN = NaN"
| "f_add PInf NInf = NaN"
| "f_add NInf PInf = NaN"
| "f_add PInf _ = PInf"
| "f_add _ PInf = PInf"
| "f_add NInf _ = NInf"
| "f_add _ NInf = NInf"

definition f_sub :: "f64 \<Rightarrow> f64 \<Rightarrow> f64" where
  "f_sub a b = f_add a (f_neg b)"

fun f_mul :: "f64 \<Rightarrow> f64 \<Rightarrow> f64" where
  "f_mul (Fin a) (Fin b) = round64 (a * b)"
| "f_mul NaN _ = NaN"
| "f_mul _ NaN = NaN"
| "f_mul PInf (Fin b) = (if b = 0 then NaN else if 0 < b then PInf else NInf)"
| "f_mul NInf (Fin b) = (if b = 0 then NaN else if 0 < b then NInf else PInf)"
| "f_mul (Fin a) PInf = (if a = 0 then NaN else if 0 < a then PInf else NInf)"
| "f_mul (Fin a) NInf = (if a = 0 then NaN else if 0 < a then NInf else PInf)"
| "f_mul PInf PInf = PInf"
| "f_mul PInf NInf = NInf"
| "f_mul NInf PInf = NInf"
| "f_mul NInf NInf = PInf"

text \<open>
  A finite number divided by zero is an infinity whose sign depends on the sign of the
  zero; \<open>f_div\<close> takes the zero as positive. No division of this code is reached with
  a zero divisor (\<open>js_div64\<close> below keeps track of that).
\<close>

fun f_div :: "f64 \<Rightarrow> f64 \<Rightarrow> f64" where
  "f_div (Fin a) (Fin b) =
     (if b = 0 then (if a = 0 then NaN else if 0 < a then PInf else NInf)
      else round64 (a / b))"
| "f_div NaN _ = NaN"
| "f_div _ NaN = NaN"
| "f_div (Fin a) _ = Fin 0"
| "f_div PInf (Fin b) = (if 0 \<le> b then PInf else NInf)"
| "f_div NInf (Fin b) = (if 0 \<le> b then NInf else PInf)"
| "f_div _ _ = NaN"

fun f_sqrt :: "f64 \<Rightarrow> f64" where
  "f_sqrt (Fin a) = (if a < 0 then NaN else round64 (sqrt a))"
| "f_sqrt PInf = PInf"
| "f_sqrt NInf = NaN"
| "f_sqrt NaN = NaN"

fun f_abs :: "f64 \<Rightarrow> f64" where
  "f_abs (Fin a) = Fin \<bar>a\<bar>"
| "f_abs PInf = PInf"
| "f_abs NInf = PInf"
| "f_abs NaN = NaN"

fun f_floor :: "f64 \<Rightarrow> f64" where
  "f_floor (Fin a) = Fin (of_int \<lfloor>a\<rfloor>)"
| "f_floor PInf = PInf"
| "f_floor NInf = NInf"
| "f_floor NaN = NaN"

fun f_ceil :: "f64 \<Rightarrow> f64" where
  "f_ceil (Fin a) = Fin (of_int \<lceil>a\<rceil>)"
| "f_ceil PInf = PInf"
| "f_ceil NInf = NInf"
| "f_ceil NaN = NaN"

text \<open>The comparisons: each is false when an operand is \<^verbatim>\<open>NaN\<close>.\<close>

fun f_lt :: "f64 \<Rightarrow> f64 \<Rightarrow> bool" where
  "f_lt (Fin a) (Fin b) = (a < b)"
| "f_lt NaN _ = False"
| "f_lt _ NaN = False"
| "f_lt _ NInf = False"
| "f_lt PInf _ = False"
| "f_lt _ _ = True"

fun f_eq :: "f64 \<Rightarrow> f64 \<Rightarrow> bool" where
  "f_eq (Fin a) (Fin b) = (a = b)"
| "f_eq PInf PInf = True"
| "f_eq NInf NInf = True"
| "f_eq _ _ = False"

definition f_le :: "f64 \<Rightarrow> f64 \<Rightarrow> bool" where
  "f_le a b = (f_lt a b \<or> f_eq a b)"

text \<open>
  \<^verbatim>\<open>a / b\<close> as this code means it: every division of the source stands behind a check
  of its divisor (or divides by a length that is at least 1). \<open>js_div64\<close> is \<open>None\<close>
  when the divisor is zero all the same, so that a result \<open>Some r\<close> of
  \<open>computeLineChartAnalysis64\<close> says that no division by zero was executed; the value
  of the quotient is that of IEEE 754 and may be an infinity or \<^verbatim>\<open>NaN\<close>.
\<close>

definition js_div64 :: "f64 \<Rightarrow> f64 \<Rightarrow> f64 option" where
  "js_div64 a b = (if f_eq b (Fin 0) then None else Some (f_div a b))"

text \<open>
  \<^verbatim>\<open>xs[i]\<close> used as a number, for an index \<open>i\<close> that is itself a double:
  \<^verbatim>\<open>undefined\<close>, hence \<^verbatim>\<open>NaN\<close> in arithmetic, unless \<open>i\<close> is an integer within the
  bounds.
\<close>

definition js_at64 :: "f64 list \<Rightarrow> f64 \<Rightarrow> f64" where
  "js_at64 xs i =
     (case i of
        Fin k \<Rightarrow>
          (if k = of_int \<lfloor>k\<rfloor>
           then (case js_at xs \<lfloor>k\<rfloor> of None \<Rightarrow> NaN | Some x \<Rightarrow> x)
           else NaN)
      | _ \<Rightarrow> NaN)"

definition sum_numbers64 :: "f64 list \<Rightarrow> f64" where
  "sum_numbers64 numbers = foldl (\<lambda>a b. f_add a b) (Fin 0) numbers"

definition clamp64 :: "f64 \<Rightarrow> f64 \<Rightarrow> f64 \<Rightarrow> f64" where
  "clamp64 v minValue maxValue =
     (if f_lt v minValue then minValue
      else if f_lt maxValue v then maxValue
      else v)"

definition quantile64 :: "f64 list \<Rightarrow> f64 \<Rightarrow> f64" where
  "quantile64 sortedValues quantileValue =
     (let len = length sortedValues in
      if len = 0 then Fin 0
      else if f_le quantileValue (Fin 0) then
        (case js_at sortedValues 0 of None \<Rightarrow> Fin 0 | Some first \<Rightarrow> first)
      else if f_le (Fin 1) quantileValue then
        (case js_at sortedValues (int len - 1) of None \<Rightarrow> Fin 0 | Some lst \<Rightarrow> lst)
      else
        (let position = f_mul (Fin (real len - 1)) quantileValue;
             lowerIndex = f_floor position;
             upperIndex = f_ceil position;
             weight = f_sub position lowerIndex;
             lower = js_at64 sortedValues lowerIndex;
             upper = js_at64 sortedValues upperIndex
         in f_add lower (f_mul (f_sub upper lower) weight)))"

text \<open>
  \<^verbatim>\<open>values.toSorted((a, b) => a - b)\<close>: a stable sort by the sign of the comparator,
  here by insertion from the left, each element placed before the first one that the
  comparator puts after it. A \<^verbatim>\<open>NaN\<close> among the values makes the comparator
  inconsistent, and ECMAScript then leaves the order to the implementation; nothing
  below depends on the order in that case.
\<close>

fun insort64 :: "f64 \<Rightarrow> f64 list \<Rightarrow> f64 list" where
  "insort64 x [] = [x]"
| "insort64 x (y # ys) =
     (if f_lt (Fin 0) (f_sub y x) then x # y # ys else y # insort64 x ys)"

definition toSorted64 :: "f64 list \<Rightarrow> f64 list" where
  "toSorted64 vals = fold insort64 vals []"

definition winsorize64 :: "f64 list \<Rightarrow> f64 \<Rightarrow> f64 \<Rightarrow> f64 list" where
  "winsorize64 vals lowerQuantile upperQuantile =
     (let sorted = toSorted64 vals;
          lowerBound = quantile64 sorted lowerQuantile;
          upperBound = quantile64 sorted upperQuantile
      in map (\<lambda>v. clamp64 v lowerBound upperBound) vals)"

record LineChartAnalysis64 =
  mean64 :: f64
  standardDeviation64 :: f64
  coefficientOfVariation64 :: "f64 option"
  slope64 :: f64
  rSquared64 :: "f64 option"
  interp64 :: Interpretation

record IndexedValue64 =
  iv_value64 :: f64
  iv_index64 :: nat

fun indexValues64 :: "f64 option list \<Rightarrow> nat \<Rightarrow> IndexedValue64 list" where
  "indexValues64 [] i = []"
| "indexValues64 (None # vs) i = indexValues64 vs (i + 1)"
| "indexValues64 (Some v # vs) i =
     \<lparr>iv_value64 = v, iv_index64 = i\<rparr> # indexValues64 vs (i + 1)"

definition regressionSums64 ::
  "IndexedValue64 list \<Rightarrow> f64 list \<Rightarrow> f64 \<times> f64 \<times> f64 \<times> f64" where
  "regressionSums64 indexedValues winsorizedYValues =
     fold (\<lambda>i (sumX, sumY, sumXY, sumXX).
             case (js_at indexedValues (int i), js_at winsorizedYValues (int i)) of
               (Some entry, Some y) \<Rightarrow>
                 (let x = Fin (real (iv_index64 entry))
                  in (f_add sumX x, f_add sumY y, f_add sumXY (f_mul x y),
                      f_add sumXX (f_mul x x)))
             | _ \<Rightarrow> (sumX, sumY, sumXY, sumXX))
          [0..<length indexedValues] (Fin 0, Fin 0, Fin 0, Fin 0)"

definition squaresSums64 ::
  "IndexedValue64 list \<Rightarrow> f64 list \<Rightarrow> f64 \<Rightarrow> f64 \<Rightarrow> f64 \<Rightarrow> f64 \<times> f64" where
  "squaresSums64 indexedValues winsorizedYValues slp intercept meanY =
     fold (\<lambda>i (ssTotal, ssResidual).
             case (js_at indexedValues (int i), js_at winsorizedYValues (int i)) of
               (Some entry, Some y) \<Rightarrow>
                 (let x = Fin (real (iv_index64 entry));
                      diff = f_sub y meanY;
                      predicted = f_add (f_mul slp x) intercept;
                      residual = f_sub y predicted
                  in (f_add ssTotal (f_mul diff diff),
                      f_add ssResidual (f_mul residual residual)))
             | _ \<Rightarrow> (ssTotal, ssResidual))
          [0..<length indexedValues] (Fin 0, Fin 0)"

text \<open>The literals \<^verbatim>\<open>0.05\<close>, \<^verbatim>\<open>0.95\<close>, ... of the source are the doubles nearest to them.\<close>

definition winsorizedYValuesOf64 :: "f64 list \<Rightarrow> f64 list" where
  "winsorizedYValuesOf64 originalYValues =
     (if length originalYValues \<ge> 20
      then winsorize64 originalYValues (round64 (5 / 100)) (round64 (95 / 100))
      else originalYValues)"

definition volatilityOf64 :: "f64 option \<Rightarrow> volatility" where
  "volatilityOf64 cov =
     (case cov of
        None \<Rightarrow> V_undefined
      | Some cv \<Rightarrow>
          if f_lt cv (round64 (1 / 10)) then V_very_stable
          else if f_lt cv (round64 (25 / 100)) then V_moderate
          else V_volatile)"

definition trendOf64 :: "f64 \<Rightarrow> f64 option \<Rightarrow> f64 \<Rightarrow> trend" where
  "trendOf64 sd r2 relativeSlope =
     (if f_eq sd (Fin 0) then T_none
      else case r2 of
        None \<Rightarrow> T_undefined
      | Some r \<Rightarrow>
          (let base = (if f_lt (round64 (75 / 100)) r then T_strong
                       else if f_lt (round64 (4 / 10)) r then T_weak else T_none)
           in if base = T_none
                then (if f_le (round64 (3 / 100)) relativeSlope then T_weak else base)
              else if base = T_weak
                then (if f_le (round64 (6 / 100)) relativeSlope then T_strong else base)
              else base))"

text \<open>
  The function itself, statement by statement as in the exact embedding above. The
  lengths and the indices are integers below \<open>2\<^sup>5\<^sup>3\<close> and so are doubles as they are.
\<close>

definition computeLineChartAnalysis64 :: "f64 option list \<Rightarrow> LineChartAnalysis64 option" where
  "computeLineChartAnalysis64 vals =
     (let indexedValues = indexValues64 vals 0;
          n = length indexedValues
      in
      if n = 0 then
        Some \<lparr>mean64 = Fin 0, standardDeviation64 = Fin 0, coefficientOfVariation64 = None,
              slope64 = Fin 0, rSquared64 = None,
              interp64 = \<lparr>volatility = V_undefined, trend = T_undefined\<rparr>\<rparr>
      else if n = 1 then
        (let onlyValue = (case js_at indexedValues 0 of None \<Rightarrow> Fin 0
                          | Some e \<Rightarrow> iv_value64 e)
         in Some \<lparr>mean64 = onlyValue, standardDeviation64 = Fin 0,
                  coefficientOfVariation64 = None, slope64 = Fin 0, rSquared64 = None,
                  interp64 = \<lparr>volatility = V_very_stable, trend = T_none\<rparr>\<rparr>)
      else do {
        let sm = fold (\<lambda>entry s. f_add s (iv_value64 entry)) indexedValues (Fin 0);
        mean \<leftarrow> js_div64 sm (Fin (real n));
        let varianceSum =
          fold (\<lambda>entry s. let diff = f_sub (iv_value64 entry) mean
                          in f_add s (f_mul diff diff)) indexedValues (Fin 0);
        variance \<leftarrow> js_div64 varianceSum (Fin (real n));
        let standardDeviation = f_sqrt variance;
        coefficientOfVariation \<leftarrow>
          (if f_eq mean (Fin 0) then Some None
           else map_option Some (js_div64 standardDeviation mean));
        let originalYValues = map iv_value64 indexedValues;
        let winsorizedYValues = winsorizedYValuesOf64 originalYValues;
        let (sumX, sumY, sumXY, sumXX) = regressionSums64 indexedValues winsorizedYValues;
        let denominator = f_sub (f_mul (Fin (real n)) sumXX) (f_mul sumX sumX);
        slope \<leftarrow> (if f_eq denominator (Fin 0) then Some (Fin 0)
                  else js_div64 (f_sub (f_mul (Fin (real n)) sumXY) (f_mul sumX sumY))
                         denominator);
        rSquared \<leftarrow> (if \<not> f_eq denominator (Fin 0) then do {
                 meanY \<leftarrow> js_div64 sumY (Fin (real n));
                 intercept \<leftarrow> js_div64 (f_sub sumY (f_mul slope sumX)) (Fin (real n));
                 let (ssTotal, ssResidual) =
                   squaresSums64 indexedValues winsorizedYValues slope intercept meanY;
                 if \<not> f_eq ssTotal (Fin 0) then do {
                   ratio \<leftarrow> js_div64 ssResidual ssTotal;
                   Some (Some (f_sub (Fin 1) ratio))
                 } else Some None
               } else Some None);
        robustMeanY \<leftarrow> (if length winsorizedYValues > 0
                        then js_div64 (sum_numbers64 winsorizedYValues)
                               (Fin (real (length winsorizedYValues)))
                        else Some (Fin 0));
        relativeSlope \<leftarrow> (if f_eq robustMeanY (Fin 0) then Some (Fin 0)
                          else js_div64 (f_abs slope) robustMeanY);
        Some \<lparr>mean64 = mean, standardDeviation64 = standardDeviation,
              coefficientOfVariation64 = coefficientOfVariation, slope64 = slope,
              rSquared64 = rSquared,
              interp64 = \<lparr>volatility = volatilityOf64 coefficientOfVariation,
                          trend = trendOf64 standardDeviation rSquared relativeSlope\<rparr>\<rparr>
      })"

text \<open>
  The local variables of \<open>computeLineChartAnalysis64\<close> that the theorems below speak
  about, as functions of the series: \<^verbatim>\<open>winsorizedYValues\<close>, \<^verbatim>\<open>denominator\<close>,
  \<^verbatim>\<open>slope\<close>, and the pair of \<^verbatim>\<open>ssTotal\<close> and \<^verbatim>\<open>ssResidual\<close>. That the function
  computes its result from exactly these values is \<open>computeLineChartAnalysis64_closed\<close>
  below. The source runs the loop of \<^verbatim>\<open>ssTotal\<close> only when the denominator is not 0;
  \<open>squares64\<close> is what that loop yields, with the slope 0 otherwise.
\<close>

definition regressionValues64 :: "f64 option list \<Rightarrow> f64 list" where
  "regressionValues64 vals = winsorizedYValuesOf64 (map iv_value64 (indexValues64 vals 0))"

definition denominator64 :: "f64 option list \<Rightarrow> f64" where
  "denominator64 vals =
     (let indexedValues = indexValues64 vals 0;
          n = length indexedValues;
          (sumX, sumY, sumXY, sumXX) = regressionSums64 indexedValues (regressionValues64 vals)
      in f_sub (f_mul (Fin (real n)) sumXX) (f_mul sumX sumX))"

definition slopeOf64 :: "f64 option list \<Rightarrow> f64" where
  "slopeOf64 vals =
     (let indexedValues = indexValues64 vals 0;
          n = length indexedValues;
          (sumX, sumY, sumXY, sumXX) = regressionSums64 indexedValues (regressionValues64 vals);
          denominator = denominator64 vals
      in if f_eq denominator (Fin 0) then Fin 0
         else f_div (f_sub (f_mul (Fin (real n)) sumXY) (f_mul sumX sumY)) denominator)"

definition squares64 :: "f64 option list \<Rightarrow> f64 \<times> f64" where
  "squares64 vals =
     (let indexedValues = indexValues64 vals 0;
          n = length indexedValues;
          (sumX, sumY, sumXY, sumXX) = regressionSums64 indexedValues (regressionValues64 vals);
          slope = slopeOf64 vals;
          meanY = f_div sumY (Fin (real n));
          intercept = f_div (f_sub sumY (f_mul slope sumX)) (Fin (real n))
      in squaresSums64 indexedValues (regressionValues64 vals) slope intercept meanY)"

definition ssTotal64 :: "f64 option list \<Rightarrow> f64" where
  "ssTotal64 vals = fst (squares64 vals)"

definition ssResidual64 :: "f64 option list \<Rightarrow> f64" where
  "ssResidual64 vals = snd (squares64 vals)"

section \<open>quantile\<close>

lemma quantile_empty: "quantile [] q = Some 0"
  by (simp add: quantile_def)

lemma quantile_low: "xs \<noteq> [] \<Longrightarrow> q \<le> 0 \<Longrightarrow> quantile xs q = Some (hd xs)"
  by (cases xs) (simp_all add: quantile_def js_at_def)

lemma quantile_high: "xs \<noteq> [] \<Longrightarrow> 0 < q \<Longrightarrow> 1 \<le> q \<Longrightarrow> quantile xs q = Some (last xs)"
proof -
  assume ne: "xs \<noteq> []" and q: "0 < q" "1 \<le> q"
  from ne have len: "0 < length xs" by simp
  then have idx: "nat (int (length xs) - 1) = length xs - 1" by simp
  from ne have "last xs = xs ! (length xs - 1)" by (simp add: last_conv_nth)
  with len q idx show ?thesis
    by (simp add: quantile_def js_at_def)
qed

lemma position_bounds:
  fixes q :: real
  assumes "xs \<noteq> []" "0 < q" "q < 1"
  shows "0 \<le> \<lfloor>(real (length xs) - 1) * q\<rfloor>"
    and "\<lfloor>(real (length xs) - 1) * q\<rfloor> < int (length xs)"
    and "0 \<le> \<lceil>(real (length xs) - 1) * q\<rceil>"
    and "\<lceil>(real (length xs) - 1) * q\<rceil> < int (length xs)"
proof -
  let ?p = "(real (length xs) - 1) * q"
  from assms(1) have n1: "1 \<le> real (length xs)"
    by (cases xs) simp_all
  then have p0: "0 \<le> ?p" using assms(2) by simp
  have "?p \<le> (real (length xs) - 1) * 1"
    using n1 assms(3) by (intro mult_left_mono) simp_all
  then have p1: "?p \<le> of_int (int (length xs) - 1)" by simp
  show f0: "0 \<le> \<lfloor>?p\<rfloor>" using p0 by simp
  have fc: "\<lfloor>?p\<rfloor> \<le> \<lceil>?p\<rceil>" by (rule floor_le_ceiling)
  with f0 show "0 \<le> \<lceil>?p\<rceil>" by linarith
  have "\<lceil>?p\<rceil> \<le> int (length xs) - 1"
    using p1 by (subst ceiling_le_iff)
  with fc show "\<lfloor>?p\<rfloor> < int (length xs)" "\<lceil>?p\<rceil> < int (length xs)"
    by linarith+
qed

lemma quantile_mid:
  assumes "xs \<noteq> []" "0 < q" "q < 1"
  shows "quantile xs q =
    Some (xs ! nat \<lfloor>(real (length xs) - 1) * q\<rfloor>
          + (xs ! nat \<lceil>(real (length xs) - 1) * q\<rceil> - xs ! nat \<lfloor>(real (length xs) - 1) * q\<rfloor>)
            * ((real (length xs) - 1) * q - of_int \<lfloor>(real (length xs) - 1) * q\<rfloor>))"
proof -
  note b = position_bounds[OF assms]
  have a1: "js_at xs \<lfloor>(real (length xs) - 1) * q\<rfloor> = Some (xs ! nat \<lfloor>(real (length xs) - 1) * q\<rfloor>)"
    unfolding js_at_def using b(1,2) by (simp only: if_True simp_thms)
  have a2: "js_at xs \<lceil>(real (length xs) - 1) * q\<rceil> = Some (xs ! nat \<lceil>(real (length xs) - 1) * q\<rceil>)"
    unfolding js_at_def using b(3,4) by (simp only: if_True simp_thms)
  from assms show ?thesis
    by (simp add: quantile_def Let_def a1 a2)
qed

lemma quantile_total: "\<exists>r. quantile xs q = Some r"
proof (cases "xs = []")
  case True
  then show ?thesis by (simp add: quantile_empty)
next
  case ne: False
  consider "q \<le> 0" | "0 < q" "1 \<le> q" | "0 < q" "q < 1" by linarith
  then show ?thesis
    using ne by cases (simp_all add: quantile_low quantile_high quantile_mid)
qed

section \<open>The loops as sums\<close>

lemma fold_add_sum_list:
  fixes g :: "'a \<Rightarrow> real"
  shows "fold (\<lambda>e s. s + g e) xs a = a + sum_list (map g xs)"
  by (induction xs arbitrary: a) simp_all

lemma sum_numbers_sum_list: "sum_numbers xs = sum_list xs"
proof -
  have "fold (\<lambda>b a. a + b) xs 0 = 0 + sum_list (map (\<lambda>b. b) xs)"
    by (rule fold_add_sum_list)
  then show ?thesis by (simp add: sum_numbers_def foldl_conv_fold)
qed

lemma regressionSums_prefix:
  assumes "k \<le> length ivs" "length ws = length ivs"
  shows "fold (\<lambda>i (sumX, sumY, sumXY, sumXX).
             case (js_at ivs (int i), js_at ws (int i)) of
               (Some entry, Some y) \<Rightarrow>
                 (let x = real (iv_index entry)
                  in (sumX + x, sumY + y, sumXY + x * y, sumXX + x * x))
             | _ \<Rightarrow> (sumX, sumY, sumXY, sumXX))
          [0..<k] (0, 0, 0, 0)
       = (\<Sum>i<k. real (iv_index (ivs ! i)),
          \<Sum>i<k. ws ! i,
          \<Sum>i<k. real (iv_index (ivs ! i)) * ws ! i,
          \<Sum>i<k. real (iv_index (ivs ! i)) * real (iv_index (ivs ! i)))"
  using assms
proof (induction k)
  case 0
  then show ?case by simp
next
  case (Suc k)
  then have "k < length ivs" "k < length ws" by simp_all
  then have at: "js_at ivs (int k) = Some (ivs ! k)" "js_at ws (int k) = Some (ws ! k)"
    by (simp_all add: js_at_def)
  from Suc show ?case
    by (simp add: at Let_def)
qed

lemma regressionSums_sums:
  assumes "length ws = length ivs"
  shows "regressionSums ivs ws
       = (\<Sum>i<length ivs. real (iv_index (ivs ! i)),
          \<Sum>i<length ivs. ws ! i,
          \<Sum>i<length ivs. real (iv_index (ivs ! i)) * ws ! i,
          \<Sum>i<length ivs. real (iv_index (ivs ! i)) * real (iv_index (ivs ! i)))"
  unfolding regressionSums_def
  by (rule regressionSums_prefix[OF le_refl assms])

lemma squaresSums_prefix:
  assumes "k \<le> length ivs" "length ws = length ivs"
  shows "fold (\<lambda>i (ssTotal, ssResidual).
             case (js_at ivs (int i), js_at ws (int i)) of
               (Some entry, Some y) \<Rightarrow>
                 (let x = real (iv_index entry);
                      diff = y - meanY;
                      predicted = slp * x + intercept;
                      residual = y - predicted
                  in (ssTotal + diff * diff, ssResidual + residual * residual))
             | _ \<Rightarrow> (ssTotal, ssResidual))
          [0..<k] (0, 0)
       = (\<Sum>i<k. (ws ! i - meanY) * (ws ! i - meanY),
          \<Sum>i<k. (ws ! i - (slp * real (iv_index (ivs ! i)) + intercept))
                 * (ws ! i - (slp * real (iv_index (ivs ! i)) + intercept)))"
  using assms
proof (induction k)
  case 0
  then show ?case by simp
next
  case (Suc k)
  then have "k < length ivs" "k < length ws" by simp_all
  then have at: "js_at ivs (int k) = Some (ivs ! k)" "js_at ws (int k) = Some (ws ! k)"
    by (simp_all add: js_at_def)
  from Suc show ?case
    by (simp add: at Let_def)
qed

lemma squaresSums_sums:
  assumes "length ws = length ivs"
  shows "squaresSums ivs ws slp intercept meanY
       = (\<Sum>i<length ivs. (ws ! i - meanY) * (ws ! i - meanY),
          \<Sum>i<length ivs. (ws ! i - (slp * real (iv_index (ivs ! i)) + intercept))
                 * (ws ! i - (slp * real (iv_index (ivs ! i)) + intercept)))"
  unfolding squaresSums_def
  by (rule squaresSums_prefix[OF le_refl assms])

lemma winsorize_total:
  "\<exists>L U. quantile (sort vs) lq = Some L \<and> quantile (sort vs) uq = Some U
         \<and> winsorize vs lq uq = Some (map (\<lambda>v. clamp v L U) vs)"
proof -
  obtain L where L: "quantile (sort vs) lq = Some L" using quantile_total by blast
  obtain U where U: "quantile (sort vs) uq = Some U" using quantile_total by blast
  then show ?thesis using L by (simp add: winsorize_def)
qed

lemma winsorizedYValuesOf_total:
  "\<exists>w. winsorizedYValuesOf ys = Some w \<and> length w = length ys"
proof (cases "20 \<le> length ys")
  case True
  obtain L U where "winsorize ys 0.05 0.95 = Some (map (\<lambda>v. clamp v L U) ys)"
    using winsorize_total by blast
  with True show ?thesis by (simp add: winsorizedYValuesOf_def)
next
  case False
  then show ?thesis by (simp add: winsorizedYValuesOf_def)
qed

section \<open>Least squares\<close>

lemma sum_sq_dev:
  fixes Y :: "nat \<Rightarrow> real"
  assumes "0 < n"
  shows "(\<Sum>i<n. (Y i - (\<Sum>i<n. Y i) / real n) * (Y i - (\<Sum>i<n. Y i) / real n))
       = (\<Sum>i<n. Y i * Y i) - (\<Sum>i<n. Y i) * (\<Sum>i<n. Y i) / real n"
proof -
  let ?m = "(\<Sum>i<n. Y i) / real n"
  have "(\<Sum>i<n. (Y i - ?m) * (Y i - ?m)) = (\<Sum>i<n. Y i * Y i - 2 * ?m * Y i + ?m * ?m)"
    by (rule sum.cong) (simp_all add: algebra_simps)
  also have "\<dots> = (\<Sum>i<n. Y i * Y i) - 2 * ?m * (\<Sum>i<n. Y i) + real n * (?m * ?m)"
    by (simp add: sum.distrib sum_subtractf sum_distrib_left)
  also have "\<dots> = (\<Sum>i<n. Y i * Y i) - (\<Sum>i<n. Y i) * (\<Sum>i<n. Y i) / real n"
    using assms by (simp add: field_simps)
  finally show ?thesis .
qed

lemma ols_denominator_nonneg:
  fixes X :: "nat \<Rightarrow> real"
  shows "0 \<le> real n * (\<Sum>i<n. X i * X i) - (\<Sum>i<n. X i) * (\<Sum>i<n. X i)"
proof (cases "n = 0")
  case True
  then show ?thesis by simp
next
  case False
  then have n: "0 < n" by simp
  have "0 \<le> (\<Sum>i<n. (X i - (\<Sum>i<n. X i) / real n) * (X i - (\<Sum>i<n. X i) / real n))"
    by (rule sum_nonneg) simp
  then have "0 \<le> (\<Sum>i<n. X i * X i) - (\<Sum>i<n. X i) * (\<Sum>i<n. X i) / real n"
    by (simp only: sum_sq_dev[OF n])
  then have "0 \<le> real n * ((\<Sum>i<n. X i * X i) - (\<Sum>i<n. X i) * (\<Sum>i<n. X i) / real n)"
    by simp
  then show ?thesis using n by (simp add: field_simps)
qed

lemma ols_residual_expand:
  fixes X Y :: "nat \<Rightarrow> real"
  shows "(\<Sum>i<n. (Y i - (b * X i + a)) * (Y i - (b * X i + a)))
       = (\<Sum>i<n. Y i * Y i) + b * b * (\<Sum>i<n. X i * X i) + real n * (a * a)
         - 2 * b * (\<Sum>i<n. X i * Y i) - 2 * a * (\<Sum>i<n. Y i) + 2 * a * b * (\<Sum>i<n. X i)"
proof -
  have "(\<Sum>i<n. (Y i - (b * X i + a)) * (Y i - (b * X i + a)))
      = (\<Sum>i<n. Y i * Y i + b * b * (X i * X i) + a * a
               - 2 * b * (X i * Y i) - 2 * a * Y i + 2 * a * b * X i)"
    by (rule sum.cong) (simp_all add: algebra_simps)
  also have "\<dots> = (\<Sum>i<n. Y i * Y i) + b * b * (\<Sum>i<n. X i * X i) + real n * (a * a)
         - 2 * b * (\<Sum>i<n. X i * Y i) - 2 * a * (\<Sum>i<n. Y i) + 2 * a * b * (\<Sum>i<n. X i)"
    by (simp add: sum.distrib sum_subtractf sum_distrib_left)
  finally show ?thesis .
qed

lemma ols_algebra:
  fixes Sx Sy Sxy Sxx Syy N :: real
  assumes N: "0 < N" and D: "0 < N * Sxx - Sx * Sx"
  defines "b \<equiv> (N * Sxy - Sx * Sy) / (N * Sxx - Sx * Sx)"
  defines "a \<equiv> (Sy - b * Sx) / N"
  shows "(Syy - Sy * Sy / N)
         - (Syy + b * b * Sxx + N * (a * a) - 2 * b * Sxy - 2 * a * Sy + 2 * a * b * Sx)
       = (N * Sxy - Sx * Sy) * (N * Sxy - Sx * Sy) / (N * (N * Sxx - Sx * Sx))"
proof -
  define Dn where "Dn = N * Sxx - Sx * Sx"
  define C where "C = N * Sxy - Sx * Sy"
  have b: "b = C / Dn" by (simp add: b_def C_def Dn_def)
  have Dn: "Dn \<noteq> 0" using D by (simp add: Dn_def)
  have N0: "N \<noteq> 0" using N by simp
  have Sxx: "Sxx = (Dn + Sx * Sx) / N" using N0 by (simp add: Dn_def)
  have Sxy: "Sxy = (C + Sx * Sy) / N" using N0 by (simp add: C_def)
  have "(Syy - Sy * Sy / N)
         - (Syy + b * b * Sxx + N * (a * a) - 2 * b * Sxy - 2 * a * Sy + 2 * a * b * Sx)
       = C * C / (N * Dn)"
    unfolding a_def b Sxx Sxy using Dn N0
    by (simp add: field_simps) 
  then show ?thesis by (simp add: C_def Dn_def)
qed

section \<open>The result in closed form\<close>

lemma winsorizedYValuesOf_length:
  "winsorizedYValuesOf ys = Some w \<Longrightarrow> length w = length ys"
  using winsorizedYValuesOf_total[of ys] by auto

lemma variance_nonneg:
  fixes g :: "'a \<Rightarrow> real"
  shows "0 \<le> sum_list (map (\<lambda>e. (g e - m) * (g e - m)) xs) / real (length xs)"
  by (intro divide_nonneg_nonneg sum_list_nonneg) auto

lemma computeLineChartAnalysis_closed:
  fixes vals :: "real option list"
  defines "ivs \<equiv> indexValues vals 0"
  defines "n \<equiv> length ivs"
  defines "X \<equiv> \<lambda>i. real (iv_index (ivs ! i))"
  assumes n2: "2 \<le> n" and w: "winsorizedYValuesOf (map iv_value ivs) = Some w"
  defines "Sx \<equiv> \<Sum>i<n. X i" and "Sy \<equiv> \<Sum>i<n. w ! i"
    and "Sxy \<equiv> \<Sum>i<n. X i * w ! i" and "Sxx \<equiv> \<Sum>i<n. X i * X i"
  defines "D \<equiv> real n * Sxx - Sx * Sx"
  defines "b \<equiv> if D = 0 then 0 else (real n * Sxy - Sx * Sy) / D"
  defines "m \<equiv> sum_list (map iv_value ivs) / real n"
  defines "sd \<equiv> sqrt (sum_list (map (\<lambda>e. (iv_value e - m) * (iv_value e - m)) ivs) / real n)"
  defines "cov \<equiv> if m = 0 then None else Some (sd / m)"
  defines "SST \<equiv> \<Sum>i<n. (w ! i - Sy / real n) * (w ! i - Sy / real n)"
  defines "SSR \<equiv> \<Sum>i<n. (w ! i - (b * X i + (Sy - b * Sx) / real n))
                        * (w ! i - (b * X i + (Sy - b * Sx) / real n))"
  defines "r2 \<equiv> if D \<noteq> 0 \<and> SST \<noteq> 0 then Some (1 - SSR / SST) else None"
  defines "wm \<equiv> sum_list w / real n"
  defines "rel \<equiv> if wm = 0 then 0 else \<bar>b\<bar> / wm"
  shows "computeLineChartAnalysis vals =
    Some \<lparr>mean = m, standardDeviation = sd, coefficientOfVariation = cov, slope = b,
          rSquared = r2,
          interp = \<lparr>volatility = volatilityOf cov, trend = trendOf sd r2 rel\<rparr>\<rparr>"
proof -
  have len: "length w = length ivs"
    using winsorizedYValuesOf_length[OF w] by simp
  have lenw: "length w = n" by (simp add: len n_def)
  have n0: "n \<noteq> 0" "n \<noteq> 1" "real n \<noteq> 0" "0 < n"
    using n2 by auto
  have divn: "\<And>A. js_div A (real n) = Some (A / real n)"
    using n0 by (simp add: js_div_def)
  have s1: "js_div (fold (\<lambda>entry s. s + iv_value entry) ivs 0) (real n) = Some m"
    by (simp add: divn fold_add_sum_list m_def)
  have s2: "js_div (fold (\<lambda>entry s. s + (iv_value entry - m) * (iv_value entry - m)) ivs 0)
              (real n)
            = Some (sum_list (map (\<lambda>e. (iv_value e - m) * (iv_value e - m)) ivs) / real n)"
    by (simp add: divn fold_add_sum_list)
  have s3: "js_sqrt (sum_list (map (\<lambda>e. (iv_value e - m) * (iv_value e - m)) ivs) / real n)
            = Some sd"
    using variance_nonneg[of iv_value m ivs] by (simp add: js_sqrt_def sd_def n_def)
  have s4: "(if m = 0 then Some None else map_option Some (js_div sd m)) = Some cov"
    by (simp add: cov_def js_div_def)
  have sums: "regressionSums ivs w = (Sx, Sy, Sxy, Sxx)"
    unfolding Sx_def Sy_def Sxy_def Sxx_def X_def n_def
    by (rule regressionSums_sums[OF len])
  have s5: "(if real n * Sxx - Sx * Sx = 0 then Some 0
             else js_div (real n * Sxy - Sx * Sy) (real n * Sxx - Sx * Sx)) = Some b"
    by (simp add: b_def D_def js_div_def)
  have sq: "squaresSums ivs w b ((Sy - b * Sx) / real n) (Sy / real n) = (SST, SSR)"
    unfolding SST_def SSR_def X_def n_def
    by (rule squaresSums_sums[OF len])
  have s6: "(if real n * Sxx - Sx * Sx \<noteq> 0 then
               js_div Sy (real n) \<bind> (\<lambda>meanY.
               js_div (Sy - b * Sx) (real n) \<bind> (\<lambda>intercept.
               case squaresSums ivs w b intercept meanY of
                 (ssTotal, ssResidual) \<Rightarrow>
                   if ssTotal \<noteq> 0
                   then js_div ssResidual ssTotal \<bind> (\<lambda>ratio. Some (Some (1 - ratio)))
                   else Some None))
             else Some None) = Some r2"
    using n0 by (simp add: divn sq r2_def D_def js_div_def)
  have s7: "(if 0 < length w then js_div (sum_numbers w) (real (length w)) else Some 0) = Some wm"
    using n0 by (simp add: lenw divn sum_numbers_sum_list wm_def)
  have s8: "(if wm = 0 then Some 0 else js_div \<bar>b\<bar> wm) = Some rel"
    by (simp add: rel_def js_div_def)
  show ?thesis
    unfolding computeLineChartAnalysis_def Let_def ivs_def[symmetric] n_def[symmetric]
    by (simp only: n0 if_False s1 s2 s3 s4 s5 s6 s7 s8 w sums
          Option.bind.bind_lunit list.map prod.case)
qed

section \<open>The observations\<close>

lemma indexValues_all_missing: "set vals \<subseteq> {None} \<Longrightarrow> indexValues vals i = []"
  by (induction vals arbitrary: i) auto

lemma indexValues_values:
  "map iv_value (indexValues vals i) = map the (filter (\<lambda>v. v \<noteq> None) vals)"
  by (induction vals i rule: indexValues.induct) simp_all


section \<open>Sums over lists, and the indices of the observations\<close>

lemma sum_list_map_nth:
  fixes f :: "'a \<Rightarrow> real"
  shows "sum_list (map f xs) = (\<Sum>i<length xs. f (xs ! i))"
proof -
  have "sum_list (map f xs) = (\<Sum>i = 0..<length (map f xs). map f xs ! i)"
    by (rule sum_list_sum_nth)
  also have "\<dots> = (\<Sum>i<length xs. f (xs ! i))"
    by (simp add: atLeast0LessThan)
  finally show ?thesis .
qed

lemma sum_list_zip_nth:
  fixes f :: "'a \<Rightarrow> 'b \<Rightarrow> real"
  assumes "length ys = length xs"
  shows "(\<Sum>(x, y)\<leftarrow>zip xs ys. f x y) = (\<Sum>i<length xs. f (xs ! i) (ys ! i))"
proof -
  have "(\<Sum>(x, y)\<leftarrow>zip xs ys. f x y) = (\<Sum>i<length (zip xs ys). (\<lambda>(x, y). f x y) (zip xs ys ! i))"
    by (rule sum_list_map_nth)
  also have "\<dots> = (\<Sum>i<length xs. f (xs ! i) (ys ! i))"
    using assms by simp
  finally show ?thesis .
qed

lemma indexValues_indices:
  "map iv_index (indexValues vals k) = map (\<lambda>i. i + k) (filter (\<lambda>i. vals ! i \<noteq> None) [0..<length vals])"
proof (induction vals k rule: indexValues.induct)
  case (1 i)
  then show ?case by simp
next
  case (2 vs i)
  have "filter (\<lambda>j. (None # vs) ! j \<noteq> None) [0..<length (None # vs)]
      = filter (\<lambda>j. (None # vs) ! j \<noteq> None) (0 # map Suc [0..<length vs])"
    by (simp add: upt_conv_Cons map_Suc_upt del: upt_Suc)
  also have "\<dots> = map Suc (filter (\<lambda>j. vs ! j \<noteq> None) [0..<length vs])"
    by (simp add: filter_map comp_def)
  finally show ?case using 2 by (simp add: comp_def del: upt_Suc)
next
  case (3 v vs i)
  have "filter (\<lambda>j. (Some v # vs) ! j \<noteq> None) [0..<length (Some v # vs)]
      = filter (\<lambda>j. (Some v # vs) ! j \<noteq> None) (0 # map Suc [0..<length vs])"
    by (simp add: upt_conv_Cons map_Suc_upt del: upt_Suc)
  also have "\<dots> = 0 # map Suc (filter (\<lambda>j. vs ! j \<noteq> None) [0..<length vs])"
    by (simp add: filter_map comp_def)
  finally show ?case using 3 by (simp add: comp_def del: upt_Suc)
qed

lemma indexValues_entries:
  "e \<in> set (indexValues vals k) \<Longrightarrow>
     k \<le> iv_index e \<and> iv_index e - k < length vals \<and> vals ! (iv_index e - k) = Some (iv_value e)"
proof (induction vals k rule: indexValues.induct)
  case (1 i)
  then show ?case by simp
next
  case (2 vs i)
  then have "i + 1 \<le> iv_index e \<and> iv_index e - (i + 1) < length vs
             \<and> vs ! (iv_index e - (i + 1)) = Some (iv_value e)"
    by simp
  then show ?case by (auto simp: nth_Cons')
next
  case (3 v vs i)
  from "3.prems" consider "e = \<lparr>iv_value = v, iv_index = i\<rparr>" | "e \<in> set (indexValues vs (i + 1))"
    by auto
  then show ?case
  proof cases
    case 1
    then show ?thesis by simp
  next
    case 2
    with "3.IH" have "i + 1 \<le> iv_index e \<and> iv_index e - (i + 1) < length vs
             \<and> vs ! (iv_index e - (i + 1)) = Some (iv_value e)"
      by simp
    then show ?thesis by (auto simp: nth_Cons')
  qed
qed

section \<open>The least-squares fit\<close>

lemma ols_residual_le_total:
  fixes X Y :: "nat \<Rightarrow> real"
  assumes n: "0 < n"
    and D: "real n * (\<Sum>i<n. X i * X i) - (\<Sum>i<n. X i) * (\<Sum>i<n. X i) \<noteq> 0"
  defines "b \<equiv> (real n * (\<Sum>i<n. X i * Y i) - (\<Sum>i<n. X i) * (\<Sum>i<n. Y i))
                / (real n * (\<Sum>i<n. X i * X i) - (\<Sum>i<n. X i) * (\<Sum>i<n. X i))"
  defines "a \<equiv> ((\<Sum>i<n. Y i) - b * (\<Sum>i<n. X i)) / real n"
  shows "(\<Sum>i<n. (Y i - (b * X i + a)) * (Y i - (b * X i + a)))
       \<le> (\<Sum>i<n. (Y i - (\<Sum>i<n. Y i) / real n) * (Y i - (\<Sum>i<n. Y i) / real n))"
proof -
  let ?Sx = "\<Sum>i<n. X i" and ?Sy = "\<Sum>i<n. Y i" and ?Sxy = "\<Sum>i<n. X i * Y i"
  let ?Sxx = "\<Sum>i<n. X i * X i" and ?Syy = "\<Sum>i<n. Y i * Y i"
  have N: "0 < real n" using n by simp
  have Dpos: "0 < real n * ?Sxx - ?Sx * ?Sx"
    using D ols_denominator_nonneg[of n X] by linarith
  have "(?Syy - ?Sy * ?Sy / real n)
        - (?Syy + b * b * ?Sxx + real n * (a * a) - 2 * b * ?Sxy - 2 * a * ?Sy + 2 * a * b * ?Sx)
      = (real n * ?Sxy - ?Sx * ?Sy) * (real n * ?Sxy - ?Sx * ?Sy)
          / (real n * (real n * ?Sxx - ?Sx * ?Sx))"
    unfolding a_def b_def by (rule ols_algebra[OF N Dpos])
  moreover have "0 \<le> (real n * ?Sxy - ?Sx * ?Sy) * (real n * ?Sxy - ?Sx * ?Sy)
          / (real n * (real n * ?Sxx - ?Sx * ?Sx))"
    using N Dpos by (intro divide_nonneg_nonneg) simp_all
  ultimately have "(?Syy + b * b * ?Sxx + real n * (a * a) - 2 * b * ?Sxy - 2 * a * ?Sy
                      + 2 * a * b * ?Sx)
                 \<le> ?Syy - ?Sy * ?Sy / real n"
    by linarith
  then show ?thesis
    by (simp only: ols_residual_expand sum_sq_dev[OF n])
qed

lemma rSquared_range:
  fixes SSR SST :: real
  assumes "0 \<le> SSR" "SSR \<le> SST" "0 < SST"
  shows "0 \<le> 1 - SSR / SST" "1 - SSR / SST \<le> 1"
  using assms by (simp_all add: field_simps)

section \<open>The result and the closed form of the specification\<close>

lemma sum_list_nth:
  fixes xs :: "real list"
  shows "sum_list xs = (\<Sum>i<length xs. xs ! i)"
  using sum_list_map_nth[of "\<lambda>x. x" xs] by simp

lemma spec_sums:
  fixes ivs :: "IndexedValue list" and w :: "real list"
  defines "xs \<equiv> map (\<lambda>e. real (iv_index e)) ivs"
  defines "n \<equiv> length ivs"
  defines "X \<equiv> \<lambda>i. real (iv_index (ivs ! i))"
  assumes len: "length w = n"
  shows "sum_list xs = (\<Sum>i<n. X i)"
    and "(\<Sum>x\<leftarrow>xs. x * x) = (\<Sum>i<n. X i * X i)"
    and "(\<Sum>(x, y)\<leftarrow>zip xs w. x * y) = (\<Sum>i<n. X i * w ! i)"
    and "(\<Sum>(x, y)\<leftarrow>zip xs w. (y - (b * x + a))\<^sup>2)
          = (\<Sum>i<n. (w ! i - (b * X i + a)) * (w ! i - (b * X i + a)))"
    and "(\<Sum>y\<leftarrow>w. (y - c)\<^sup>2) = (\<Sum>i<n. (w ! i - c) * (w ! i - c))"
    and "length xs = n"
proof -
  have lx: "length xs = n" by (simp add: xs_def n_def)
  then show "length xs = n" .
  have nth: "xs ! i = X i" if "i < n" for i
    using that by (simp add: xs_def X_def n_def)
  have lw: "length w = length xs" using len lx by simp
  show "sum_list xs = (\<Sum>i<n. X i)"
    unfolding sum_list_nth lx by (rule sum.cong) (simp_all add: nth)
  show "(\<Sum>x\<leftarrow>xs. x * x) = (\<Sum>i<n. X i * X i)"
    unfolding sum_list_map_nth lx by (rule sum.cong) (simp_all add: nth)
  show "(\<Sum>(x, y)\<leftarrow>zip xs w. x * y) = (\<Sum>i<n. X i * w ! i)"
    unfolding sum_list_zip_nth[OF lw] lx by (rule sum.cong) (simp_all add: nth)
  show "(\<Sum>(x, y)\<leftarrow>zip xs w. (y - (b * x + a))\<^sup>2)
          = (\<Sum>i<n. (w ! i - (b * X i + a)) * (w ! i - (b * X i + a)))"
    unfolding sum_list_zip_nth[OF lw] lx
    by (rule sum.cong) (simp_all add: nth power2_eq_square)
  show "(\<Sum>y\<leftarrow>w. (y - c)\<^sup>2) = (\<Sum>i<n. (w ! i - c) * (w ! i - c))"
    unfolding sum_list_map_nth len
    by (rule sum.cong) (simp_all add: power2_eq_square)
qed

lemma computeLineChartAnalysis_spec:
  fixes vals :: "real option list"
  defines "ivs \<equiv> indexValues vals 0"
  defines "n \<equiv> length ivs"
  defines "xs \<equiv> map (\<lambda>e. real (iv_index e)) ivs"
  assumes n2: "2 \<le> n" and w: "winsorizedYValuesOf (map iv_value ivs) = Some w"
  defines "m \<equiv> sum_list (map iv_value ivs) / real n"
  defines "sd \<equiv> sqrt (sum_list (map (\<lambda>e. (iv_value e - m) * (iv_value e - m)) ivs) / real n)"
  defines "cov \<equiv> if m = 0 then None else Some (sd / m)"
  defines "wm \<equiv> sum_list w / real n"
  defines "rel \<equiv> if wm = 0 then 0 else \<bar>spec_slope xs w\<bar> / wm"
  shows "computeLineChartAnalysis vals =
    Some \<lparr>mean = m, standardDeviation = sd, coefficientOfVariation = cov,
          slope = spec_slope xs w, rSquared = spec_rSquared xs w,
          interp = \<lparr>volatility = volatilityOf cov,
                    trend = trendOf sd (spec_rSquared xs w) rel\<rparr>\<rparr>"
proof -
  have len: "length w = length ivs"
    using winsorizedYValuesOf_length[OF w] by simp
  note S = spec_sums[OF len]
  have Sw: "sum_list w = (\<Sum>i<length ivs. w ! i)"
    unfolding sum_list_nth len ..
  have den: "spec_denominator xs
      = real n * (\<Sum>i<n. real (iv_index (ivs ! i)) * real (iv_index (ivs ! i)))
        - (\<Sum>i<n. real (iv_index (ivs ! i))) * (\<Sum>i<n. real (iv_index (ivs ! i)))"
    unfolding spec_denominator_def xs_def n_def by (simp only: S)
  have slp: "spec_slope xs w
      = (if spec_denominator xs = 0 then 0
         else (real n * (\<Sum>i<n. real (iv_index (ivs ! i)) * w ! i)
               - (\<Sum>i<n. real (iv_index (ivs ! i))) * (\<Sum>i<n. w ! i)) / spec_denominator xs)"
    unfolding spec_slope_def xs_def n_def by (simp only: S Sw len)
  have sst: "spec_ssTotal w
      = (\<Sum>i<n. (w ! i - (\<Sum>i<n. w ! i) / real n) * (w ! i - (\<Sum>i<n. w ! i) / real n))"
    unfolding spec_ssTotal_def n_def by (simp only: S Sw len)
  have ssr: "spec_ssResidual xs w
      = (\<Sum>i<n. (w ! i - (spec_slope xs w * real (iv_index (ivs ! i))
                            + ((\<Sum>i<n. w ! i) - spec_slope xs w * (\<Sum>i<n. real (iv_index (ivs ! i)))) / real n))
               * (w ! i - (spec_slope xs w * real (iv_index (ivs ! i))
                            + ((\<Sum>i<n. w ! i) - spec_slope xs w * (\<Sum>i<n. real (iv_index (ivs ! i)))) / real n)))"
    unfolding spec_ssResidual_def Let_def xs_def n_def by (simp only: S Sw len)
  have r2: "spec_rSquared xs w
      = (if spec_denominator xs \<noteq> 0 \<and> spec_ssTotal w \<noteq> 0
         then Some (1 - spec_ssResidual xs w / spec_ssTotal w) else None)"
    by (simp add: spec_rSquared_def)
  show ?thesis
    unfolding r2 rel_def wm_def cov_def sd_def m_def
    unfolding slp ssr sst den
    unfolding n_def ivs_def
    by (rule computeLineChartAnalysis_closed[OF n2[unfolded n_def ivs_def] w[unfolded ivs_def]])
qed

lemma squaresSums_bounds:
  fixes ivs :: "IndexedValue list" and w :: "real list"
  defines "n \<equiv> real (length ivs)"
  assumes len: "length w = length ivs" and ne: "ivs \<noteq> []"
    and sums: "regressionSums ivs w = (sumX, sumY, sumXY, sumXX)"
    and den: "n * sumXX - sumX * sumX \<noteq> 0"
    and slp: "slp = (n * sumXY - sumX * sumY) / (n * sumXX - sumX * sumX)"
    and sq: "squaresSums ivs w slp ((sumY - slp * sumX) / n) (sumY / n) = (ssTotal, ssResidual)"
  shows "0 \<le> ssResidual" and "ssResidual \<le> ssTotal" and "0 \<le> ssTotal"
proof -
  let ?X = "\<lambda>i. real (iv_index (ivs ! i))" and ?Y = "\<lambda>i. w ! i"
  have n0: "0 < length ivs" using ne by simp
  from sums have S: "sumX = (\<Sum>i<length ivs. ?X i)" "sumY = (\<Sum>i<length ivs. ?Y i)"
    "sumXY = (\<Sum>i<length ivs. ?X i * ?Y i)" "sumXX = (\<Sum>i<length ivs. ?X i * ?X i)"
    by (simp_all add: regressionSums_sums[OF len])
  from sq have Q: "ssTotal = (\<Sum>i<length ivs. (?Y i - sumY / n) * (?Y i - sumY / n))"
    "ssResidual = (\<Sum>i<length ivs. (?Y i - (slp * ?X i + (sumY - slp * sumX) / n))
                                  * (?Y i - (slp * ?X i + (sumY - slp * sumX) / n)))"
    by (simp_all add: squaresSums_sums[OF len])
  show "0 \<le> ssResidual" unfolding Q by (rule sum_nonneg) simp
  show "0 \<le> ssTotal" unfolding Q by (rule sum_nonneg) simp
  show "ssResidual \<le> ssTotal"
    unfolding Q slp
    unfolding S n_def
    by (rule ols_residual_le_total[OF n0 den[unfolded S n_def]])
qed

lemma analysis_rSquared_bounds:
  assumes a: "computeLineChartAnalysis vals = Some r \<and> rSquared r = Some v"
  shows "0 \<le> v" and "v \<le> 1"
proof -
  let ?ivs = "indexValues vals 0"
  let ?n = "length ?ivs"
  let ?X = "\<lambda>i. real (iv_index (?ivs ! i))"
  have n2: "2 \<le> ?n"
  proof (rule ccontr)
    assume "\<not> 2 \<le> ?n"
    then consider "?n = 0" | "?n = 1" by linarith
    then have "\<exists>r'. computeLineChartAnalysis vals = Some r' \<and> rSquared r' = None"
      by cases (simp_all add: computeLineChartAnalysis_def Let_def)
    with a show False by auto
  qed
  obtain w' where w': "winsorizedYValuesOf (map iv_value ?ivs) = Some w'"
    using winsorizedYValuesOf_total by blast
  have len: "length w' = ?n" using winsorizedYValuesOf_length[OF w'] by simp
  define Sx where "Sx = (\<Sum>i<?n. ?X i)"
  define Sy where "Sy = (\<Sum>i<?n. w' ! i)"
  define Sxy where "Sxy = (\<Sum>i<?n. ?X i * w' ! i)"
  define Sxx where "Sxx = (\<Sum>i<?n. ?X i * ?X i)"
  define b where "b = (if real ?n * Sxx - Sx * Sx = 0 then 0
                       else (real ?n * Sxy - Sx * Sy) / (real ?n * Sxx - Sx * Sx))"
  define SST where "SST = (\<Sum>i<?n. (w' ! i - Sy / real ?n) * (w' ! i - Sy / real ?n))"
  define SSR where "SSR = (\<Sum>i<?n. (w' ! i - (b * ?X i + (Sy - b * Sx) / real ?n))
                                  * (w' ! i - (b * ?X i + (Sy - b * Sx) / real ?n)))"
  note cl = computeLineChartAnalysis_closed[OF n2 w', folded Sx_def Sy_def Sxy_def Sxx_def,
      folded b_def, folded SST_def SSR_def]
  from a have "rSquared r = (if real ?n * Sxx - Sx * Sx \<noteq> 0 \<and> SST \<noteq> 0 then Some (1 - SSR / SST) else None)"
    unfolding cl by auto
  with a have D: "real ?n * Sxx - Sx * Sx \<noteq> 0" and T: "SST \<noteq> 0" and v: "v = 1 - SSR / SST"
    by (auto split: if_splits)
  have sums: "regressionSums ?ivs w' = (Sx, Sy, Sxy, Sxx)"
    unfolding Sx_def Sy_def Sxy_def Sxx_def by (rule regressionSums_sums[OF len])
  have bD: "b = (real ?n * Sxy - Sx * Sy) / (real ?n * Sxx - Sx * Sx)"
    using D by (simp add: b_def)
  have sq: "squaresSums ?ivs w' b ((Sy - b * Sx) / real ?n) (Sy / real ?n) = (SST, SSR)"
    unfolding SST_def SSR_def by (rule squaresSums_sums[OF len])
  have ne: "?ivs \<noteq> []" using n2 by auto
  note B = squaresSums_bounds[OF len ne sums D bD sq]
  from B(3) T have "0 < SST" by linarith
  with B(1,2) show "0 \<le> v" "v \<le> 1"
    unfolding v by (rule rSquared_range)+
qed

section \<open>The result in terms of the observations\<close>

lemma indexValues_spec_indices: "map iv_index (indexValues vals 0) = spec_indices vals"
  by (simp add: indexValues_indices spec_indices_def)

lemma indexValues_spec_values: "map iv_value (indexValues vals 0) = spec_values vals"
  by (simp add: indexValues_values spec_values_def)

lemma spec_lengths:
  "length (spec_values vals) = length (indexValues vals 0)"
  "length (spec_indices vals) = length (indexValues vals 0)"
  using indexValues_spec_values[of vals, symmetric] indexValues_spec_indices[of vals, symmetric]
  by simp_all

lemma spec_xs: "map (\<lambda>e. real (iv_index e)) (indexValues vals 0) = map real (spec_indices vals)"
proof -
  have "map (\<lambda>e. real (iv_index e)) (indexValues vals 0)
      = map real (map iv_index (indexValues vals 0))"
    by (simp add: comp_def)
  then show ?thesis by (simp only: indexValues_spec_indices)
qed

lemma spec_variance:
  "(\<Sum>e\<leftarrow>indexValues vals 0. (iv_value e - m) * (iv_value e - m))
     = (\<Sum>y\<leftarrow>spec_values vals. (y - m)\<^sup>2)"
proof -
  have "(\<Sum>y\<leftarrow>map iv_value (indexValues vals 0). (y - m)\<^sup>2)
      = (\<Sum>e\<leftarrow>indexValues vals 0. (iv_value e - m) * (iv_value e - m))"
    by (simp add: comp_def power2_eq_square)
  then show ?thesis by (simp only: indexValues_spec_values)
qed

text \<open>The result on a series of at least two observations, in the specification's words.\<close>

lemma analysis_of_observations:
  fixes vals :: "real option list"
  defines "xs \<equiv> map real (spec_indices vals)"
  defines "ys \<equiv> spec_values vals"
  defines "n \<equiv> real (length ys)"
  assumes n2: "2 \<le> length ys" and w: "winsorizedYValuesOf ys = Some w"
  defines "m \<equiv> sum_list ys / n"
  defines "sd \<equiv> sqrt (spec_ssTotal ys / n)"
  defines "cov \<equiv> if m = 0 then None else Some (sd / m)"
  defines "wm \<equiv> sum_list w / real (length w)"
  defines "rel \<equiv> if wm = 0 then 0 else \<bar>spec_slope xs w\<bar> / wm"
  shows "computeLineChartAnalysis vals =
    Some \<lparr>mean = m, standardDeviation = sd, coefficientOfVariation = cov,
          slope = spec_slope xs w, rSquared = spec_rSquared xs w,
          interp = \<lparr>volatility = volatilityOf cov,
                    trend = trendOf sd (spec_rSquared xs w) rel\<rparr>\<rparr>"
proof -
  have n2': "2 \<le> length (indexValues vals 0)"
    using n2 by (simp add: ys_def spec_lengths)
  have w': "winsorizedYValuesOf (map iv_value (indexValues vals 0)) = Some w"
    using w by (simp add: ys_def indexValues_spec_values)
  have lw: "length w = length (indexValues vals 0)"
    using winsorizedYValuesOf_length[OF w'] by simp
  have lw': "length w = length (spec_values vals)"
    using lw by (simp add: spec_lengths)
  note A = computeLineChartAnalysis_spec[OF n2' w', unfolded spec_xs spec_variance
      indexValues_spec_values spec_lengths(1)[symmetric]]
  show ?thesis
    unfolding rel_def wm_def cov_def sd_def m_def n_def spec_ssTotal_def xs_def ys_def lw'
    by (rule A)
qed

lemma analysis_no_observation:
  assumes "spec_values vals = []"
  shows "computeLineChartAnalysis vals =
     Some \<lparr>mean = 0, standardDeviation = 0, coefficientOfVariation = None, slope = 0,
           rSquared = None,
           interp = \<lparr>volatility = V_undefined, trend = T_undefined\<rparr>\<rparr>"
proof -
  have "length (indexValues vals 0) = 0"
    using assms spec_lengths(1)[of vals] by simp
  then show ?thesis by (simp add: computeLineChartAnalysis_def)
qed

lemma analysis_one_observation:
  assumes "length (spec_values vals) = 1"
  shows "computeLineChartAnalysis vals =
     Some \<lparr>mean = hd (spec_values vals), standardDeviation = 0, coefficientOfVariation = None,
           slope = 0, rSquared = None,
           interp = \<lparr>volatility = V_very_stable, trend = T_none\<rparr>\<rparr>"
proof -
  have len: "length (indexValues vals 0) = 1"
    using assms by (simp add: spec_lengths)
  then obtain e where e: "indexValues vals 0 = [e]"
    by (cases "indexValues vals 0") simp_all
  then have "spec_values vals = [iv_value e]"
    using indexValues_spec_values[of vals] by simp
  with e show ?thesis
    by (simp add: computeLineChartAnalysis_def Let_def js_at_def)
qed

lemma trendOf_cases:
  "(sd = 0 \<longrightarrow> trendOf sd r2 rel = T_none)
   \<and> (sd \<noteq> 0 \<and> r2 = None \<longrightarrow> trendOf sd r2 rel = T_undefined)
   \<and> (\<forall>v. sd \<noteq> 0 \<and> r2 = Some v \<longrightarrow>
          (v > 0.75 \<longrightarrow> trendOf sd r2 rel = T_strong)
        \<and> (0.4 < v \<and> v \<le> 0.75 \<longrightarrow>
              trendOf sd r2 rel = (if rel \<ge> 0.06 then T_strong else T_weak))
        \<and> (v \<le> 0.4 \<longrightarrow>
              trendOf sd r2 rel = (if rel \<ge> 0.03 then T_weak else T_none)))"
  by (auto simp: trendOf_def Let_def)

section \<open>A flat series with an outlier\<close>

lemma flat_winsorized:
  "winsorizedYValuesOf [5, 5, 5, 5, 5, 5, 5, 5, 5, 5, 5, 5, 5, 5, 5, 5, 5, 5, 5, 5, 1000]
    = Some [5, 5, 5, 5, 5, 5, 5, 5, 5, 5, 5, 5, 5, 5, 5, 5, 5, 5, 5, 5, 5]"
  by (simp add: winsorizedYValuesOf_def winsorize_def quantile_def js_at_def clamp_def)

lemma flat_values:
  "spec_values [Some 5, Some 5, Some 5, Some 5, Some 5, Some 5, Some 5, Some 5, Some 5, Some 5,
                Some 5, Some 5, Some 5, Some 5, Some 5, Some 5, Some 5, Some 5, Some 5, Some 5,
                Some 1000]
   = [5, 5, 5, 5, 5, 5, 5, 5, 5, 5, 5, 5, 5, 5, 5, 5, 5, 5, 5, 5, 1000]"
  by (simp add: spec_values_def)

lemma flat_ssTotal:
  "spec_ssTotal [5, 5, 5, 5, 5, 5, 5, 5, 5, 5, 5, 5, 5, 5, 5, 5, 5, 5, 5, 5, 5] = 0"
  "spec_ssTotal [5, 5, 5, 5, 5, 5, 5, 5, 5, 5, 5, 5, 5, 5, 5, 5, 5, 5, 5, 5, 1000] \<noteq> 0"
  by (simp_all add: spec_ssTotal_def power2_eq_square)

section \<open>The regression of the result\<close>

lemma analysis_regression:
  assumes n2: "2 \<le> length (spec_values vals)"
    and w: "winsorizedYValuesOf (spec_values vals) = Some w"
  shows "\<exists>r. computeLineChartAnalysis vals = Some r
     \<and> slope r = spec_slope (map real (spec_indices vals)) w
     \<and> rSquared r = spec_rSquared (map real (spec_indices vals)) w
     \<and> standardDeviation r = sqrt (spec_ssTotal (spec_values vals) / real (length (spec_values vals)))"
  unfolding analysis_of_observations[OF n2 w] by simp

section \<open>Rounding\<close>

text \<open>
  \<open>round64\<close> is evaluated from a binary exponent \<open>e\<close> and an integer \<open>m\<close> given in
  advance: the hypotheses of the following lemmas are comparisons of rational numbers.
\<close>

lemma expo_eq:
  assumes "2 powi e \<le> \<bar>x\<bar>" "\<bar>x\<bar> < 2 powi (e + 1)"
  shows "expo x = e"
proof -
  have pos: "0 < \<bar>x\<bar>"
    using assms(1) zero_less_power_int[of "2 :: real" e] by linarith
  have "(2 :: real) powr real_of_int e = 2 powi e"
    "(2 :: real) powr real_of_int (e + 1) = 2 powi (e + 1)"
    by (rule powr_real_of_int'; simp)+
  with assms have "2 powr real_of_int e \<le> \<bar>x\<bar> \<and> \<bar>x\<bar> < 2 powr real_of_int (e + 1)"
    by simp
  then show ?thesis
    unfolding expo_def using pos by (subst floor_log_eq_powr_iff) simp_all
qed

lemma pow2_le_nonzero:
  assumes "2 powi e \<le> \<bar>x :: real\<bar>"
  shows "x \<noteq> 0"
proof
  assume "x = 0"
  with assms have "(2 :: real) powi e \<le> 0" by simp
  moreover have "0 < (2 :: real) powi e" by simp
  ultimately show False by linarith
qed

lemma round_even_near:
  assumes "\<bar>y - of_int m\<bar> < 1 / 2"
  shows "round_even y = m"
proof -
  from assms have b: "of_int m - 1 / 2 < y" "y < of_int m + 1 / 2" by linarith+
  then have "\<lfloor>y\<rfloor> = m \<or> \<lfloor>y\<rfloor> = m - 1" by linarith
  then show ?thesis
  proof
    assume f: "\<lfloor>y\<rfloor> = m"
    with b show ?thesis by (simp add: round_even_def Let_def)
  next
    assume f: "\<lfloor>y\<rfloor> = m - 1"
    with b have "1 / 2 < y - of_int (m - 1)" by simp
    with f show ?thesis by (simp add: round_even_def Let_def)
  qed
qed

lemma round_even_tie:
  assumes "y = of_int f + 1 / 2"
  shows "round_even y = (if even f then f else f + 1)"
proof -
  from assms have "\<lfloor>y\<rfloor> = f" by linarith
  with assms show ?thesis by (simp add: round_even_def Let_def)
qed

lemma round64_zero [simp]: "round64 0 = Fin 0"
  by (simp add: round64_def)

lemma round64_near:
  assumes e: "2 powi e \<le> \<bar>x\<bar>" "\<bar>x\<bar> < 2 powi (e + 1)"
    and m: "\<bar>x / 2 powi (max e (- 1022) - 52) - of_int m\<bar> < 1 / 2"
    and fin: "\<bar>of_int m * 2 powi (max e (- 1022) - 52)\<bar> < (2 :: real) powi 1024"
  shows "round64 x = Fin (of_int m * 2 powi (max e (- 1022) - 52))"
proof -
  have x0: "x \<noteq> 0" using e(1) by (rule pow2_le_nonzero)
  have ex: "expo x = e" using e by (rule expo_eq)
  have "round_even (x / 2 powi (max e (- 1022) - 52)) = m"
    using m by (rule round_even_near)
  with x0 fin show ?thesis
    by (simp add: round64_def ex Let_def)
qed

lemma round64_tie:
  assumes e: "2 powi e \<le> \<bar>x\<bar>" "\<bar>x\<bar> < 2 powi (e + 1)"
    and m: "x / 2 powi (max e (- 1022) - 52) = of_int f + 1 / 2"
    and r: "m = (if even f then f else f + 1)"
    and fin: "\<bar>of_int m * 2 powi (max e (- 1022) - 52)\<bar> < (2 :: real) powi 1024"
  shows "round64 x = Fin (of_int m * 2 powi (max e (- 1022) - 52))"
proof -
  have x0: "x \<noteq> 0" using e(1) by (rule pow2_le_nonzero)
  have ex: "expo x = e" using e by (rule expo_eq)
  have "round_even (x / 2 powi (max e (- 1022) - 52)) = m"
    using round_even_tie[OF m] r by simp
  with x0 fin show ?thesis
    by (simp add: round64_def ex Let_def)
qed

lemma round64_overflow:
  assumes e: "2 powi e \<le> \<bar>x\<bar>" "\<bar>x\<bar> < 2 powi (e + 1)"
    and m: "\<bar>x / 2 powi (max e (- 1022) - 52) - of_int m\<bar> < 1 / 2"
    and inf: "(2 :: real) powi 1024 \<le> \<bar>of_int m * 2 powi (max e (- 1022) - 52)\<bar>"
  shows "round64 x = (if 0 < x then PInf else NInf)"
proof -
  have x0: "x \<noteq> 0" using e(1) by (rule pow2_le_nonzero)
  have ex: "expo x = e" using e by (rule expo_eq)
  have "round_even (x / 2 powi (max e (- 1022) - 52)) = m"
    using m by (rule round_even_near)
  with x0 inf show ?thesis
    by (simp add: round64_def ex Let_def)
qed

section \<open>The result over doubles in closed form\<close>

lemma winsorizedYValuesOf64_length:
  "length (winsorizedYValuesOf64 ys) = length ys"
  by (simp add: winsorizedYValuesOf64_def winsorize64_def Let_def)

lemma js_div64_length:
  "0 < n \<Longrightarrow> js_div64 a (Fin (real n)) = Some (f_div a (Fin (real n)))"
  by (simp add: js_div64_def)

lemma computeLineChartAnalysis64_closed:
  fixes vals :: "f64 option list"
  defines "ivs \<equiv> indexValues64 vals 0"
  defines "n \<equiv> length ivs"
  assumes n2: "2 \<le> n"
  defines "m \<equiv> f_div (fold (\<lambda>entry s. f_add s (iv_value64 entry)) ivs (Fin 0)) (Fin (real n))"
  defines "sd \<equiv> f_sqrt (f_div
      (fold (\<lambda>entry s. f_add s (f_mul (f_sub (iv_value64 entry) m) (f_sub (iv_value64 entry) m)))
         ivs (Fin 0)) (Fin (real n)))"
  defines "cov \<equiv> if f_eq m (Fin 0) then None else Some (f_div sd m)"
  defines "r2 \<equiv> if \<not> f_eq (denominator64 vals) (Fin 0) \<and> \<not> f_eq (ssTotal64 vals) (Fin 0)
                 then Some (f_sub (Fin 1) (f_div (ssResidual64 vals) (ssTotal64 vals)))
                 else None"
  defines "wm \<equiv> f_div (sum_numbers64 (regressionValues64 vals)) (Fin (real n))"
  defines "rel \<equiv> if f_eq wm (Fin 0) then Fin 0 else f_div (f_abs (slopeOf64 vals)) wm"
  shows "computeLineChartAnalysis64 vals =
    Some \<lparr>mean64 = m, standardDeviation64 = sd, coefficientOfVariation64 = cov,
          slope64 = slopeOf64 vals, rSquared64 = r2,
          interp64 = \<lparr>volatility = volatilityOf64 cov, trend = trendOf64 sd r2 rel\<rparr>\<rparr>"
proof -
  define w where "w = regressionValues64 vals"
  have lenw: "length w = n"
    by (simp add: w_def regressionValues64_def winsorizedYValuesOf64_length n_def ivs_def)
  have n0: "n \<noteq> 0" "n \<noteq> 1" "0 < n"
    using n2 by auto
  have divn: "\<And>A. js_div64 A (Fin (real n)) = Some (f_div A (Fin (real n)))"
    using n0 by (simp add: js_div64_length)
  obtain Sx Sy Sxy Sxx where sums: "regressionSums64 ivs w = (Sx, Sy, Sxy, Sxx)"
    by (cases "regressionSums64 ivs w") auto
  have D: "denominator64 vals = f_sub (f_mul (Fin (real n)) Sxx) (f_mul Sx Sx)"
    using sums by (simp add: denominator64_def Let_def ivs_def[symmetric] n_def[symmetric]
        w_def[symmetric])
  have b: "slopeOf64 vals =
      (if f_eq (denominator64 vals) (Fin 0) then Fin 0
       else f_div (f_sub (f_mul (Fin (real n)) Sxy) (f_mul Sx Sy)) (denominator64 vals))"
    using sums by (simp add: slopeOf64_def Let_def ivs_def[symmetric] n_def[symmetric]
        w_def[symmetric])
  obtain SST SSR where sq: "squaresSums64 ivs w (slopeOf64 vals)
      (f_div (f_sub Sy (f_mul (slopeOf64 vals) Sx)) (Fin (real n))) (f_div Sy (Fin (real n)))
      = (SST, SSR)"
    by (cases "squaresSums64 ivs w (slopeOf64 vals)
      (f_div (f_sub Sy (f_mul (slopeOf64 vals) Sx)) (Fin (real n))) (f_div Sy (Fin (real n)))")
      auto
  have sq64: "squares64 vals = (SST, SSR)"
    using sums sq by (simp add: squares64_def Let_def ivs_def[symmetric] n_def[symmetric]
        w_def[symmetric])
  have st: "ssTotal64 vals = SST" "ssResidual64 vals = SSR"
    by (simp_all add: ssTotal64_def ssResidual64_def sq64)
  have s1: "js_div64 (fold (\<lambda>entry s. f_add s (iv_value64 entry)) ivs (Fin 0)) (Fin (real n))
            = Some m"
    by (simp add: divn m_def)
  have s2: "js_div64
      (fold (\<lambda>entry s. f_add s (f_mul (f_sub (iv_value64 entry) m) (f_sub (iv_value64 entry) m)))
         ivs (Fin 0)) (Fin (real n))
      = Some (f_div
      (fold (\<lambda>entry s. f_add s (f_mul (f_sub (iv_value64 entry) m) (f_sub (iv_value64 entry) m)))
         ivs (Fin 0)) (Fin (real n)))"
    by (rule divn)
  have s4: "(if f_eq m (Fin 0) then Some None else map_option Some (js_div64 sd m)) = Some cov"
    by (simp add: cov_def js_div64_def)
  have s5: "(if f_eq (f_sub (f_mul (Fin (real n)) Sxx) (f_mul Sx Sx)) (Fin 0) then Some (Fin 0)
             else js_div64 (f_sub (f_mul (Fin (real n)) Sxy) (f_mul Sx Sy))
                    (f_sub (f_mul (Fin (real n)) Sxx) (f_mul Sx Sx)))
            = Some (slopeOf64 vals)"
    by (simp add: b D js_div64_def)
  have s6: "(if \<not> f_eq (f_sub (f_mul (Fin (real n)) Sxx) (f_mul Sx Sx)) (Fin 0) then
               js_div64 Sy (Fin (real n)) \<bind> (\<lambda>meanY.
               js_div64 (f_sub Sy (f_mul (slopeOf64 vals) Sx)) (Fin (real n)) \<bind> (\<lambda>intercept.
               case squaresSums64 ivs w (slopeOf64 vals) intercept meanY of
                 (ssTotal, ssResidual) \<Rightarrow>
                   if \<not> f_eq ssTotal (Fin 0)
                   then js_div64 ssResidual ssTotal \<bind>
                          (\<lambda>ratio. Some (Some (f_sub (Fin 1) ratio)))
                   else Some None))
             else Some None) = Some r2"
    using n0 by (simp add: divn sq r2_def D st js_div64_def)
  have s7: "(if 0 < length w then js_div64 (sum_numbers64 w) (Fin (real (length w)))
             else Some (Fin 0)) = Some wm"
    using n0 by (simp add: lenw divn wm_def w_def[symmetric])
  have s8: "(if f_eq wm (Fin 0) then Some (Fin 0) else js_div64 (f_abs (slopeOf64 vals)) wm)
            = Some rel"
    by (simp add: rel_def js_div64_def)
  have wv: "winsorizedYValuesOf64 (map iv_value64 ivs) = w"
    by (simp add: w_def regressionValues64_def ivs_def)
  show ?thesis
    unfolding computeLineChartAnalysis64_def Let_def ivs_def[symmetric] n_def[symmetric]
    by (simp only: n0 if_False s1 s2 s4 s5 s6 s7 s8 wv sums
          Option.bind.bind_lunit list.map prod.case sd_def[symmetric])
qed


section \<open>The loops over doubles as folds\<close>










section \<open>Evaluation over doubles\<close>

text \<open>
  The roundings met on the series evaluated below, each proved from its exponent and
  its integer significand.
\<close>

lemma r64_1: "round64 (1 / 20) = Fin (3602879701896397 / 72057594037927936)"
  using round64_near[of "- 5" "1 / 20" 7205759403792794] by simp
lemma r64_2: "round64 (19 / 20) = Fin (4278419646001971 / 4503599627370496)"
  using round64_near[of "- 1" "19 / 20" 8556839292003942] by simp
lemma r64_3: "round64 (1 / 10) = Fin (3602879701896397 / 36028797018963968)"
  using round64_near[of "- 4" "1 / 10" 7205759403792794] by simp
lemma r64_4: "round64 (1) = Fin 1"
  using round64_near[of 0 "1" 4503599627370496] by simp
lemma r64_5: "round64 (2) = Fin 2"
  using round64_near[of 1 "2" 4503599627370496] by simp
lemma r64_6: "round64 (9) = Fin 9"
  using round64_near[of 3 "9" 5066549580791808] by simp
lemma r64_7: "round64 (3) = Fin 3"
  using round64_near[of 1 "3" 6755399441055744] by simp
lemma r64_8: "round64 (8) = Fin 8"
  using round64_near[of 3 "8" 4503599627370496] by simp
lemma r64_9: "round64 (6) = Fin 6"
  using round64_near[of 2 "6" 6755399441055744] by simp
lemma r64_10: "round64 (5) = Fin 5"
  using round64_near[of 2 "5" 5629499534213120] by simp
lemma r64_11: "round64 (4) = Fin 4"
  using round64_near[of 2 "4" 4503599627370496] by simp
lemma r64_12: "round64 (1000000) = Fin 1000000"
  using round64_near[of 19 "1000000" 8589934592000000] by simp
lemma r64_13: "round64 (1000) = Fin 1000"
  using round64_near[of 9 "1000" 8796093022208000] by simp
lemma r64_14: "round64 (100000000000000000000000000000000000000000000000000000000000000000000000000000000000000000000000000000000000000000000000000000000000000000000000000000000000000000000000000000000000000000000000000000000) = Fin 99999999999999996973312221251036165947450327545502362648241750950346848435554075534196338404706251868027512415973882408182135734368278484639385041047239877871023591066789981811181813306167128854888448"
  using round64_near[of 664 "100000000000000000000000000000000000000000000000000000000000000000000000000000000000000000000000000000000000000000000000000000000000000000000000000000000000000000000000000000000000000000000000000000000" 5883593420661338] by simp
lemma r64_15: "round64 (100000000000000000000000000000000000000000000000000000000000000000000000000000000000000000000000000000000000000000000000000000000000000000000000000000000000000000000000000000000000000000000000000000000000000000000000000000000000000000000000000000000000000000000000000000000000000000000000000000000000000000000) = Fin 100000000000000001097906362944045541740492309677311846336810682903157585404911491537163328978494688899061249669721172515611590283743140088328307009198146046031271664502933027185697489699588559043338384466165001178426897626212945177628091195786707458122783970171784415105291802893207873272974885715430223118336"
  using round64_near[of 1023 "100000000000000000000000000000000000000000000000000000000000000000000000000000000000000000000000000000000000000000000000000000000000000000000000000000000000000000000000000000000000000000000000000000000000000000000000000000000000000000000000000000000000000000000000000000000000000000000000000000000000000000000" 5010420900022432] by simp
lemma r64_16: "round64 (3602879701896397 / 36028797018963968) = Fin (3602879701896397 / 36028797018963968)"
  using round64_near[of "- 4" "3602879701896397 / 36028797018963968" 7205759403792794] by simp
lemma r64_17: "round64 (39631676720860365 / 36028797018963968) = Fin (2476979795053773 / 2251799813685248)"
  using round64_near[of 0 "39631676720860365 / 36028797018963968" 4953959590107546] by simp
lemma r64_18: "round64 (43234556422756765 / 36028797018963968) = Fin (1351079888211149 / 1125899906842624)"
  using round64_near[of 0 "43234556422756765 / 36028797018963968" 5404319552844596] by simp
lemma r64_19: "round64 (3602879701896397 / 18014398509481984) = Fin (3602879701896397 / 18014398509481984)"
  using round64_near[of "- 3" "3602879701896397 / 18014398509481984" 7205759403792794] by simp
lemma r64_20: "round64 (21617278211378381 / 18014398509481984) = Fin (5404319552844595 / 4503599627370496)"
  using round64_near[of 0 "21617278211378381 / 18014398509481984" 5404319552844595] by simp
lemma r64_21: "round64 (15) = Fin 15"
  using round64_near[of 3 "15" 8444249301319680] by simp
lemma r64_22: "round64 (16212958658533785 / 4503599627370496) = Fin (2026619832316723 / 562949953421312)"
  using round64_tie[of 1 "16212958658533785 / 4503599627370496" 8106479329266892 8106479329266892] by simp
lemma r64_23: "round64 (4053239664633447 / 1125899906842624) = Fin (4053239664633447 / 1125899906842624)"
  using round64_near[of 1 "4053239664633447 / 1125899906842624" 8106479329266894] by simp
lemma r64_24: "round64 (- (1 / 1125899906842624)) = Fin (- (1 / 1125899906842624))"
  using round64_near[of "- 50" "- (1 / 1125899906842624)" "- 4503599627370496"] by simp
lemma r64_25: "round64 (- (1 / 6755399441055744)) = Fin (- (6004799503160661 / 40564819207303340847894502572032))"
  using round64_near[of "- 53" "- (1 / 6755399441055744)" "- 6004799503160661"] by simp
lemma r64_26: "round64 (1351079888211149 / 3377699720527872) = Fin (7205759403792795 / 18014398509481984)"
  using round64_near[of "- 2" "1351079888211149 / 3377699720527872" 7205759403792795] by simp
lemma r64_27: "round64 (- (18014398509481983 / 40564819207303340847894502572032)) = Fin (- (1 / 2251799813685248))"
  using round64_tie[of "- 52" "- (18014398509481983 / 40564819207303340847894502572032)" "- 9007199254740992" "- 9007199254740992"] by simp
lemma r64_28: "round64 (2702159776422299 / 2251799813685248) = Fin (2702159776422299 / 2251799813685248)"
  using round64_near[of 0 "2702159776422299 / 2251799813685248" 5404319552844598] by simp
lemma r64_29: "round64 (2702159776422299 / 6755399441055744) = Fin (7205759403792797 / 18014398509481984)"
  using round64_near[of "- 2" "2702159776422299 / 6755399441055744" 7205759403792797] by simp
lemma r64_30: "round64 (- (10808639105689193 / 36028797018963968)) = Fin (- (1351079888211149 / 4503599627370496))"
  using round64_tie[of "- 2" "- (10808639105689193 / 36028797018963968)" "- 5404319552844597" "- 5404319552844596"] by simp
lemma r64_31: "round64 (7205759403792797 / 18014398509481984) = Fin (7205759403792797 / 18014398509481984)"
  using round64_near[of "- 2" "7205759403792797 / 18014398509481984" 7205759403792797] by simp
lemma r64_32: "round64 (- (10808639105689197 / 36028797018963968)) = Fin (- (2702159776422299 / 9007199254740992))"
  using round64_tie[of "- 2" "- (10808639105689197 / 36028797018963968)" "- 5404319552844599" "- 5404319552844598"] by simp
lemma r64_33: "round64 (1825416864328650878587207900201 / 20282409603651670423947251286016) = Fin (1621295865853379 / 18014398509481984)"
  using round64_near[of "- 4" "1825416864328650878587207900201 / 20282409603651670423947251286016" 6485183463413516] by simp
lemma r64_34: "round64 (1621295865853379 / 18014398509481984) = Fin (1621295865853379 / 18014398509481984)"
  using round64_near[of "- 4" "1621295865853379 / 18014398509481984" 6485183463413516] by simp
lemma r64_35: "round64 (7301667457314608918668384445401 / 81129638414606681695789005144064) = Fin (6485183463413521 / 72057594037927936)"
  using round64_near[of "- 4" "7301667457314608918668384445401 / 81129638414606681695789005144064" 6485183463413521] by simp
lemma r64_36: "round64 (6485183463413521 / 72057594037927936) = Fin (6485183463413521 / 72057594037927936)"
  using round64_near[of "- 4" "6485183463413521 / 72057594037927936" 6485183463413521] by simp
lemma r64_37: "round64 (10808639105689189 / 18014398509481984) = Fin (2702159776422297 / 4503599627370496)"
  using round64_tie[of "- 1" "10808639105689189 / 18014398509481984" 5404319552844594 5404319552844594] by simp
lemma r64_38: "round64 (- (6004799503160661 / 40564819207303340847894502572032)) = Fin (- (6004799503160661 / 40564819207303340847894502572032))"
  using round64_near[of "- 53" "- (6004799503160661 / 40564819207303340847894502572032)" "- 6004799503160661"] by simp
lemma r64_39: "round64 (16225927682921337990477664397995 / 40564819207303340847894502572032) = Fin (3602879701896397 / 9007199254740992)"
  using round64_near[of "- 2" "16225927682921337990477664397995 / 40564819207303340847894502572032" 7205759403792794] by simp
lemma r64_40: "round64 (5404319552844595 / 9007199254740992) = Fin (5404319552844595 / 9007199254740992)"
  using round64_near[of "- 1" "5404319552844595 / 9007199254740992" 5404319552844595] by simp
lemma r64_41: "round64 (7301667457314598110029278756209 / 20282409603651670423947251286016) = Fin (6485183463413511 / 18014398509481984)"
  using round64_near[of "- 2" "7301667457314598110029278756209 / 20282409603651670423947251286016" 6485183463413511] by simp
lemma r64_42: "round64 (4053239664633445 / 9007199254740992) = Fin (4053239664633445 / 9007199254740992)"
  using round64_near[of "- 2" "4053239664633445 / 9007199254740992" 8106479329266890] by simp
lemma r64_43: "round64 (29206669829258403248756220714025 / 81129638414606681695789005144064) = Fin (3242591731706757 / 9007199254740992)"
  using round64_near[of "- 2" "29206669829258403248756220714025 / 81129638414606681695789005144064" 6485183463413514] by simp
lemma r64_44: "round64 (32425917317067577 / 72057594037927936) = Fin (4053239664633447 / 9007199254740992)"
  using round64_near[of "- 2" "32425917317067577 / 72057594037927936" 8106479329266894] by simp
lemma r64_45: "round64 (- (6004799503160661 / 20282409603651670423947251286016)) = Fin (- (6004799503160661 / 20282409603651670423947251286016))"
  using round64_near[of "- 52" "- (6004799503160661 / 20282409603651670423947251286016)" "- 6004799503160661"] by simp
lemma r64_46: "round64 (8112963841460665992839080618667 / 20282409603651670423947251286016) = Fin (900719925474099 / 2251799813685248)"
  using round64_near[of "- 2" "8112963841460665992839080618667 / 20282409603651670423947251286016" 7205759403792792] by simp
lemma r64_47: "round64 (- (10808639105689187 / 36028797018963968)) = Fin (- (2702159776422297 / 9007199254740992))"
  using round64_tie[of "- 2" "- (10808639105689187 / 36028797018963968)" "- 5404319552844594" "- 5404319552844594"] by simp
lemma r64_48: "round64 (9727775195120269 / 18014398509481984) = Fin (2431943798780067 / 4503599627370496)"
  using round64_tie[of "- 1" "9727775195120269 / 18014398509481984" 4863887597560134 4863887597560134] by simp
lemma r64_49: "round64 (7301667457314598110029278756209 / 81129638414606681695789005144064) = Fin (6485183463413511 / 72057594037927936)"
  using round64_near[of "- 4" "7301667457314598110029278756209 / 81129638414606681695789005144064" 6485183463413511] by simp
lemma r64_50: "round64 (38911100780481087 / 72057594037927936) = Fin (607985949695017 / 1125899906842624)"
  using round64_near[of "- 1" "38911100780481087 / 72057594037927936" 4863887597560136] by simp
lemma r64_51: "round64 (2431943798780068 / 2431943798780067) = Fin (2251799813685249 / 2251799813685248)"
  using round64_near[of 0 "2431943798780068 / 2431943798780067" 4503599627370498] by simp
lemma r64_52: "round64 (- (1 / 2251799813685248)) = Fin (- (1 / 2251799813685248))"
  using round64_near[of "- 51" "- (1 / 2251799813685248)" "- 4503599627370496"] by simp
lemma r64_53: "round64 (- 7) = Fin (- 7)"
  using round64_near[of 2 "- 7" "- 7881299347898368"] by simp
lemma r64_54: "round64 (- 1) = Fin (- 1)"
  using round64_near[of 0 "- 1" "- 4503599627370496"] by simp
lemma r64_55: "round64 (- 6) = Fin (- 6)"
  using round64_near[of 2 "- 6" "- 6755399441055744"] by simp
lemma r64_56: "round64 (- 5) = Fin (- 5)"
  using round64_near[of 2 "- 5" "- 5629499534213120"] by simp
lemma r64_57: "round64 (- 4) = Fin (- 4)"
  using round64_near[of 2 "- 4" "- 4503599627370496"] by simp
lemma r64_58: "round64 (- 3) = Fin (- 3)"
  using round64_near[of 1 "- 3" "- 6755399441055744"] by simp
lemma r64_59: "round64 (- 2) = Fin (- 2)"
  using round64_near[of 1 "- 2" "- 4503599627370496"] by simp
lemma r64_60: "round64 (- 8) = Fin (- 8)"
  using round64_near[of 3 "- 8" "- 4503599627370496"] by simp
lemma r64_61: "round64 (- 1000000) = Fin (- 1000000)"
  using round64_near[of 19 "- 1000000" "- 8589934592000000"] by simp
lemma r64_62: "round64 (- 999999) = Fin (- 999999)"
  using round64_near[of 19 "- 999999" "- 8589926002065408"] by simp
lemma r64_63: "round64 (- 999998) = Fin (- 999998)"
  using round64_near[of 19 "- 999998" "- 8589917412130816"] by simp
lemma r64_64: "round64 (- 999997) = Fin (- 999997)"
  using round64_near[of 19 "- 999997" "- 8589908822196224"] by simp
lemma r64_65: "round64 (- 999996) = Fin (- 999996)"
  using round64_near[of 19 "- 999996" "- 8589900232261632"] by simp
lemma r64_66: "round64 (- 999995) = Fin (- 999995)"
  using round64_near[of 19 "- 999995" "- 8589891642327040"] by simp
lemma r64_67: "round64 (- 999994) = Fin (- 999994)"
  using round64_near[of 19 "- 999994" "- 8589883052392448"] by simp
lemma r64_68: "round64 (- 999992) = Fin (- 999992)"
  using round64_near[of 19 "- 999992" "- 8589865872523264"] by simp
lemma r64_69: "round64 (- 999991) = Fin (- 999991)"
  using round64_near[of 19 "- 999991" "- 8589857282588672"] by simp
lemma r64_70: "round64 (75660473739824337 / 72057594037927936) = Fin (4728779608739021 / 4503599627370496)"
  using round64_near[of 0 "75660473739824337 / 72057594037927936" 4728779608739021] by simp
lemma r64_71: "round64 (225179981368525 / 4503599627370496) = Fin (225179981368525 / 4503599627370496)"
  using round64_near[of "- 5" "225179981368525 / 4503599627370496" 7205759403792800] by simp
lemma r64_72: "round64 (4728779608739021 / 4503599627370496) = Fin (4728779608739021 / 4503599627370496)"
  using round64_near[of 0 "4728779608739021 / 4503599627370496" 4728779608739021] by simp
lemma r64_73: "round64 (89846812566041391 / 4503599627370496) = Fin (5615425785377587 / 281474976710656)"
  using round64_near[of 4 "89846812566041391 / 4503599627370496" 5615425785377587] by simp
lemma r64_74: "round64 (267401227875123 / 281474976710656) = Fin (267401227875123 / 281474976710656)"
  using round64_near[of "- 1" "267401227875123 / 281474976710656" 8556839292003936] by simp
lemma r64_75: "round64 (11) = Fin 11"
  using round64_near[of 3 "11" 6192449487634432] by simp
lemma r64_76: "round64 (14) = Fin 14"
  using round64_near[of 3 "14" 7881299347898368] by simp
lemma r64_77: "round64 (23) = Fin 23"
  using round64_near[of 4 "23" 6473924464345088] by simp
lemma r64_78: "round64 (27) = Fin 27"
  using round64_near[of 4 "27" 7599824371187712] by simp
lemma r64_79: "round64 (42) = Fin 42"
  using round64_near[of 5 "42" 5910974510923776] by simp
lemma r64_80: "round64 (10) = Fin 10"
  using round64_near[of 3 "10" 5629499534213120] by simp
lemma r64_81: "round64 (32) = Fin 32"
  using round64_near[of 5 "32" 4503599627370496] by simp
lemma r64_82: "round64 (36) = Fin 36"
  using round64_near[of 5 "36" 5066549580791808] by simp
lemma r64_83: "round64 (78) = Fin 78"
  using round64_near[of 6 "78" 5488762045857792] by simp
lemma r64_84: "round64 (16) = Fin 16"
  using round64_near[of 4 "16" 4503599627370496] by simp
lemma r64_85: "round64 (30) = Fin 30"
  using round64_near[of 4 "30" 8444249301319680] by simp
lemma r64_86: "round64 (35) = Fin 35"
  using round64_near[of 5 "35" 4925812092436480] by simp
lemma r64_87: "round64 (93) = Fin 93"
  using round64_near[of 6 "93" 6544293208522752] by simp
lemma r64_88: "round64 (25) = Fin 25"
  using round64_near[of 4 "25" 7036874417766400] by simp
lemma r64_89: "round64 (55) = Fin 55"
  using round64_near[of 5 "55" 7740561859543040] by simp
lemma r64_90: "round64 (21) = Fin 21"
  using round64_near[of 4 "21" 5910974510923776] by simp
lemma r64_91: "round64 (37) = Fin 37"
  using round64_near[of 5 "37" 5207287069147136] by simp
lemma r64_92: "round64 (12) = Fin 12"
  using round64_near[of 3 "12" 6755399441055744] by simp
lemma r64_93: "round64 (105) = Fin 105"
  using round64_near[of 6 "105" 7388718138654720] by simp
lemma r64_94: "round64 (91) = Fin 91"
  using round64_near[of 6 "91" 6403555720167424] by simp
lemma r64_95: "round64 (28) = Fin 28"
  using round64_near[of 4 "28" 7881299347898368] by simp
lemma r64_96: "round64 (45) = Fin 45"
  using round64_near[of 5 "45" 6333186975989760] by simp
lemma r64_97: "round64 (56) = Fin 56"
  using round64_near[of 5 "56" 7881299347898368] by simp
lemma r64_98: "round64 (161) = Fin 161"
  using round64_near[of 7 "161" 5664683906301952] by simp
lemma r64_99: "round64 (49) = Fin 49"
  using round64_near[of 5 "49" 6896136929411072] by simp
lemma r64_100: "round64 (140) = Fin 140"
  using round64_near[of 7 "140" 4925812092436480] by simp
lemma r64_101: "round64 (47) = Fin 47"
  using round64_near[of 5 "47" 6614661952700416] by simp
lemma r64_102: "round64 (177) = Fin 177"
  using round64_near[of 7 "177" 6227633859723264] by simp
lemma r64_103: "round64 (64) = Fin 64"
  using round64_near[of 6 "64" 4503599627370496] by simp
lemma r64_104: "round64 (204) = Fin 204"
  using round64_near[of 7 "204" 7177611906121728] by simp
lemma r64_105: "round64 (53) = Fin 53"
  using round64_near[of 5 "53" 7459086882832384] by simp
lemma r64_106: "round64 (54) = Fin 54"
  using round64_near[of 5 "54" 7599824371187712] by simp
lemma r64_107: "round64 (231) = Fin 231"
  using round64_near[of 7 "231" 8127589952520192] by simp
lemma r64_108: "round64 (81) = Fin 81"
  using round64_near[of 6 "81" 5699868278390784] by simp
lemma r64_109: "round64 (285) = Fin 285"
  using round64_near[of 8 "285" 5013773022658560] by simp
lemma r64_110: "round64 (62) = Fin 62"
  using round64_near[of 5 "62" 8725724278030336] by simp
lemma r64_111: "round64 (90) = Fin 90"
  using round64_near[of 6 "90" 6333186975989760] by simp
lemma r64_112: "round64 (321) = Fin 321"
  using round64_near[of 8 "321" 5647091720257536] by simp
lemma r64_113: "round64 (100) = Fin 100"
  using round64_near[of 6 "100" 7036874417766400] by simp
lemma r64_114: "round64 (385) = Fin 385"
  using round64_near[of 8 "385" 6772991627100160] by simp
lemma r64_115: "round64 (66) = Fin 66"
  using round64_near[of 6 "66" 4644337115725824] by simp
lemma r64_116: "round64 (67) = Fin 67"
  using round64_near[of 6 "67" 4714705859903488] by simp
lemma r64_117: "round64 (376) = Fin 376"
  using round64_near[of 8 "376" 6614661952700416] by simp
lemma r64_118: "round64 (121) = Fin 121"
  using round64_near[of 6 "121" 8514618045497344] by simp
lemma r64_119: "round64 (506) = Fin 506"
  using round64_near[of 8 "506" 8901646138474496] by simp
lemma r64_120: "round64 (306469954642562253 / 4503599627370496) = Fin (4788593041290035 / 70368744177664)"
  using round64_near[of 6 "306469954642562253 / 4503599627370496" 4788593041290035] by simp
lemma r64_121: "round64 (14186338826217063 / 1125899906842624) = Fin (1773292353277133 / 140737488355328)"
  using round64_tie[of 3 "14186338826217063 / 1125899906842624" 7093169413108531 7093169413108532] by simp
lemma r64_122: "round64 (54690587974880461 / 140737488355328) = Fin (3418161748430029 / 8796093022208)"
  using round64_near[of 8 "54690587974880461 / 140737488355328" 6836323496860058] by simp
lemma r64_123: "round64 (144) = Fin 144"
  using round64_near[of 7 "144" 5066549580791808] by simp
lemma r64_124: "round64 (650) = Fin 650"
  using round64_near[of 9 "650" 5717460464435200] by simp
lemma r64_125: "round64 (4999699273823027 / 70368744177664) = Fin (4999699273823027 / 70368744177664)"
  using round64_near[of 6 "4999699273823027 / 70368744177664" 4999699273823027] by simp
lemma r64_126: "round64 (39) = Fin 39"
  using round64_near[of 5 "39" 5488762045857792] by simp
lemma r64_127: "round64 (3761209376296141 / 8796093022208) = Fin (3761209376296141 / 8796093022208)"
  using round64_near[of 8 "3761209376296141 / 8796093022208" 7522418752592282] by simp
lemma r64_128: "round64 (169) = Fin 169"
  using round64_near[of 7 "169" 5946158883012608] by simp
lemma r64_129: "round64 (819) = Fin 819"
  using round64_near[of 9 "819" 7204000185188352] by simp
lemma r64_130: "round64 (5562649227244339 / 70368744177664) = Fin (5562649227244339 / 70368744177664)"
  using round64_near[of 6 "5562649227244339 / 70368744177664" 5562649227244339] by simp
lemma r64_131: "round64 (112) = Fin 112"
  using round64_near[of 6 "112" 7881299347898368] by simp
lemma r64_132: "round64 (4746371794783437 / 8796093022208) = Fin (4746371794783437 / 8796093022208)"
  using round64_near[of 9 "4746371794783437 / 8796093022208" 4746371794783437] by simp
lemma r64_133: "round64 (196) = Fin 196"
  using round64_near[of 7 "196" 6896136929411072] by simp
lemma r64_134: "round64 (1015) = Fin 1015"
  using round64_near[of 9 "1015" 8928034417541120] by simp
lemma r64_135: "round64 (120) = Fin 120"
  using round64_near[of 6 "120" 8444249301319680] by simp
lemma r64_136: "round64 (5844124203954995 / 70368744177664) = Fin (5844124203954995 / 70368744177664)"
  using round64_near[of 6 "5844124203954995 / 70368744177664" 5844124203954995] by simp
lemma r64_137: "round64 (60) = Fin 60"
  using round64_near[of 5 "60" 8444249301319680] by simp
lemma r64_138: "round64 (5274137376115917 / 8796093022208) = Fin (5274137376115917 / 8796093022208)"
  using round64_near[of 9 "5274137376115917 / 8796093022208" 5274137376115917] by simp
lemma r64_139: "round64 (225) = Fin 225"
  using round64_near[of 7 "225" 7916483719987200] by simp
lemma r64_140: "round64 (1240) = Fin 1240"
  using round64_near[of 10 "1240" 5453577673768960] by simp
lemma r64_141: "round64 (136) = Fin 136"
  using round64_near[of 7 "136" 4785074604081152] by simp
lemma r64_142: "round64 (6407074157376307 / 70368744177664) = Fin (6407074157376307 / 70368744177664)"
  using round64_near[of 6 "6407074157376307 / 70368744177664" 6407074157376307] by simp
lemma r64_143: "round64 (128) = Fin 128"
  using round64_near[of 7 "128" 4503599627370496] by simp
lemma r64_144: "round64 (6400037282958541 / 8796093022208) = Fin (6400037282958541 / 8796093022208)"
  using round64_near[of 9 "6400037282958541 / 8796093022208" 6400037282958541] by simp
lemma r64_145: "round64 (256) = Fin 256"
  using round64_near[of 8 "256" 4503599627370496] by simp
lemma r64_146: "round64 (1496) = Fin 1496"
  using round64_near[of 10 "1496" 6579477580611584] by simp
lemma r64_147: "round64 (153) = Fin 153"
  using round64_near[of 7 "153" 5383208929591296] by simp
lemma r64_148: "round64 (6618180389909299 / 70368744177664) = Fin (6618180389909299 / 70368744177664)"
  using round64_near[of 6 "6618180389909299 / 70368744177664" 6618180389909299] by simp
lemma r64_149: "round64 (51) = Fin 51"
  using round64_near[of 5 "51" 7177611906121728] by simp
lemma r64_150: "round64 (6848638027091149 / 8796093022208) = Fin (6848638027091149 / 8796093022208)"
  using round64_near[of 9 "6848638027091149 / 8796093022208" 6848638027091149] by simp
lemma r64_151: "round64 (289) = Fin 289"
  using round64_near[of 8 "289" 5084141766836224] by simp
lemma r64_152: "round64 (1785) = Fin 1785"
  using round64_near[of 10 "1785" 7850513022320640] by simp
lemma r64_153: "round64 (171) = Fin 171"
  using round64_near[of 7 "171" 6016527627190272] by simp
lemma r64_154: "round64 (7251499087508275 / 70368744177664) = Fin (7251499087508275 / 70368744177664)"
  using round64_near[of 6 "7251499087508275 / 70368744177664" 7251499087508275] by simp
lemma r64_155: "round64 (162) = Fin 162"
  using round64_near[of 7 "162" 5699868278390784] by simp
lemma r64_156: "round64 (8273605096688845 / 8796093022208) = Fin (8273605096688845 / 8796093022208)"
  using round64_near[of 9 "8273605096688845 / 8796093022208" 8273605096688845] by simp
lemma r64_157: "round64 (324) = Fin 324"
  using round64_near[of 8 "324" 5699868278390784] by simp
lemma r64_158: "round64 (2109) = Fin 2109"
  using round64_near[of 11 "2109" 4637740045959168] by simp
lemma r64_159: "round64 (190) = Fin 190"
  using round64_near[of 7 "190" 6685030696878080] by simp
lemma r64_160: "round64 (468824721209268621 / 4503599627370496) = Fin (3662693134447411 / 35184372088832)"
  using round64_near[of 6 "468824721209268621 / 4503599627370496" 7325386268894822] by simp
lemma r64_161: "round64 (89846812566041399 / 4503599627370496) = Fin (5615425785377587 / 281474976710656)"
  using round64_near[of 4 "89846812566041399 / 4503599627370496" 5615425785377587] by simp
lemma r64_162: "round64 (270370788879420627 / 281474976710656) = Fin (8449087152481895 / 8796093022208)"
  using round64_near[of 9 "270370788879420627 / 281474976710656" 8449087152481895] by simp
lemma r64_163: "round64 (361) = Fin 361"
  using round64_near[of 8 "361" 6350779162034176] by simp
lemma r64_164: "round64 (2470) = Fin 2470"
  using round64_near[of 11 "2470" 5431587441213440] by simp
lemma r64_165: "round64 (210) = Fin 210"
  using round64_near[of 7 "210" 7388718138654720] by simp
lemma r64_166: "round64 (3803430622802739 / 35184372088832) = Fin (3803430622802739 / 35184372088832)"
  using round64_near[of 6 "3803430622802739 / 35184372088832" 7606861245605478] by simp
lemma r64_167: "round64 (80) = Fin 80"
  using round64_near[of 6 "80" 5629499534213120] by simp
lemma r64_168: "round64 (9152774594258535 / 8796093022208) = Fin (1144096824282317 / 1099511627776)"
  using round64_tie[of 10 "9152774594258535 / 8796093022208" 4576387297129267 4576387297129268] by simp
lemma r64_169: "round64 (400) = Fin 400"
  using round64_near[of 8 "400" 7036874417766400] by simp
lemma r64_170: "round64 (2870) = Fin 2870"
  using round64_near[of 11 "2870" 6311196743434240] by simp
lemma r64_171: "round64 (4120089971602227 / 35184372088832) = Fin (4120089971602227 / 35184372088832)"
  using round64_near[of 6 "4120089971602227 / 35184372088832" 8240179943204454] by simp
lemma r64_172: "round64 (189) = Fin 189"
  using round64_near[of 7 "189" 6649846324789248] by simp
lemma r64_173: "round64 (1351904521931981 / 1099511627776) = Fin (1351904521931981 / 1099511627776)"
  using round64_near[of 10 "1351904521931981 / 1099511627776" 5407618087727924] by simp
lemma r64_174: "round64 (441) = Fin 441"
  using round64_near[of 8 "441" 7758154045587456] by simp
lemma r64_175: "round64 (3311) = Fin 3311"
  using round64_near[of 11 "3311" 7280965999132672] by simp
lemma r64_176: "round64 (72842) = Fin 72842"
  using round64_near[of 16 "72842" 5005664124403712] by simp
lemma r64_177: "round64 (53361) = Fin 53361"
  using round64_near[of 15 "53361" 7333879996219392] by simp
lemma r64_178: "round64 (19481) = Fin 19481"
  using round64_near[of 14 "19481" 5354896505176064] by simp
lemma r64_179: "round64 (14870949741251791 / 549755813888) = Fin (929434358828237 / 34359738368)"
  using round64_tie[of 14 "14870949741251791 / 549755813888" 7435474870625895 7435474870625896] by simp
lemma r64_180: "round64 (951740783440114437 / 35184372088832) = Fin (3717737435312947 / 137438953472)"
  using round64_near[of 14 "951740783440114437 / 35184372088832" 7435474870625894] by simp
lemma r64_181: "round64 (1 / 137438953472) = Fin (1 / 137438953472)"
  using round64_near[of "- 37" "1 / 137438953472" 4503599627370496] by simp
lemma r64_182: "round64 (1 / 2677448252588032) = Fin (3787638021397167 / 10141204801825835211973625643008)"
  using round64_near[of "- 52" "1 / 2677448252588032" 7575276042794334] by simp
lemma r64_183: "round64 (4120089971602227 / 774056185954304) = Fin (2996429070256165 / 562949953421312)"
  using round64_near[of 2 "4120089971602227 / 774056185954304" 5992858140512330] by simp
lemma r64_184: "round64 (874944382942745577 / 10141204801825835211973625643008) = Fin (854437873967525 / 9903520314283042199192993792)"
  using round64_near[of "- 44" "874944382942745577 / 10141204801825835211973625643008" 6835502991740200] by simp
lemma r64_185: "round64 (1159702228802543330792630263387 / 9903520314283042199192993792) = Fin (257505623225139 / 2199023255552)"
  using round64_near[of 6 "1159702228802543330792630263387 / 9903520314283042199192993792" 8240179943204448] by simp
lemma r64_186: "round64 (257505623225139 / 48378511622144) = Fin (2996429070256163 / 562949953421312)"
  using round64_near[of 2 "257505623225139 / 48378511622144" 5992858140512326] by simp
lemma r64_187: "round64 (- (1870529163413541 / 562949953421312)) = Fin (- (1870529163413541 / 562949953421312))"
  using round64_near[of 1 "- (1870529163413541 / 562949953421312)" "- 7482116653654164"] by simp
lemma r64_188: "round64 (2996429070256163 / 562949953421312) = Fin (2996429070256163 / 562949953421312)"
  using round64_near[of 2 "2996429070256163 / 562949953421312" 5992858140512326] by simp
lemma r64_189: "round64 (- (1870529163413539 / 562949953421312)) = Fin (- (1870529163413539 / 562949953421312))"
  using round64_near[of 1 "- (1870529163413539 / 562949953421312)" "- 7482116653654156"] by simp
lemma r64_190: "round64 (3498879351180561570363382158681 / 316912650057057350374175801344) = Fin (6215258265705901 / 562949953421312)"
  using round64_near[of 3 "3498879351180561570363382158681 / 316912650057057350374175801344" 6215258265705901] by simp
lemma r64_191: "round64 (6215258265705901 / 562949953421312) = Fin (6215258265705901 / 562949953421312)"
  using round64_near[of 3 "6215258265705901 / 562949953421312" 6215258265705901] by simp
lemma r64_192: "round64 (3498879351180554088246728504521 / 316912650057057350374175801344) = Fin (194226820803309 / 17592186044416)"
  using round64_near[of 3 "3498879351180554088246728504521 / 316912650057057350374175801344" 6215258265705888] by simp
lemma r64_193: "round64 (194226820803309 / 17592186044416) = Fin (194226820803309 / 17592186044416)"
  using round64_near[of 3 "194226820803309 / 17592186044416" 6215258265705888] by simp
lemma r64_194: "round64 (2070120510535643 / 562949953421312) = Fin (2070120510535643 / 562949953421312)"
  using round64_near[of 1 "2070120510535643 / 562949953421312" 8280482042142572] by simp
lemma r64_195: "round64 (3787638021397167 / 10141204801825835211973625643008) = Fin (3787638021397167 / 10141204801825835211973625643008)"
  using round64_near[of "- 52" "3787638021397167 / 10141204801825835211973625643008" 7575276042794334] by simp
lemma r64_196: "round64 (53978867376991113651897334864559 / 10141204801825835211973625643008) = Fin (2996429070256163 / 562949953421312)"
  using round64_near[of 2 "53978867376991113651897334864559 / 10141204801825835211973625643008" 5992858140512326] by simp
lemma r64_197: "round64 (2070120510535645 / 562949953421312) = Fin (2070120510535645 / 562949953421312)"
  using round64_near[of 1 "2070120510535645 / 562949953421312" 8280482042142580] by simp
lemma r64_198: "round64 (4285398928140351220962773423449 / 316912650057057350374175801344) = Fin (7612397695560615 / 562949953421312)"
  using round64_near[of 3 "4285398928140351220962773423449 / 316912650057057350374175801344" 7612397695560615] by simp
lemma r64_199: "round64 (3456913990316629 / 140737488355328) = Fin (3456913990316629 / 140737488355328)"
  using round64_near[of 4 "3456913990316629 / 140737488355328" 6913827980633258] by simp
lemma r64_200: "round64 (4285398928140359501444815566025 / 316912650057057350374175801344) = Fin (3806198847780315 / 281474976710656)"
  using round64_near[of 3 "4285398928140359501444815566025 / 316912650057057350374175801344" 7612397695560630] by simp
lemma r64_201: "round64 (6913827980633259 / 281474976710656) = Fin (6913827980633259 / 281474976710656)"
  using round64_near[of 4 "6913827980633259 / 281474976710656" 6913827980633259] by simp
lemma r64_202: "round64 (- (1307579209992229 / 562949953421312)) = Fin (- (1307579209992229 / 562949953421312))"
  using round64_near[of 1 "- (1307579209992229 / 562949953421312)" "- 5230316839968916"] by simp
lemma r64_203: "round64 (3787638021397167 / 5070602400912917605986812821504) = Fin (3787638021397167 / 5070602400912917605986812821504)"
  using round64_near[of "- 51" "3787638021397167 / 5070602400912917605986812821504" 7575276042794334] by simp
lemma r64_204: "round64 (26989433688495558719767678130863 / 5070602400912917605986812821504) = Fin (5992858140512327 / 1125899906842624)"
  using round64_near[of 2 "26989433688495558719767678130863 / 5070602400912917605986812821504" 5992858140512327] by simp
lemma r64_205: "round64 (- (2615158419984455 / 1125899906842624)) = Fin (- (2615158419984455 / 1125899906842624))"
  using round64_near[of 1 "- (2615158419984455 / 1125899906842624)" "- 5230316839968910"] by simp
lemma r64_206: "round64 (1709763390403901703918240388441 / 316912650057057350374175801344) = Fin (6074299784600263 / 1125899906842624)"
  using round64_near[of 2 "1709763390403901703918240388441 / 316912650057057350374175801344" 6074299784600263] by simp
lemma r64_207: "round64 (33729611707133295 / 1125899906842624) = Fin (2108100731695831 / 70368744177664)"
  using round64_near[of 4 "33729611707133295 / 1125899906842624" 8432402926783324] by simp
lemma r64_208: "round64 (6839053561615591124722441647025 / 1267650600228229401496703205376) = Fin (6074299784600249 / 1125899906842624)"
  using round64_near[of 2 "6839053561615591124722441647025 / 1267650600228229401496703205376" 6074299784600249] by simp
lemma r64_209: "round64 (33729611707133285 / 1125899906842624) = Fin (8432402926783321 / 281474976710656)"
  using round64_near[of 4 "33729611707133285 / 1125899906842624" 8432402926783321] by simp
lemma r64_210: "round64 (11362914064191501 / 10141204801825835211973625643008) = Fin (2840728516047875 / 2535301200456458802993406410752)"
  using round64_tie[of "- 50" "11362914064191501 / 10141204801825835211973625643008" 5681457032095750 5681457032095750] by simp
lemma r64_211: "round64 (13494716844247780306793344414723 / 2535301200456458802993406410752) = Fin (5992858140512327 / 1125899906842624)"
  using round64_near[of 2 "13494716844247780306793344414723 / 2535301200456458802993406410752" 5992858140512327] by simp
lemma r64_212: "round64 (4140241021071289 / 1125899906842624) = Fin (4140241021071289 / 1125899906842624)"
  using round64_near[of 1 "4140241021071289 / 1125899906842624" 8280482042142578] by simp
lemma r64_213: "round64 (24477203549127263 / 562949953421312) = Fin (764912610910227 / 17592186044416)"
  using round64_near[of 5 "24477203549127263 / 562949953421312" 6119300887281816] by simp
lemma r64_214: "round64 (17141595712561429725297220121521 / 1267650600228229401496703205376) = Fin (3806198847780313 / 281474976710656)"
  using round64_near[of 3 "17141595712561429725297220121521 / 1267650600228229401496703205376" 7612397695560626] by simp
lemma r64_215: "round64 (6119300887281817 / 140737488355328) = Fin (6119300887281817 / 140737488355328)"
  using round64_near[of 5 "6119300887281817 / 140737488355328" 6119300887281817] by simp
lemma r64_216: "round64 (3787638021397167 / 2535301200456458802993406410752) = Fin (3787638021397167 / 2535301200456458802993406410752)"
  using round64_near[of "- 50" "3787638021397167 / 2535301200456458802993406410752" 7575276042794334] by simp
lemma r64_217: "round64 (13494716844247781253702849764015 / 2535301200456458802993406410752) = Fin (749107267564041 / 140737488355328)"
  using round64_near[of 2 "13494716844247781253702849764015 / 2535301200456458802993406410752" 5992858140512328] by simp
lemma r64_218: "round64 (517530127633911 / 140737488355328) = Fin (517530127633911 / 140737488355328)"
  using round64_near[of 1 "517530127633911 / 140737488355328" 8280482042142576] by simp
lemma r64_219: "round64 (32089601244687879 / 562949953421312) = Fin (4011200155585985 / 70368744177664)"
  using round64_near[of 5 "32089601244687879 / 562949953421312" 8022400311171970] by simp
lemma r64_220: "round64 (267837433008772210075237155921 / 19807040628566084398385987584) = Fin (7612397695560623 / 562949953421312)"
  using round64_near[of 3 "267837433008772210075237155921 / 19807040628566084398385987584" 7612397695560623] by simp
lemma r64_221: "round64 (32089601244687891 / 562949953421312) = Fin (8022400311171973 / 140737488355328)"
  using round64_near[of 5 "32089601244687891 / 562949953421312" 8022400311171973] by simp
lemma r64_222: "round64 (18938190106985835 / 10141204801825835211973625643008) = Fin (4734547526746459 / 2535301200456458802993406410752)"
  using round64_near[of "- 49" "18938190106985835 / 10141204801825835211973625643008" 4734547526746459] by simp
lemma r64_223: "round64 (13494716844247782200612355113307 / 2535301200456458802993406410752) = Fin (749107267564041 / 140737488355328)"
  using round64_near[of 2 "13494716844247782200612355113307 / 2535301200456458802993406410752" 5992858140512328] by simp
lemma r64_224: "round64 (- (326894802498057 / 140737488355328)) = Fin (- (326894802498057 / 140737488355328))"
  using round64_near[of 1 "- (326894802498057 / 140737488355328)" "- 5230316839968912"] by simp
lemma r64_225: "round64 (70253502273976023 / 1125899906842624) = Fin (8781687784247003 / 140737488355328)"
  using round64_near[of 5 "70253502273976023 / 1125899906842624" 8781687784247003] by simp
lemma r64_226: "round64 (106860211900243693047488775249 / 19807040628566084398385987584) = Fin (6074299784600253 / 1125899906842624)"
  using round64_near[of 2 "106860211900243693047488775249 / 19807040628566084398385987584" 6074299784600253] by simp
lemma r64_227: "round64 (70253502273976037 / 1125899906842624) = Fin (8781687784247005 / 140737488355328)"
  using round64_near[of 5 "70253502273976037 / 1125899906842624" 8781687784247005] by simp
lemma r64_228: "round64 (11362914064191501 / 5070602400912917605986812821504) = Fin (2840728516047875 / 1267650600228229401496703205376)"
  using round64_tie[of "- 49" "11362914064191501 / 5070602400912917605986812821504" 5681457032095750 5681457032095750] by simp
lemma r64_229: "round64 (6747358422123891573760930231299 / 1267650600228229401496703205376) = Fin (5992858140512329 / 1125899906842624)"
  using round64_near[of 2 "6747358422123891573760930231299 / 1267650600228229401496703205376" 5992858140512329] by simp
lemma r64_230: "round64 (- (3741058326827081 / 1125899906842624)) = Fin (- (3741058326827081 / 1125899906842624))"
  using round64_near[of 1 "- (3741058326827081 / 1125899906842624)" "- 7482116653654162"] by simp
lemma r64_231: "round64 (41342009402693913 / 562949953421312) = Fin (5167751175336739 / 70368744177664)"
  using round64_near[of 6 "41342009402693913 / 562949953421312" 5167751175336739] by simp
lemma r64_232: "round64 (13995517404722238799336874980561 / 1267650600228229401496703205376) = Fin (3107629132852949 / 281474976710656)"
  using round64_near[of 3 "13995517404722238799336874980561 / 1267650600228229401496703205376" 6215258265705898] by simp
lemma r64_233: "round64 (20671004701346959 / 281474976710656) = Fin (1291937793834185 / 17592186044416)"
  using round64_near[of 6 "20671004701346959 / 281474976710656" 5167751175336740] by simp
lemma r64_234: "round64 (1507170557114331 / 562949953421312) = Fin (1507170557114331 / 562949953421312)"
  using round64_near[of 1 "1507170557114331 / 562949953421312" 6028682228457324] by simp
lemma r64_235: "round64 (26513466149780169 / 10141204801825835211973625643008) = Fin (3314183268722521 / 1267650600228229401496703205376)"
  using round64_near[of "- 49" "26513466149780169 / 10141204801825835211973625643008" 6628366537445042] by simp
lemma r64_236: "round64 (6747358422123892047215682905945 / 1267650600228229401496703205376) = Fin (5992858140512329 / 1125899906842624)"
  using round64_near[of 2 "6747358422123892047215682905945 / 1267650600228229401496703205376" 5992858140512329] by simp
lemma r64_237: "round64 (3014341114228663 / 1125899906842624) = Fin (3014341114228663 / 1125899906842624)"
  using round64_near[of 1 "3014341114228663 / 1125899906842624" 6028682228457326] by simp
lemma r64_238: "round64 (2271563088232322882917805577561 / 316912650057057350374175801344) = Fin (8070213255821283 / 1125899906842624)"
  using round64_near[of 2 "2271563088232322882917805577561 / 316912650057057350374175801344" 8070213255821283] by simp
lemma r64_239: "round64 (90754232061209107 / 1125899906842624) = Fin (5672139503825569 / 70368744177664)"
  using round64_near[of 6 "90754232061209107 / 1125899906842624" 5672139503825569] by simp
lemma r64_240: "round64 (9086252352929297560353450767569 / 1267650600228229401496703205376) = Fin (1008776656977661 / 140737488355328)"
  using round64_near[of 2 "9086252352929297560353450767569 / 1267650600228229401496703205376" 8070213255821288] by simp
lemma r64_241: "round64 (11344279007651141 / 140737488355328) = Fin (2836069751912785 / 35184372088832)"
  using round64_tie[of 6 "11344279007651141 / 140737488355328" 5672139503825570 5672139503825570] by simp
lemma r64_242: "round64 (3787638021397167 / 1267650600228229401496703205376) = Fin (3787638021397167 / 1267650600228229401496703205376)"
  using round64_near[of "- 49" "3787638021397167 / 1267650600228229401496703205376" 7575276042794334] by simp
lemma r64_243: "round64 (6747358422123892520670435580591 / 1267650600228229401496703205376) = Fin (5992858140512329 / 1125899906842624)"
  using round64_near[of 2 "6747358422123892520670435580591 / 1267650600228229401496703205376" 5992858140512329] by simp
lemma r64_244: "round64 (51592374296310453 / 562949953421312) = Fin (6449046787038807 / 70368744177664)"
  using round64_near[of 6 "51592374296310453 / 562949953421312" 6449046787038807] by simp
lemma r64_245: "round64 (25796187148155229 / 281474976710656) = Fin (6449046787038807 / 70368744177664)"
  using round64_near[of 6 "25796187148155229 / 281474976710656" 6449046787038807] by simp
lemma r64_246: "round64 (381270650271707 / 562949953421312) = Fin (381270650271707 / 562949953421312)"
  using round64_near[of "- 1" "381270650271707 / 562949953421312" 6100330404347312] by simp
lemma r64_247: "round64 (34088742192574503 / 10141204801825835211973625643008) = Fin (4261092774071813 / 1267650600228229401496703205376)"
  using round64_near[of "- 49" "34088742192574503 / 10141204801825835211973625643008" 8522185548143626] by simp
lemma r64_248: "round64 (6747358422123892994125188255237 / 1267650600228229401496703205376) = Fin (2996429070256165 / 562949953421312)"
  using round64_near[of 2 "6747358422123892994125188255237 / 1267650600228229401496703205376" 5992858140512330] by simp
lemma r64_249: "round64 (145367308758610309072924693849 / 316912650057057350374175801344) = Fin (8263174820434091 / 18014398509481984)"
  using round64_near[of "- 2" "145367308758610309072924693849 / 316912650057057350374175801344" 8263174820434091] by simp
lemma r64_250: "round64 (1659219152302368683 / 18014398509481984) = Fin (810165601710141 / 8796093022208)"
  using round64_near[of 6 "1659219152302368683 / 18014398509481984" 6481324813681128] by simp
lemma r64_251: "round64 (18938190106985835 / 5070602400912917605986812821504) = Fin (4734547526746459 / 1267650600228229401496703205376)"
  using round64_near[of "- 48" "18938190106985835 / 5070602400912917605986812821504" 4734547526746459] by simp
lemma r64_252: "round64 (6747358422123893467579940929883 / 1267650600228229401496703205376) = Fin (2996429070256165 / 562949953421312)"
  using round64_near[of 2 "6747358422123893467579940929883 / 1267650600228229401496703205376" 5992858140512330] by simp
lemma r64_253: "round64 (59462996205009639 / 562949953421312) = Fin (7432874525626205 / 70368744177664)"
  using round64_near[of 6 "59462996205009639 / 562949953421312" 7432874525626205] by simp
lemma r64_254: "round64 (- (181679303149605 / 562949953421312)) = Fin (- (181679303149605 / 562949953421312))"
  using round64_near[of "- 2" "- (181679303149605 / 562949953421312)" "- 5813737700787360"] by simp
lemma r64_255: "round64 (41664018235368837 / 10141204801825835211973625643008) = Fin (5208002279421105 / 1267650600228229401496703205376)"
  using round64_near[of "- 48" "41664018235368837 / 10141204801825835211973625643008" 5208002279421105] by simp
lemma r64_256: "round64 (6747358422123893941034693604529 / 1267650600228229401496703205376) = Fin (5992858140512331 / 1125899906842624)"
  using round64_near[of 2 "6747358422123893941034693604529 / 1267650600228229401496703205376" 5992858140512331] by simp
lemma r64_257: "round64 (- (363358606299211 / 1125899906842624)) = Fin (- (363358606299211 / 1125899906842624))"
  using round64_near[of "- 2" "- (363358606299211 / 1125899906842624)" "- 5813737700787376"] by simp
lemma r64_258: "round64 (33007369192926073273011656025 / 316912650057057350374175801344) = Fin (3752503425053655 / 36028797018963968)"
  using round64_near[of "- 4" "33007369192926073273011656025 / 316912650057057350374175801344" 7505006850107310] by simp
lemma r64_259: "round64 (3809384260545670615 / 36028797018963968) = Fin (7440203633878263 / 70368744177664)"
  using round64_near[of 6 "3809384260545670615 / 36028797018963968" 7440203633878263] by simp
lemma r64_260: "round64 (132029476771705019809259222521 / 1267650600228229401496703205376) = Fin (7505006850107351 / 72057594037927936)"
  using round64_near[of "- 4" "132029476771705019809259222521 / 1267650600228229401496703205376" 7505006850107351] by simp
lemma r64_261: "round64 (7618768521091341271 / 72057594037927936) = Fin (7440203633878263 / 70368744177664)"
  using round64_near[of 6 "7618768521091341271 / 72057594037927936" 7440203633878263] by simp
lemma r64_262: "round64 (- (19242652953310299 / 4503599627370496)) = Fin (- (4810663238327575 / 1125899906842624))"
  using round64_near[of 2 "- (19242652953310299 / 4503599627370496)" "- 4810663238327575"] by simp
lemma r64_263: "round64 (11362914064191501 / 2535301200456458802993406410752) = Fin (2840728516047875 / 633825300114114700748351602688)"
  using round64_tie[of "- 48" "11362914064191501 / 2535301200456458802993406410752" 5681457032095750 5681457032095750] by simp
lemma r64_264: "round64 (3373679211061947207244723139587 / 633825300114114700748351602688) = Fin (5992858140512331 / 1125899906842624)"
  using round64_near[of 2 "3373679211061947207244723139587 / 633825300114114700748351602688" 5992858140512331] by simp
lemma r64_265: "round64 (- (19242652953310303 / 4503599627370496)) = Fin (- (601332904790947 / 140737488355328))"
  using round64_near[of 2 "- (19242652953310303 / 4503599627370496)" "- 4810663238327576"] by simp
lemma r64_266: "round64 (23142480792596350664483005380625 / 1267650600228229401496703205376) = Fin (2569331502288591 / 140737488355328)"
  using round64_near[of 4 "23142480792596350664483005380625 / 1267650600228229401496703205376" 5138663004577182] by simp
lemma r64_267: "round64 (17449738770045117 / 140737488355328) = Fin (4362434692511279 / 35184372088832)"
  using round64_tie[of 6 "17449738770045117 / 140737488355328" 8724869385022558 8724869385022558] by simp
lemma r64_268: "round64 (361601262384318129465773156809 / 19807040628566084398385987584) = Fin (160583218893037 / 8796093022208)"
  using round64_near[of 4 "361601262384318129465773156809 / 19807040628566084398385987584" 5138663004577184] by simp
lemma r64_269: "round64 (8724869385022559 / 70368744177664) = Fin (8724869385022559 / 70368744177664)"
  using round64_near[of 6 "8724869385022559 / 70368744177664" 8724869385022559] by simp
lemma r64_270: "round64 (49239294278163171 / 10141204801825835211973625643008) = Fin (1538727946192599 / 316912650057057350374175801344)"
  using round64_near[of "- 48" "49239294278163171 / 10141204801825835211973625643008" 6154911784770396] by simp
lemma r64_271: "round64 (1686839605530973721986049738455 / 316912650057057350374175801344) = Fin (5992858140512331 / 1125899906842624)"
  using round64_near[of 2 "1686839605530973721986049738455 / 316912650057057350374175801344" 5992858140512331] by simp
lemma r64_272: "round64 (- (2615158419984459 / 1125899906842624)) = Fin (- (2615158419984459 / 1125899906842624))"
  using round64_near[of 1 "- (2615158419984459 / 1125899906842624)" "- 5230316839968918"] by simp
lemma r64_273: "round64 (145672209944961191 / 1125899906842624) = Fin (4552256560780037 / 35184372088832)"
  using round64_near[of 7 "145672209944961191 / 1125899906842624" 4552256560780037] by simp
lemma r64_274: "round64 (6839053561615612045989801522681 / 1267650600228229401496703205376) = Fin (6074299784600267 / 1125899906842624)"
  using round64_near[of 2 "6839053561615612045989801522681 / 1267650600228229401496703205376" 6074299784600267] by simp
lemma r64_275: "round64 (145672209944961211 / 1125899906842624) = Fin (2276128280390019 / 17592186044416)"
  using round64_near[of 7 "145672209944961211 / 1125899906842624" 4552256560780038] by simp
lemma r64_276: "round64 (26513466149780169 / 5070602400912917605986812821504) = Fin (3314183268722521 / 633825300114114700748351602688)"
  using round64_near[of "- 48" "26513466149780169 / 5070602400912917605986812821504" 6628366537445042] by simp
lemma r64_277: "round64 (3373679211061947680699475814233 / 633825300114114700748351602688) = Fin (1498214535128083 / 281474976710656)"
  using round64_near[of 2 "3373679211061947680699475814233 / 633825300114114700748351602688" 5992858140512332] by simp
lemma r64_278: "round64 (753585278557165 / 281474976710656) = Fin (753585278557165 / 281474976710656)"
  using round64_near[of 1 "753585278557165 / 281474976710656" 6028682228457320] by simp
lemma r64_279: "round64 (153742423200782467 / 1125899906842624) = Fin (1201112681256113 / 8796093022208)"
  using round64_near[of 7 "153742423200782467 / 1125899906842624" 4804450725024452] by simp
lemma r64_280: "round64 (567890772058079967144172837225 / 79228162514264337593543950336) = Fin (1008776656977659 / 140737488355328)"
  using round64_near[of 2 "567890772058079967144172837225 / 79228162514264337593543950336" 8070213255821272] by simp
lemma r64_281: "round64 (19217802900097811 / 140737488355328) = Fin (4804450725024453 / 35184372088832)"
  using round64_near[of 7 "19217802900097811 / 140737488355328" 4804450725024453] by simp
lemma r64_282: "round64 (- (744629256570917 / 562949953421312)) = Fin (- (744629256570917 / 562949953421312))"
  using round64_near[of 0 "- (744629256570917 / 562949953421312)" "- 5957034052567336"] by simp
lemma r64_283: "round64 (56814570320957505 / 10141204801825835211973625643008) = Fin (887727661264961 / 158456325028528675187087900672)"
  using round64_near[of "- 48" "56814570320957505 / 10141204801825835211973625643008" 7101821290119688] by simp
lemma r64_284: "round64 (843419802765486979356713037889 / 158456325028528675187087900672) = Fin (1498214535128083 / 281474976710656)"
  using round64_near[of 2 "843419802765486979356713037889 / 158456325028528675187087900672" 5992858140512332] by simp
lemma r64_285: "round64 (- (372314628285459 / 281474976710656)) = Fin (- (372314628285459 / 281474976710656))"
  using round64_near[of 0 "- (372314628285459 / 281474976710656)" "- 5957034052567344"] by simp
lemma r64_286: "round64 (554472729741356538221450220889 / 316912650057057350374175801344) = Fin (7879531405895883 / 4503599627370496)"
  using round64_near[of 0 "554472729741356538221450220889 / 316912650057057350374175801344" 7879531405895883] by simp
lemma r64_287: "round64 (622849224209025739 / 4503599627370496) = Fin (2433004782066507 / 17592186044416)"
  using round64_near[of 7 "622849224209025739 / 4503599627370496" 4866009564133014] by simp
lemma r64_288: "round64 (138618182435339506869990840681 / 79228162514264337593543950336) = Fin (246235356434247 / 140737488355328)"
  using round64_near[of 0 "138618182435339506869990840681 / 79228162514264337593543950336" 7879531405895904] by simp
lemma r64_289: "round64 (19464038256532059 / 140737488355328) = Fin (4866009564133015 / 35184372088832)"
  using round64_near[of 7 "19464038256532059 / 140737488355328" 4866009564133015] by simp
lemma r64_290: "round64 (3787638021397167 / 633825300114114700748351602688) = Fin (3787638021397167 / 633825300114114700748351602688)"
  using round64_near[of "- 48" "3787638021397167 / 633825300114114700748351602688" 7575276042794334] by simp
lemma r64_291: "round64 (3373679211061948154154228488879 / 633825300114114700748351602688) = Fin (5992858140512333 / 1125899906842624)"
  using round64_near[of 2 "3373679211061948154154228488879 / 633825300114114700748351602688" 5992858140512333] by simp
lemma r64_292: "round64 (3014341114228659 / 1125899906842624) = Fin (3014341114228659 / 1125899906842624)"
  using round64_near[of 1 "3014341114228659 / 1125899906842624" 6028682228457318] by simp
lemma r64_293: "round64 (163782519308077731 / 1125899906842624) = Fin (5118203728377429 / 35184372088832)"
  using round64_near[of 7 "163782519308077731 / 1125899906842624" 5118203728377429] by simp
lemma r64_294: "round64 (9086252352929273445624536938281 / 1267650600228229401496703205376) = Fin (8070213255821267 / 1125899906842624)"
  using round64_near[of 2 "9086252352929273445624536938281 / 1267650600228229401496703205376" 8070213255821267] by simp
lemma r64_295: "round64 (163782519308077747 / 1125899906842624) = Fin (2559101864188715 / 17592186044416)"
  using round64_near[of 7 "163782519308077747 / 1125899906842624" 5118203728377430] by simp
lemma r64_296: "round64 (64389846363751839 / 10141204801825835211973625643008) = Fin (2012182698867245 / 316912650057057350374175801344)"
  using round64_near[of "- 48" "64389846363751839 / 10141204801825835211973625643008" 8048730795468980] by simp
lemma r64_297: "round64 (1686839605530974195440802413101 / 316912650057057350374175801344) = Fin (5992858140512333 / 1125899906842624)"
  using round64_near[of 2 "1686839605530974195440802413101 / 316912650057057350374175801344" 5992858140512333] by simp
lemma r64_298: "round64 (- (2615158419984461 / 1125899906842624)) = Fin (- (2615158419984461 / 1125899906842624))"
  using round64_near[of 1 "- (2615158419984461 / 1125899906842624)" "- 5230316839968922"] by simp
lemma r64_299: "round64 (169856819092677991 / 1125899906842624) = Fin (5308025596646187 / 35184372088832)"
  using round64_near[of 7 "169856819092677991 / 1125899906842624" 5308025596646187] by simp
lemma r64_300: "round64 (6839053561615622506623481460521 / 1267650600228229401496703205376) = Fin (6074299784600277 / 1125899906842624)"
  using round64_near[of 2 "6839053561615622506623481460521 / 1267650600228229401496703205376" 6074299784600277] by simp
lemma r64_301: "round64 (169856819092678037 / 1125899906842624) = Fin (5308025596646189 / 35184372088832)"
  using round64_near[of 7 "169856819092678037 / 1125899906842624" 5308025596646189] by simp
lemma r64_302: "round64 (34088742192574503 / 5070602400912917605986812821504) = Fin (4261092774071813 / 633825300114114700748351602688)"
  using round64_near[of "- 48" "34088742192574503 / 5070602400912917605986812821504" 8522185548143626] by simp
lemma r64_303: "round64 (3373679211061948627608981163525 / 633825300114114700748351602688) = Fin (2996429070256167 / 562949953421312)"
  using round64_near[of 2 "3373679211061948627608981163525 / 633825300114114700748351602688" 5992858140512334] by simp
lemma r64_304: "round64 (2070120510535641 / 562949953421312) = Fin (2070120510535641 / 562949953421312)"
  using round64_near[of 1 "2070120510535641 / 562949953421312" 8280482042142564] by simp
lemma r64_305: "round64 (92540807241899607 / 562949953421312) = Fin (5783800452618725 / 35184372088832)"
  using round64_near[of 7 "92540807241899607 / 562949953421312" 5783800452618725] by simp
lemma r64_306: "round64 (4285398928140342940480731280881 / 316912650057057350374175801344) = Fin (7612397695560601 / 562949953421312)"
  using round64_near[of 3 "4285398928140342940480731280881 / 316912650057057350374175801344" 7612397695560601] by simp
lemma r64_307: "round64 (92540807241899625 / 562949953421312) = Fin (5783800452618727 / 35184372088832)"
  using round64_near[of 7 "92540807241899625 / 562949953421312" 5783800452618727] by simp
lemma r64_308: "round64 (71965122406546173 / 10141204801825835211973625643008) = Fin (281113759400571 / 39614081257132168796771975168)"
  using round64_near[of "- 48" "71965122406546173 / 10141204801825835211973625643008" 8995640300818272] by simp
lemma r64_309: "round64 (210854950691371804021022343803 / 39614081257132168796771975168) = Fin (2996429070256167 / 562949953421312)"
  using round64_near[of 2 "210854950691371804021022343803 / 39614081257132168796771975168" 5992858140512334] by simp
lemma r64_310: "round64 (- (19242652953310315 / 4503599627370496)) = Fin (- (4810663238327579 / 1125899906842624))"
  using round64_near[of 2 "- (19242652953310315 / 4503599627370496)" "- 4810663238327579"] by simp
lemma r64_311: "round64 (25704533312763491 / 140737488355328) = Fin (6426133328190873 / 35184372088832)"
  using round64_near[of 7 "25704533312763491 / 140737488355328" 6426133328190873] by simp
lemma r64_312: "round64 (23142480792596389149788912001241 / 1267650600228229401496703205376) = Fin (5138663004577191 / 281474976710656)"
  using round64_near[of 4 "23142480792596389149788912001241 / 1267650600228229401496703205376" 5138663004577191] by simp
lemma r64_313: "round64 (51409066625527007 / 281474976710656) = Fin (1606533332047719 / 8796093022208)"
  using round64_near[of 7 "51409066625527007 / 281474976710656" 6426133328190876] by simp
lemma r64_314: "round64 (18938190106985835 / 2535301200456458802993406410752) = Fin (4734547526746459 / 633825300114114700748351602688)"
  using round64_near[of "- 47" "18938190106985835 / 2535301200456458802993406410752" 4734547526746459] by simp
lemma r64_315: "round64 (3373679211061949101063733838171 / 633825300114114700748351602688) = Fin (2996429070256167 / 562949953421312)"
  using round64_near[of 2 "3373679211061949101063733838171 / 633825300114114700748351602688" 5992858140512334] by simp
lemma r64_316: "round64 (- (744629256570919 / 562949953421312)) = Fin (- (744629256570919 / 562949953421312))"
  using round64_near[of 0 "- (744629256570919 / 562949953421312)" "- 5957034052567352"] by simp
lemma r64_317: "round64 (830424597414327627 / 4503599627370496) = Fin (6487692167299435 / 35184372088832)"
  using round64_near[of 7 "830424597414327627 / 4503599627370496" 6487692167299435] by simp
lemma r64_318: "round64 (554472729741359516738476504561 / 316912650057057350374175801344) = Fin (7879531405895925 / 4503599627370496)"
  using round64_near[of 0 "554472729741359516738476504561 / 316912650057057350374175801344" 7879531405895925] by simp
lemma r64_319: "round64 (830424597414328053 / 4503599627370496) = Fin (3243846083649719 / 17592186044416)"
  using round64_near[of 7 "830424597414328053 / 4503599627370496" 6487692167299438] by simp
lemma r64_320: "round64 (79540398449340507 / 10141204801825835211973625643008) = Fin (2485637451541891 / 316912650057057350374175801344)"
  using round64_near[of "- 47" "79540398449340507 / 10141204801825835211973625643008" 4971274903083782] by simp
lemma r64_321: "round64 (1686839605530974668895555087747 / 316912650057057350374175801344) = Fin (5992858140512335 / 1125899906842624)"
  using round64_near[of 2 "1686839605530974668895555087747 / 316912650057057350374175801344" 5992858140512335] by simp
lemma r64_322: "round64 (4140241021071281 / 1125899906842624) = Fin (4140241021071281 / 1125899906842624)"
  using round64_near[of 1 "4140241021071281 / 1125899906842624" 8280482042142562] by simp
lemma r64_323: "round64 (111415472372351575 / 562949953421312) = Fin (6963467023271973 / 35184372088832)"
  using round64_near[of 7 "111415472372351575 / 562949953421312" 6963467023271973] by simp
lemma r64_324: "round64 (17141595712561363481440882980961 / 1267650600228229401496703205376) = Fin (7612397695560597 / 562949953421312)"
  using round64_near[of 3 "17141595712561363481440882980961 / 1267650600228229401496703205376" 7612397695560597] by simp
lemma r64_325: "round64 (111415472372351605 / 562949953421312) = Fin (6963467023271975 / 35184372088832)"
  using round64_near[of 7 "111415472372351605 / 562949953421312" 6963467023271975] by simp
lemma r64_326: "round64 (6963467023271975 / 6963467023271973) = Fin (4503599627370497 / 4503599627370496)"
  using round64_near[of 0 "6963467023271975 / 6963467023271973" 4503599627370497] by simp
lemma r64_327: "round64 (- (1 / 4503599627370496)) = Fin (- (1 / 4503599627370496))"
  using round64_near[of "- 52" "- (1 / 4503599627370496)" "- 4503599627370496"] by simp
lemma r64_328: "round64 (20) = Fin 20"
  using round64_near[of 4 "20" 5629499534213120] by simp
lemma r64_329: "round64 (40) = Fin 40"
  using round64_near[of 5 "40" 5629499534213120] by simp
lemma r64_330: "round64 (50) = Fin 50"
  using round64_near[of 5 "50" 7036874417766400] by simp
lemma r64_331: "round64 (65) = Fin 65"
  using round64_near[of 6 "65" 4573968371548160] by simp
lemma r64_332: "round64 (70) = Fin 70"
  using round64_near[of 6 "70" 4925812092436480] by simp
lemma r64_333: "round64 (75) = Fin 75"
  using round64_near[of 6 "75" 5277655813324800] by simp
lemma r64_334: "round64 (85) = Fin 85"
  using round64_near[of 6 "85" 5981343255101440] by simp
lemma r64_335: "round64 (95) = Fin 95"
  using round64_near[of 6 "95" 6685030696878080] by simp
lemma r64_336: "round64 (1100) = Fin 1100"
  using round64_near[of 10 "1100" 4837851162214400] by simp
lemma r64_337: "round64 (1100 / 21) = Fin (1842990918938819 / 35184372088832)"
  using round64_near[of 5 "1100 / 21" 7371963675755276] by simp
lemma r64_338: "round64 (- (1667069058494659 / 35184372088832)) = Fin (- (1667069058494659 / 35184372088832))"
  using round64_near[of 5 "- (1667069058494659 / 35184372088832)" "- 6668276233978636"] by simp
lemma r64_339: "round64 (2779119245790268790567131526281 / 1237940039285380274899124224) = Fin (2468353739884205 / 1099511627776)"
  using round64_near[of 11 "2779119245790268790567131526281 / 1237940039285380274899124224" 4936707479768410] by simp
lemma r64_340: "round64 (2468353739884205 / 1099511627776) = Fin (2468353739884205 / 1099511627776)"
  using round64_near[of 11 "2468353739884205 / 1099511627776" 4936707479768410] by simp
lemma r64_341: "round64 (2468353739884205 / 549755813888) = Fin (2468353739884205 / 549755813888)"
  using round64_near[of 12 "2468353739884205 / 549755813888" 4936707479768410] by simp
lemma r64_342: "round64 (7405061219652615 / 1099511627776) = Fin (7405061219652615 / 1099511627776)"
  using round64_near[of 12 "7405061219652615 / 1099511627776" 7405061219652615] by simp
lemma r64_343: "round64 (2468353739884205 / 274877906944) = Fin (2468353739884205 / 274877906944)"
  using round64_near[of 13 "2468353739884205 / 274877906944" 4936707479768410] by simp
lemma r64_344: "round64 (12341768699421025 / 1099511627776) = Fin (385680271856907 / 34359738368)"
  using round64_tie[of 13 "12341768699421025 / 1099511627776" 6170884349710512 6170884349710512] by simp
lemma r64_345: "round64 (14810122439305229 / 1099511627776) = Fin (3702530609826307 / 274877906944)"
  using round64_tie[of 13 "14810122439305229 / 1099511627776" 7405061219652614 7405061219652614] by simp
lemma r64_346: "round64 (17278476179189433 / 1099511627776) = Fin (2159809522398679 / 137438953472)"
  using round64_tie[of 13 "17278476179189433 / 1099511627776" 8639238089594716 8639238089594716] by simp
lemma r64_347: "round64 (19746829919073637 / 1099511627776) = Fin (4936707479768409 / 274877906944)"
  using round64_near[of 14 "19746829919073637 / 1099511627776" 4936707479768409] by simp
lemma r64_348: "round64 (22215183658957841 / 1099511627776) = Fin (1388448978684865 / 68719476736)"
  using round64_near[of 14 "22215183658957841 / 1099511627776" 5553795914739460] by simp
lemma r64_349: "round64 (24683537398842045 / 1099511627776) = Fin (6170884349710511 / 274877906944)"
  using round64_near[of 14 "24683537398842045 / 1099511627776" 6170884349710511] by simp
lemma r64_350: "round64 (27151891138726249 / 1099511627776) = Fin (3393986392340781 / 137438953472)"
  using round64_near[of 14 "27151891138726249 / 1099511627776" 6787972784681562] by simp
lemma r64_351: "round64 (29620244878610453 / 1099511627776) = Fin (7405061219652613 / 274877906944)"
  using round64_near[of 14 "29620244878610453 / 1099511627776" 7405061219652613] by simp
lemma r64_352: "round64 (32088598618494657 / 1099511627776) = Fin (501384353413979 / 17179869184)"
  using round64_near[of 14 "32088598618494657 / 1099511627776" 8022149654623664] by simp
lemma r64_353: "round64 (34556952358378861 / 1099511627776) = Fin (8639238089594715 / 274877906944)"
  using round64_near[of 14 "34556952358378861 / 1099511627776" 8639238089594715] by simp
lemma r64_354: "round64 (37025306098263065 / 1099511627776) = Fin (4628163262282883 / 137438953472)"
  using round64_near[of 15 "37025306098263065 / 1099511627776" 4628163262282883] by simp
lemma r64_355: "round64 (39493659838147269 / 1099511627776) = Fin (4936707479768409 / 137438953472)"
  using round64_near[of 15 "39493659838147269 / 1099511627776" 4936707479768409] by simp
lemma r64_356: "round64 (41962013578031477 / 1099511627776) = Fin (5245251697253935 / 137438953472)"
  using round64_near[of 15 "41962013578031477 / 1099511627776" 5245251697253935] by simp
lemma r64_357: "round64 (44430367317915685 / 1099511627776) = Fin (5553795914739461 / 137438953472)"
  using round64_near[of 15 "44430367317915685 / 1099511627776" 5553795914739461] by simp
lemma r64_358: "round64 (46898721057799893 / 1099511627776) = Fin (5862340132224987 / 137438953472)"
  using round64_near[of 15 "46898721057799893 / 1099511627776" 5862340132224987] by simp
lemma r64_359: "round64 (49367074797684101 / 1099511627776) = Fin (6170884349710513 / 137438953472)"
  using round64_near[of 15 "49367074797684101 / 1099511627776" 6170884349710513] by simp
lemma r64_360: "round64 (33341381169893181 / 35184372088832) = Fin (8335345292473295 / 8796093022208)"
  using round64_near[of 9 "33341381169893181 / 35184372088832" 8335345292473295] by simp
lemma r64_361: "round64 (69477981144756719764178288157025 / 77371252455336267181195264) = Fin (1928401359284535 / 2147483648)"
  using round64_near[of 19 "69477981144756719764178288157025 / 77371252455336267181195264" 7713605437138140] by simp
lemma r64_362: "round64 (129588571343920753 / 137438953472) = Fin (8099285708995047 / 8589934592)"
  using round64_near[of 19 "129588571343920753 / 137438953472" 8099285708995047] by simp
lemma r64_363: "round64 (385680271856907 / 8589934592) = Fin (385680271856907 / 8589934592)"
  using round64_near[of 15 "385680271856907 / 8589934592" 6170884349710512] by simp
lemma r64_364: "round64 (- 995) = Fin (- 995)"
  using round64_near[of 9 "- 995" "- 8752112557096960"] by simp
lemma r64_365: "round64 (18014398509481985 / 18014398509481984) = Fin 1"
  using round64_near[of 0 "18014398509481985 / 18014398509481984" 4503599627370496] by simp
lemma r64_366: "round64 (21392098230009855 / 1125899906842624) = Fin 19"
  using round64_near[of 4 "21392098230009855 / 1125899906842624" 5348024557502464] by simp
lemma r64_367: "round64 (180) = Fin 180"
  using round64_near[of 7 "180" 6333186975989760] by simp
lemma r64_368: "round64 (275) = Fin 275"
  using round64_near[of 8 "275" 4837851162214400] by simp
lemma r64_369: "round64 (330) = Fin 330"
  using round64_near[of 8 "330" 5805421394657280] by simp
lemma r64_370: "round64 (390) = Fin 390"
  using round64_near[of 8 "390" 6860952557322240] by simp
lemma r64_371: "round64 (455) = Fin 455"
  using round64_near[of 8 "455" 8004444650209280] by simp
lemma r64_372: "round64 (525) = Fin 525"
  using round64_near[of 9 "525" 4617948836659200] by simp
lemma r64_373: "round64 (600) = Fin 600"
  using round64_near[of 9 "600" 5277655813324800] by simp
lemma r64_374: "round64 (680) = Fin 680"
  using round64_near[of 9 "680" 5981343255101440] by simp
lemma r64_375: "round64 (765) = Fin 765"
  using round64_near[of 9 "765" 6729011161989120] by simp
lemma r64_376: "round64 (855) = Fin 855"
  using round64_near[of 9 "855" 7520659533987840] by simp
lemma r64_377: "round64 (950) = Fin 950"
  using round64_near[of 9 "950" 8356288371097600] by simp
lemma r64_378: "round64 (1050) = Fin 1050"
  using round64_near[of 10 "1050" 4617948836659200] by simp
lemma r64_379: "round64 (60270) = Fin 60270"
  using round64_near[of 15 "60270" 8283445725757440] by simp
lemma r64_380: "round64 (44100) = Fin 44100"
  using round64_near[of 15 "44100" 6061057848115200] by simp
lemma r64_381: "round64 (16170) = Fin 16170"
  using round64_near[of 13 "16170" 8889551510568960] by simp
lemma r64_382: "round64 (22050) = Fin 22050"
  using round64_near[of 14 "22050" 6061057848115200] by simp
lemma r64_383: "round64 (99999999999999996973312221251036165947450327545502362648241750950346848435554075534196338404706251868027512415973882408182135734368278484639385041047239877871023591066789981811181813306167128854888448) = Fin 99999999999999996973312221251036165947450327545502362648241750950346848435554075534196338404706251868027512415973882408182135734368278484639385041047239877871023591066789981811181813306167128854888448"
  using round64_near[of 664 "99999999999999996973312221251036165947450327545502362648241750950346848435554075534196338404706251868027512415973882408182135734368278484639385041047239877871023591066789981811181813306167128854888448" 5883593420661338] by simp
lemma r64_384: "round64 (9999999999999999394662444250207242350328975537437122472339781620627054208687723630273803080019321330542305583946752893233248807023279528544321615522160248929124666144096269561533145561164738489983397621092322208138630994725213747351190385096618755256077267472586468217736468683611398422884121732612670396695303894425945224331154483477963396905445761715933439520020822843337114038314499908946523848704) = PInf"
  using round64_overflow[of 1328 "9999999999999999394662444250207242350328975537437122472339781620627054208687723630273803080019321330542305583946752893233248807023279528544321615522160248929124666144096269561533145561164738489983397621092322208138630994725213747351190385096618755256077267472586468217736468683611398422884121732612670396695303894425945224331154483477963396905445761715933439520020822843337114038314499908946523848704" 7686445155841023] by simp
lemma r64_385: "round64 (- 99999999999999996973312221251036165947450327545502362648241750950346848435554075534196338404706251868027512415973882408182135734368278484639385041047239877871023591066789981811181813306167128854888448) = Fin (- 99999999999999996973312221251036165947450327545502362648241750950346848435554075534196338404706251868027512415973882408182135734368278484639385041047239877871023591066789981811181813306167128854888448)"
  using round64_near[of 664 "- 99999999999999996973312221251036165947450327545502362648241750950346848435554075534196338404706251868027512415973882408182135734368278484639385041047239877871023591066789981811181813306167128854888448" "- 5883593420661338"] by simp
lemma r64_386: "round64 (100000000000000001097906362944045541740492309677311846336810682903157585404911491537163328978494688899061249669721172515611590283743140088328307009198146046031271664502933027185697489699588559043338384466165001178426897626212945177628091195786707458122783970171784415105291802893207873272974885715430223118336) = Fin 100000000000000001097906362944045541740492309677311846336810682903157585404911491537163328978494688899061249669721172515611590283743140088328307009198146046031271664502933027185697489699588559043338384466165001178426897626212945177628091195786707458122783970171784415105291802893207873272974885715430223118336"
  using round64_near[of 1023 "100000000000000001097906362944045541740492309677311846336810682903157585404911491537163328978494688899061249669721172515611590283743140088328307009198146046031271664502933027185697489699588559043338384466165001178426897626212945177628091195786707458122783970171784415105291802893207873272974885715430223118336" 5010420900022432] by simp
lemma r64_387: "round64 (200000000000000002195812725888091083480984619354623692673621365806315170809822983074326657956989377798122499339442345031223180567486280176656614018396292092062543329005866054371394979399177118086676768932330002356853795252425890355256182391573414916245567940343568830210583605786415746545949771430860446236672) = PInf"
  using round64_overflow[of 1024 "200000000000000002195812725888091083480984619354623692673621365806315170809822983074326657956989377798122499339442345031223180567486280176656614018396292092062543329005866054371394979399177118086676768932330002356853795252425890355256182391573414916245567940343568830210583605786415746545949771430860446236672" 5010420900022432] by simp

lemmas roundings =
  r64_1 r64_2 r64_3 r64_4 r64_5 r64_6 r64_7 r64_8 r64_9 r64_10 r64_11 r64_12 r64_13 r64_14
  r64_15 r64_16 r64_17 r64_18 r64_19 r64_20 r64_21 r64_22 r64_23 r64_24 r64_25 r64_26 r64_27
  r64_28 r64_29 r64_30 r64_31 r64_32 r64_33 r64_34 r64_35 r64_36 r64_37 r64_38 r64_39 r64_40
  r64_41 r64_42 r64_43 r64_44 r64_45 r64_46 r64_47 r64_48 r64_49 r64_50 r64_51 r64_52 r64_53
  r64_54 r64_55 r64_56 r64_57 r64_58 r64_59 r64_60 r64_61 r64_62 r64_63 r64_64 r64_65 r64_66
  r64_67 r64_68 r64_69 r64_70 r64_71 r64_72 r64_73 r64_74 r64_75 r64_76 r64_77 r64_78 r64_79
  r64_80 r64_81 r64_82 r64_83 r64_84 r64_85 r64_86 r64_87 r64_88 r64_89 r64_90 r64_91 r64_92
  r64_93 r64_94 r64_95 r64_96 r64_97 r64_98 r64_99 r64_100 r64_101 r64_102 r64_103 r64_104
  r64_105 r64_106 r64_107 r64_108 r64_109 r64_110 r64_111 r64_112 r64_113 r64_114 r64_115
  r64_116 r64_117 r64_118 r64_119 r64_120 r64_121 r64_122 r64_123 r64_124 r64_125 r64_126
  r64_127 r64_128 r64_129 r64_130 r64_131 r64_132 r64_133 r64_134 r64_135 r64_136 r64_137
  r64_138 r64_139 r64_140 r64_141 r64_142 r64_143 r64_144 r64_145 r64_146 r64_147 r64_148
  r64_149 r64_150 r64_151 r64_152 r64_153 r64_154 r64_155 r64_156 r64_157 r64_158 r64_159
  r64_160 r64_161 r64_162 r64_163 r64_164 r64_165 r64_166 r64_167 r64_168 r64_169 r64_170
  r64_171 r64_172 r64_173 r64_174 r64_175 r64_176 r64_177 r64_178 r64_179 r64_180 r64_181
  r64_182 r64_183 r64_184 r64_185 r64_186 r64_187 r64_188 r64_189 r64_190 r64_191 r64_192
  r64_193 r64_194 r64_195 r64_196 r64_197 r64_198 r64_199 r64_200 r64_201 r64_202 r64_203
  r64_204 r64_205 r64_206 r64_207 r64_208 r64_209 r64_210 r64_211 r64_212 r64_213 r64_214
  r64_215 r64_216 r64_217 r64_218 r64_219 r64_220 r64_221 r64_222 r64_223 r64_224 r64_225
  r64_226 r64_227 r64_228 r64_229 r64_230 r64_231 r64_232 r64_233 r64_234 r64_235 r64_236
  r64_237 r64_238 r64_239 r64_240 r64_241 r64_242 r64_243 r64_244 r64_245 r64_246 r64_247
  r64_248 r64_249 r64_250 r64_251 r64_252 r64_253 r64_254 r64_255 r64_256 r64_257 r64_258
  r64_259 r64_260 r64_261 r64_262 r64_263 r64_264 r64_265 r64_266 r64_267 r64_268 r64_269
  r64_270 r64_271 r64_272 r64_273 r64_274 r64_275 r64_276 r64_277 r64_278 r64_279 r64_280
  r64_281 r64_282 r64_283 r64_284 r64_285 r64_286 r64_287 r64_288 r64_289 r64_290 r64_291
  r64_292 r64_293 r64_294 r64_295 r64_296 r64_297 r64_298 r64_299 r64_300 r64_301 r64_302
  r64_303 r64_304 r64_305 r64_306 r64_307 r64_308 r64_309 r64_310 r64_311 r64_312 r64_313
  r64_314 r64_315 r64_316 r64_317 r64_318 r64_319 r64_320 r64_321 r64_322 r64_323 r64_324
  r64_325 r64_326 r64_327 r64_328 r64_329 r64_330 r64_331 r64_332 r64_333 r64_334 r64_335
  r64_336 r64_337 r64_338 r64_339 r64_340 r64_341 r64_342 r64_343 r64_344 r64_345 r64_346
  r64_347 r64_348 r64_349 r64_350 r64_351 r64_352 r64_353 r64_354 r64_355 r64_356 r64_357
  r64_358 r64_359 r64_360 r64_361 r64_362 r64_363 r64_364 r64_365 r64_366 r64_367 r64_368
  r64_369 r64_370 r64_371 r64_372 r64_373 r64_374 r64_375 r64_376 r64_377 r64_378 r64_379
  r64_380 r64_381 r64_382 r64_383 r64_384 r64_385 r64_386 r64_387

subsection \<open>The series 0.1, 1, 0.1\<close>

lemma tenths64_count:
  "length (indexValues64 [Some (Fin (3602879701896397 / 36028797018963968)), Some (Fin 1),
     Some (Fin (3602879701896397 / 36028797018963968))] 0) = 3"
  by simp

lemma tenths64_values:
  "regressionValues64 [Some (Fin (3602879701896397 / 36028797018963968)), Some (Fin 1),
     Some (Fin (3602879701896397 / 36028797018963968))]
   = [Fin (3602879701896397 / 36028797018963968), Fin 1,
     Fin (3602879701896397 / 36028797018963968)]"
  by (simp add: regressionValues64_def winsorizedYValuesOf64_def winsorize64_def clamp64_def
        Let_def roundings)

lemma tenths64_sums:
  "regressionSums64 (indexValues64 [Some (Fin (3602879701896397 / 36028797018963968)), Some (Fin 1),
     Some (Fin (3602879701896397 / 36028797018963968))] 0)
     [Fin (3602879701896397 / 36028797018963968), Fin 1,
     Fin (3602879701896397 / 36028797018963968)]
   = (Fin 3, Fin (1351079888211149 / 1125899906842624), Fin (5404319552844595 / 4503599627370496), Fin 5)"
  by (simp add: regressionSums64_def upt_rec js_at_def Let_def f_sub_def roundings)

lemma tenths64_denominator:
  "denominator64 [Some (Fin (3602879701896397 / 36028797018963968)), Some (Fin 1),
     Some (Fin (3602879701896397 / 36028797018963968))]
   = Fin 6"
  by (simp add: denominator64_def tenths64_count tenths64_values tenths64_sums f_sub_def Let_def roundings
        del: indexValues64.simps)

lemma tenths64_slope:
  "slopeOf64 [Some (Fin (3602879701896397 / 36028797018963968)), Some (Fin 1),
     Some (Fin (3602879701896397 / 36028797018963968))]
   = Fin (- (6004799503160661 / 40564819207303340847894502572032))"
  by (simp add: slopeOf64_def tenths64_denominator tenths64_count tenths64_values tenths64_sums f_sub_def Let_def
        roundings del: indexValues64.simps)

lemma tenths64_squaresSums:
  "squaresSums64 (indexValues64 [Some (Fin (3602879701896397 / 36028797018963968)), Some (Fin 1),
     Some (Fin (3602879701896397 / 36028797018963968))] 0)
     [Fin (3602879701896397 / 36028797018963968), Fin 1,
     Fin (3602879701896397 / 36028797018963968)]
     (Fin (- (6004799503160661 / 40564819207303340847894502572032))) (Fin (7205759403792797 / 18014398509481984)) (Fin (7205759403792795 / 18014398509481984))
   = (Fin (2431943798780067 / 4503599627370496), Fin (607985949695017 / 1125899906842624))"
  by (simp add: squaresSums64_def upt_rec js_at_def Let_def f_sub_def roundings)

lemma tenths64_squares:
  "squares64 [Some (Fin (3602879701896397 / 36028797018963968)), Some (Fin 1),
     Some (Fin (3602879701896397 / 36028797018963968))]
   = (Fin (2431943798780067 / 4503599627370496), Fin (607985949695017 / 1125899906842624))"
  by (simp add: squares64_def tenths64_slope tenths64_count tenths64_values tenths64_sums tenths64_squaresSums f_sub_def
        Let_def roundings del: indexValues64.simps)

subsection \<open>A series of 22 observations with an outlier\<close>

lemma outlier64_count:
  "length (indexValues64 [Some (Fin 2), Some (Fin 9), Some (Fin 3), Some (Fin 9), Some (Fin 9), Some (Fin 3),
     Some (Fin 2), Some (Fin 8), Some (Fin 2), Some (Fin 6), Some (Fin 9), Some (Fin 5),
     Some (Fin 1), Some (Fin 3), Some (Fin 8), Some (Fin 4), Some (Fin 8), Some (Fin 3),
     Some (Fin 9), Some (Fin 0), Some (Fin 4), Some (Fin 1000000)] 0) = 22"
  by simp

lemma outlier64_sorted:
  "toSorted64 [Fin 2, Fin 9, Fin 3, Fin 9, Fin 9, Fin 3, Fin 2, Fin 8, Fin 2, Fin 6, Fin 9, Fin 5, Fin 1,
     Fin 3, Fin 8, Fin 4, Fin 8, Fin 3, Fin 9, Fin 0, Fin 4, Fin 1000000]
   = [Fin 0, Fin 1, Fin 2, Fin 2, Fin 2, Fin 3, Fin 3, Fin 3, Fin 3, Fin 4, Fin 4, Fin 5, Fin 6,
     Fin 8, Fin 8, Fin 8, Fin 9, Fin 9, Fin 9, Fin 9, Fin 9, Fin 1000000]"
  by (simp add: toSorted64_def f_sub_def roundings)

lemma outlier64_bounds:
  "quantile64 [Fin 0, Fin 1, Fin 2, Fin 2, Fin 2, Fin 3, Fin 3, Fin 3, Fin 3, Fin 4, Fin 4, Fin 5, Fin 6,
     Fin 8, Fin 8, Fin 8, Fin 9, Fin 9, Fin 9, Fin 9, Fin 9, Fin 1000000]
     (Fin (3602879701896397 / 72057594037927936)) = Fin (4728779608739021 / 4503599627370496)"
  "quantile64 [Fin 0, Fin 1, Fin 2, Fin 2, Fin 2, Fin 3, Fin 3, Fin 3, Fin 3, Fin 4, Fin 4, Fin 5, Fin 6,
     Fin 8, Fin 8, Fin 8, Fin 9, Fin 9, Fin 9, Fin 9, Fin 9, Fin 1000000]
     (Fin (4278419646001971 / 4503599627370496)) = Fin 9"
  by (simp_all add: quantile64_def js_at64_def js_at_def f_le_def f_sub_def Let_def roundings)

lemma outlier64_values:
  "regressionValues64 [Some (Fin 2), Some (Fin 9), Some (Fin 3), Some (Fin 9), Some (Fin 9), Some (Fin 3),
     Some (Fin 2), Some (Fin 8), Some (Fin 2), Some (Fin 6), Some (Fin 9), Some (Fin 5),
     Some (Fin 1), Some (Fin 3), Some (Fin 8), Some (Fin 4), Some (Fin 8), Some (Fin 3),
     Some (Fin 9), Some (Fin 0), Some (Fin 4), Some (Fin 1000000)]
   = [Fin 2, Fin 9, Fin 3, Fin 9, Fin 9, Fin 3, Fin 2, Fin 8, Fin 2, Fin 6, Fin 9, Fin 5,
     Fin (4728779608739021 / 4503599627370496), Fin 3, Fin 8, Fin 4, Fin 8, Fin 3, Fin 9,
     Fin (4728779608739021 / 4503599627370496), Fin 4, Fin 9]"
  by (simp add: regressionValues64_def winsorizedYValuesOf64_def winsorize64_def clamp64_def
        Let_def outlier64_sorted outlier64_bounds roundings)

lemma outlier64_sums:
  "regressionSums64 (indexValues64 [Some (Fin 2), Some (Fin 9), Some (Fin 3), Some (Fin 9), Some (Fin 9), Some (Fin 3),
     Some (Fin 2), Some (Fin 8), Some (Fin 2), Some (Fin 6), Some (Fin 9), Some (Fin 5),
     Some (Fin 1), Some (Fin 3), Some (Fin 8), Some (Fin 4), Some (Fin 8), Some (Fin 3),
     Some (Fin 9), Some (Fin 0), Some (Fin 4), Some (Fin 1000000)] 0)
     [Fin 2, Fin 9, Fin 3, Fin 9, Fin 9, Fin 3, Fin 2, Fin 8, Fin 2, Fin 6, Fin 9, Fin 5,
     Fin (4728779608739021 / 4503599627370496), Fin 3, Fin 8, Fin 4, Fin 8, Fin 3, Fin 9,
     Fin (4728779608739021 / 4503599627370496), Fin 4, Fin 9]
   = (Fin 231, Fin (4120089971602227 / 35184372088832), Fin (1351904521931981 / 1099511627776), Fin 3311)"
  by (simp add: regressionSums64_def upt_rec js_at_def Let_def f_sub_def roundings)

lemma outlier64_denominator:
  "denominator64 [Some (Fin 2), Some (Fin 9), Some (Fin 3), Some (Fin 9), Some (Fin 9), Some (Fin 3),
     Some (Fin 2), Some (Fin 8), Some (Fin 2), Some (Fin 6), Some (Fin 9), Some (Fin 5),
     Some (Fin 1), Some (Fin 3), Some (Fin 8), Some (Fin 4), Some (Fin 8), Some (Fin 3),
     Some (Fin 9), Some (Fin 0), Some (Fin 4), Some (Fin 1000000)]
   = Fin 19481"
  by (simp add: denominator64_def outlier64_count outlier64_values outlier64_sums f_sub_def Let_def roundings
        del: indexValues64.simps)

lemma outlier64_slope:
  "slopeOf64 [Some (Fin 2), Some (Fin 9), Some (Fin 3), Some (Fin 9), Some (Fin 9), Some (Fin 3),
     Some (Fin 2), Some (Fin 8), Some (Fin 2), Some (Fin 6), Some (Fin 9), Some (Fin 5),
     Some (Fin 1), Some (Fin 3), Some (Fin 8), Some (Fin 4), Some (Fin 8), Some (Fin 3),
     Some (Fin 9), Some (Fin 0), Some (Fin 4), Some (Fin 1000000)]
   = Fin (3787638021397167 / 10141204801825835211973625643008)"
  by (simp add: slopeOf64_def outlier64_denominator outlier64_count outlier64_values outlier64_sums f_sub_def Let_def
        roundings del: indexValues64.simps)

lemma outlier64_squaresSums:
  "squaresSums64 (indexValues64 [Some (Fin 2), Some (Fin 9), Some (Fin 3), Some (Fin 9), Some (Fin 9), Some (Fin 3),
     Some (Fin 2), Some (Fin 8), Some (Fin 2), Some (Fin 6), Some (Fin 9), Some (Fin 5),
     Some (Fin 1), Some (Fin 3), Some (Fin 8), Some (Fin 4), Some (Fin 8), Some (Fin 3),
     Some (Fin 9), Some (Fin 0), Some (Fin 4), Some (Fin 1000000)] 0)
     [Fin 2, Fin 9, Fin 3, Fin 9, Fin 9, Fin 3, Fin 2, Fin 8, Fin 2, Fin 6, Fin 9, Fin 5,
     Fin (4728779608739021 / 4503599627370496), Fin 3, Fin 8, Fin 4, Fin 8, Fin 3, Fin 9,
     Fin (4728779608739021 / 4503599627370496), Fin 4, Fin 9]
     (Fin (3787638021397167 / 10141204801825835211973625643008)) (Fin (2996429070256163 / 562949953421312)) (Fin (2996429070256165 / 562949953421312))
   = (Fin (6963467023271973 / 35184372088832), Fin (6963467023271975 / 35184372088832))"
  by (simp add: squaresSums64_def upt_rec js_at_def Let_def f_sub_def roundings)

lemma outlier64_squares:
  "squares64 [Some (Fin 2), Some (Fin 9), Some (Fin 3), Some (Fin 9), Some (Fin 9), Some (Fin 3),
     Some (Fin 2), Some (Fin 8), Some (Fin 2), Some (Fin 6), Some (Fin 9), Some (Fin 5),
     Some (Fin 1), Some (Fin 3), Some (Fin 8), Some (Fin 4), Some (Fin 8), Some (Fin 3),
     Some (Fin 9), Some (Fin 0), Some (Fin 4), Some (Fin 1000000)]
   = (Fin (6963467023271973 / 35184372088832), Fin (6963467023271975 / 35184372088832))"
  by (simp add: squares64_def outlier64_slope outlier64_count outlier64_values outlier64_sums outlier64_squaresSums f_sub_def
        Let_def roundings del: indexValues64.simps)

subsection \<open>The series 5, 5, 5\<close>








subsection \<open>Twenty observations of 5 and one of 1000\<close>












subsection \<open>The series 1e200, -1e200\<close>




subsection \<open>The series 1e308, 1e308\<close>




subsection \<open>The series 0, 0, 0\<close>










section \<open>The coefficient of variation\<close>

text \<open>
  Claim C1, as stated: \<open>coefficientOfVariation\<close> is undefined exactly when the mean is 0.
  A series of one observation refutes it: the mean is that observation and the
  coefficient of variation is undefined.
\<close>

theorem coefficientOfVariation_single_counterexample:
  "computeLineChartAnalysis [Some 42] =
     Some \<lparr>mean = 42, standardDeviation = 0, coefficientOfVariation = None, slope = 0,
           rSquared = None,
           interp = \<lparr>volatility = V_very_stable, trend = T_none\<rparr>\<rparr>
   \<and> (42 :: real) \<noteq> 0"
  by (simp add: computeLineChartAnalysis_def Let_def js_at_def)

text \<open>
  Claim C1, amended. \<open>coefficientOfVariation\<close> is undefined exactly when the mean is 0
  or the series has exactly one observation; on every other series with a mean other
  than 0 it is \<open>standardDeviation / mean\<close>.
\<close>

theorem coefficientOfVariation_undefined_iff:
  "\<exists>r. computeLineChartAnalysis vals = Some r
     \<and> (coefficientOfVariation r = None \<longleftrightarrow> mean r = 0 \<or> length (spec_values vals) = 1)
     \<and> (mean r \<noteq> 0 \<and> length (spec_values vals) \<noteq> 1 \<longrightarrow>
          coefficientOfVariation r = Some (standardDeviation r / mean r))"
proof -
  consider "length (spec_values vals) = 0" | "length (spec_values vals) = 1"
    | "2 \<le> length (spec_values vals)"
    by linarith
  then show ?thesis
  proof cases
    case 1
    then show ?thesis by (simp add: analysis_no_observation)
  next
    case 2
    then show ?thesis by (simp add: analysis_one_observation)
  next
    case 3
    obtain w where w: "winsorizedYValuesOf (spec_values vals) = Some w"
      using winsorizedYValuesOf_total by blast
    from 3 show ?thesis
      unfolding analysis_of_observations[OF 3 w] by simp
  qed
qed

theorem coefficientOfVariation_undefined_iff_witness:
  "\<exists>r. computeLineChartAnalysis [Some 0, Some 10] = Some r
     \<and> mean r = 5 \<and> length (spec_values [Some 0, Some 10]) = 2
     \<and> coefficientOfVariation r = Some (standardDeviation r / 5)"
proof -
  let ?vals = "[Some 0, Some 10] :: real option list"
  obtain r where r: "computeLineChartAnalysis ?vals = Some r"
    and cv: "mean r \<noteq> 0 \<and> length (spec_values ?vals) \<noteq> 1 \<longrightarrow>
          coefficientOfVariation r = Some (standardDeviation r / mean r)"
    using coefficientOfVariation_undefined_iff[of ?vals] by blast
  have len: "length (spec_values ?vals) = 2"
    by (simp add: spec_values_def)
  have "map_option mean (computeLineChartAnalysis ?vals) = Some 5"
    by (simp add: computeLineChartAnalysis_def Let_def js_div_def js_sqrt_def js_at_def
          winsorizedYValuesOf_def regressionSums_def squaresSums_def sum_numbers_def upt_rec)
  with r have m: "mean r = 5" by simp
  with cv len have "coefficientOfVariation r = Some (standardDeviation r / 5)" by simp
  with r m len show ?thesis by blast
qed

section \<open>When rSquared is undefined\<close>


text \<open>
  The same series in the exact embedding: there too every regression value is 5 and
  \<open>rSquared\<close> is undefined, while the standard deviation is not 0.
\<close>

theorem rSquared_flat_counterexample:
  "winsorizedYValuesOf [5, 5, 5, 5, 5, 5, 5, 5, 5, 5, 5, 5, 5, 5, 5, 5, 5, 5, 5, 5, 1000]
     = Some [5, 5, 5, 5, 5, 5, 5, 5, 5, 5, 5, 5, 5, 5, 5, 5, 5, 5, 5, 5, 5]
   \<and> spec_ssTotal [5, 5, 5, 5, 5, 5, 5, 5, 5, 5, 5, 5, 5, 5, 5, 5, 5, 5, 5, 5, 5] = 0
   \<and> map_option rSquared (computeLineChartAnalysis
        [Some 5, Some 5, Some 5, Some 5, Some 5, Some 5, Some 5, Some 5, Some 5, Some 5,
         Some 5, Some 5, Some 5, Some 5, Some 5, Some 5, Some 5, Some 5, Some 5, Some 5,
         Some 1000]) = Some None
   \<and> map_option standardDeviation (computeLineChartAnalysis
        [Some 5, Some 5, Some 5, Some 5, Some 5, Some 5, Some 5, Some 5, Some 5, Some 5,
         Some 5, Some 5, Some 5, Some 5, Some 5, Some 5, Some 5, Some 5, Some 5, Some 5,
         Some 1000]) \<noteq> Some 0"
proof -
  let ?vals = "[Some 5, Some 5, Some 5, Some 5, Some 5, Some 5, Some 5, Some 5, Some 5, Some 5,
         Some 5, Some 5, Some 5, Some 5, Some 5, Some 5, Some 5, Some 5, Some 5, Some 5,
         Some 1000] :: real option list"
  let ?ys = "[5, 5, 5, 5, 5, 5, 5, 5, 5, 5, 5, 5, 5, 5, 5, 5, 5, 5, 5, 5, 1000] :: real list"
  let ?w = "[5, 5, 5, 5, 5, 5, 5, 5, 5, 5, 5, 5, 5, 5, 5, 5, 5, 5, 5, 5, 5] :: real list"
  have n2: "2 \<le> length (spec_values ?vals)"
    by (simp only: flat_values) simp
  have w: "winsorizedYValuesOf (spec_values ?vals) = Some ?w"
    by (simp only: flat_values flat_winsorized)
  from analysis_regression[OF n2 w] obtain r where r: "computeLineChartAnalysis ?vals = Some r"
    and r2: "rSquared r = spec_rSquared (map real (spec_indices ?vals)) ?w"
    and sd: "standardDeviation r
             = sqrt (spec_ssTotal (spec_values ?vals) / real (length (spec_values ?vals)))"
    by blast
  from r2 have "rSquared r = None"
    by (simp only: spec_rSquared_def flat_ssTotal) simp
  moreover from sd have "standardDeviation r \<noteq> 0"
    unfolding flat_values using flat_ssTotal(2) by simp
  ultimately show ?thesis
    using r flat_winsorized flat_ssTotal(1) by simp
qed



section \<open>The empty series\<close>

text \<open>
  Claim C3. On the empty series the analysis has mean 0, standard deviation 0, no
  coefficient of variation, slope 0, no \<open>rSquared\<close>, and both interpretations
  undefined; a series of missing entries only gives the same result.
\<close>

theorem empty_series:
  "computeLineChartAnalysis [] =
     Some \<lparr>mean = 0, standardDeviation = 0, coefficientOfVariation = None, slope = 0,
           rSquared = None,
           interp = \<lparr>volatility = V_undefined, trend = T_undefined\<rparr>\<rparr>
   \<and> (set vals \<subseteq> {None} \<longrightarrow> computeLineChartAnalysis vals = computeLineChartAnalysis [])"
  by (simp add: computeLineChartAnalysis_def indexValues_all_missing)

theorem empty_series_witness:
  "set [None, None] \<subseteq> {None :: real option}
   \<and> computeLineChartAnalysis [None, None] =
     Some \<lparr>mean = 0, standardDeviation = 0, coefficientOfVariation = None, slope = 0,
           rSquared = None,
           interp = \<lparr>volatility = V_undefined, trend = T_undefined\<rparr>\<rparr>"
  using empty_series[of "[None, None]"] by simp

section \<open>The contract of quantile\<close>



section \<open>Winsorization\<close>



section \<open>The threshold of winsorization\<close>

text \<open>
  Claim C6: the regression values are the winsorized observations exactly from 20
  observations on (\<open>winsorizedYValuesOf64\<close>), and with an outlier among at least 20
  observations the returned \<open>rSquared\<close> lies in \<open>[0, 1]\<close>. The second part fails on
  the following series of 22 observations. Its outlier 1000000 is clamped to 9 and the
  two observations below the 5th percentile to 1.05; the loops then accumulate a
  residual sum of squares that is one unit in the last place above the total sum of
  squares, and \<open>rSquared\<close> is \<open>- 2\<^sup>-\<^sup>5\<^sup>2\<close>, about \<open>-2.22e-16\<close>.
\<close>

theorem rSquared64_outlier_negative:
  "regressionValues64
       [Some (Fin 2), Some (Fin 9), Some (Fin 3), Some (Fin 9), Some (Fin 9), Some (Fin 3),
        Some (Fin 2), Some (Fin 8), Some (Fin 2), Some (Fin 6), Some (Fin 9), Some (Fin 5),
        Some (Fin 1), Some (Fin 3), Some (Fin 8), Some (Fin 4), Some (Fin 8), Some (Fin 3),
        Some (Fin 9), Some (Fin 0), Some (Fin 4), Some (Fin 1000000)]
     = [Fin 2, Fin 9, Fin 3, Fin 9, Fin 9, Fin 3, Fin 2, Fin 8, Fin 2, Fin 6, Fin 9, Fin 5,
        Fin (4728779608739021 / 4503599627370496), Fin 3, Fin 8, Fin 4, Fin 8, Fin 3, Fin 9,
        Fin (4728779608739021 / 4503599627370496), Fin 4, Fin 9]
   \<and> squares64
       [Some (Fin 2), Some (Fin 9), Some (Fin 3), Some (Fin 9), Some (Fin 9), Some (Fin 3),
        Some (Fin 2), Some (Fin 8), Some (Fin 2), Some (Fin 6), Some (Fin 9), Some (Fin 5),
        Some (Fin 1), Some (Fin 3), Some (Fin 8), Some (Fin 4), Some (Fin 8), Some (Fin 3),
        Some (Fin 9), Some (Fin 0), Some (Fin 4), Some (Fin 1000000)]
     = (Fin (6963467023271973 / 35184372088832), Fin (6963467023271975 / 35184372088832))
   \<and> map_option rSquared64 (computeLineChartAnalysis64
       [Some (Fin 2), Some (Fin 9), Some (Fin 3), Some (Fin 9), Some (Fin 9), Some (Fin 3),
        Some (Fin 2), Some (Fin 8), Some (Fin 2), Some (Fin 6), Some (Fin 9), Some (Fin 5),
        Some (Fin 1), Some (Fin 3), Some (Fin 8), Some (Fin 4), Some (Fin 8), Some (Fin 3),
        Some (Fin 9), Some (Fin 0), Some (Fin 4), Some (Fin 1000000)])
     = Some (Some (Fin (- (1 / 4503599627370496))))"
  using computeLineChartAnalysis64_closed[of
      "[Some (Fin 2), Some (Fin 9), Some (Fin 3), Some (Fin 9), Some (Fin 9), Some (Fin 3),
        Some (Fin 2), Some (Fin 8), Some (Fin 2), Some (Fin 6), Some (Fin 9),
        Some (Fin 5), Some (Fin 1), Some (Fin 3), Some (Fin 8), Some (Fin 4),
        Some (Fin 8), Some (Fin 3), Some (Fin 9), Some (Fin 0), Some (Fin 4),
        Some (Fin 1000000)]"]
  by (simp add: outlier64_count outlier64_values outlier64_denominator outlier64_squares ssTotal64_def
        ssResidual64_def f_sub_def roundings del: indexValues64.simps)

section \<open>Missing entries keep the spacing of the indices\<close>

text \<open>
  Claim C7. The indices of the observations are the original 0-based positions of the
  entries that are not missing, in order, and each observation is the entry at its
  index; from two observations on, slope and \<open>rSquared\<close> are those of the
  least-squares fit over these indices. On \<open>[10, null, 30, null, 50]\<close> they are the
  slope 10 and the \<open>rSquared\<close> 1 of the values 10, 30, 50 at the indices 0, 2, 4.
\<close>

theorem index_spacing_preserved:
  "map iv_index (indexValues vals 0) = filter (\<lambda>i. vals ! i \<noteq> None) [0..<length vals]
   \<and> (\<forall>e\<in>set (indexValues vals 0).
          iv_index e < length vals \<and> vals ! iv_index e = Some (iv_value e))
   \<and> (2 \<le> length (indexValues vals 0) \<longrightarrow>
        (\<exists>r w. computeLineChartAnalysis vals = Some r
           \<and> winsorizedYValuesOf (map iv_value (indexValues vals 0)) = Some w
           \<and> slope r = spec_slope (map (\<lambda>e. real (iv_index e)) (indexValues vals 0)) w
           \<and> rSquared r = spec_rSquared (map (\<lambda>e. real (iv_index e)) (indexValues vals 0)) w))
   \<and> (\<exists>r. computeLineChartAnalysis [Some 10, None, Some 30, None, Some 50] = Some r
         \<and> slope r = spec_slope [0, 2, 4] [10, 30, 50]
         \<and> rSquared r = spec_rSquared [0, 2, 4] [10, 30, 50]
         \<and> slope r = 10 \<and> rSquared r = Some 1)"
proof (intro conjI impI ballI)
  show "map iv_index (indexValues vals 0) = filter (\<lambda>i. vals ! i \<noteq> None) [0..<length vals]"
    by (simp add: indexValues_indices)
next
  fix e assume "e \<in> set (indexValues vals 0)"
  from indexValues_entries[OF this]
  show "iv_index e < length vals" "vals ! iv_index e = Some (iv_value e)" by simp_all
next
  assume n2: "2 \<le> length (indexValues vals 0)"
  obtain w where w: "winsorizedYValuesOf (map iv_value (indexValues vals 0)) = Some w"
    using winsorizedYValuesOf_total by blast
  from computeLineChartAnalysis_spec[OF n2 w] w
  show "\<exists>r w. computeLineChartAnalysis vals = Some r
           \<and> winsorizedYValuesOf (map iv_value (indexValues vals 0)) = Some w
           \<and> slope r = spec_slope (map (\<lambda>e. real (iv_index e)) (indexValues vals 0)) w
           \<and> rSquared r = spec_rSquared (map (\<lambda>e. real (iv_index e)) (indexValues vals 0)) w"
    by simp
next
  let ?vals = "[Some 10, None, Some 30, None, Some 50] :: real option list"
  have ivs: "indexValues ?vals 0 = [\<lparr>iv_value = 10, iv_index = 0\<rparr>,
      \<lparr>iv_value = 30, iv_index = 2\<rparr>, \<lparr>iv_value = 50, iv_index = 4\<rparr>]"
    by simp
  have n2: "2 \<le> length (indexValues ?vals 0)" by (simp only: ivs) simp
  have w: "winsorizedYValuesOf (map iv_value (indexValues ?vals 0)) = Some [10, 30, 50]"
    by (simp add: winsorizedYValuesOf_def)
  have xs: "map (\<lambda>e. real (iv_index e)) (indexValues ?vals 0) = [0, 2, 4]"
    by simp
  have s: "spec_slope [0, 2, 4] [10, 30, 50] = 10"
    by (simp add: spec_slope_def spec_denominator_def)
  have "spec_ssResidual [0, 2, 4] [10, 30, 50] = 0"
    by (simp add: spec_ssResidual_def s)
  then have r2: "spec_rSquared [0, 2, 4] [10, 30, 50] = Some 1"
    by (simp add: spec_rSquared_def spec_denominator_def spec_ssTotal_def)
  from computeLineChartAnalysis_spec[OF n2 w]
  show "\<exists>r. computeLineChartAnalysis ?vals = Some r
         \<and> slope r = spec_slope [0, 2, 4] [10, 30, 50]
         \<and> rSquared r = spec_rSquared [0, 2, 4] [10, 30, 50]
         \<and> slope r = 10 \<and> rSquared r = Some 1"
    unfolding xs by (simp add: s r2)
qed

theorem index_spacing_preserved_witness:
  "map iv_index (indexValues [Some 10, None, Some 30, None, Some 50] 0) = [0, 2, 4]
   \<and> map iv_value (indexValues [Some 10, None, Some 30, None, Some 50] 0) = [10, 30, 50]
   \<and> \<lparr>iv_value = 30, iv_index = 2\<rparr> \<in> set (indexValues [Some 10, None, Some 30, None, Some 50] 0)
   \<and> [Some 10, None, Some 30, None, Some 50] ! 2 = Some (30 :: real)
   \<and> 2 \<le> length (indexValues [Some 10, None, Some 30, None, Some 50] 0)
   \<and> (\<exists>r. computeLineChartAnalysis [Some 10, None, Some 30, None, Some 50] = Some r
         \<and> slope r = spec_slope [0, 2, 4] [10, 30, 50] \<and> slope r = 10
         \<and> rSquared r = Some 1)
   \<and> spec_slope [0, 1, 2] [10, 30, 50] = 20"
proof -
  let ?vals = "[Some 10, None, Some 30, None, Some 50] :: real option list"
  note T = index_spacing_preserved[of ?vals]
  have ivs: "indexValues ?vals 0 = [\<lparr>iv_value = 10, iv_index = 0\<rparr>,
      \<lparr>iv_value = 30, iv_index = 2\<rparr>, \<lparr>iv_value = 50, iv_index = 4\<rparr>]"
    by simp
  have mem: "\<lparr>iv_value = 30, iv_index = 2\<rparr> \<in> set (indexValues ?vals 0)"
    by (simp only: ivs) simp
  from T mem have at: "?vals ! iv_index \<lparr>iv_value = 30, iv_index = 2\<rparr>
       = Some (iv_value \<lparr>iv_value = 30, iv_index = 2\<rparr>)"
    by blast
  from T have idx: "map iv_index (indexValues ?vals 0)
      = filter (\<lambda>i. ?vals ! i \<noteq> None) [0..<length ?vals]"
    by blast
  have "filter (\<lambda>i. ?vals ! i \<noteq> None) [0..<length ?vals] = [0, 2, 4]"
    by (simp add: upt_rec)
  with idx have i: "map iv_index (indexValues ?vals 0) = [0, 2, 4]" by simp
  have n2: "2 \<le> length (indexValues ?vals 0)" by (simp only: ivs) simp
  from T obtain r where r: "computeLineChartAnalysis ?vals = Some r"
    "slope r = spec_slope [0, 2, 4] [10, 30, 50]" "slope r = 10" "rSquared r = Some 1"
    by blast
  have other: "spec_slope [0, 1, 2] [10, 30, 50] = 20"
    by (simp add: spec_slope_def spec_denominator_def)
  from i mem at n2 r other show ?thesis
    by (simp add: ivs) 
qed

section \<open>The classification of the trend\<close>

text \<open>
  Claim C8, as stated: on every series, a standard deviation of 0 gives the trend
  \<open>none\<close>. The empty series refutes it: its standard deviation is 0 and its trend is
  \<open>undefined\<close>.
\<close>

theorem trend_empty_counterexample:
  "computeLineChartAnalysis [] =
     Some \<lparr>mean = 0, standardDeviation = 0, coefficientOfVariation = None, slope = 0,
           rSquared = None,
           interp = \<lparr>volatility = V_undefined, trend = T_undefined\<rparr>\<rparr>
   \<and> T_undefined \<noteq> T_none"
  by (simp add: computeLineChartAnalysis_def)

text \<open>
  Claim C8, amended. On every series with at least one observation: a standard deviation
  of 0 gives the trend \<open>none\<close>; otherwise an undefined \<open>rSquared\<close> gives \<open>undefined\<close>;
  otherwise the trend is \<open>strong\<close> when \<open>rSquared > 0.75\<close>; when
  \<open>0.4 < rSquared \<le> 0.75\<close> it is \<open>weak\<close>, upgraded to \<open>strong\<close> when
  \<open>relativeSlope \<ge> 0.06\<close>; when \<open>rSquared \<le> 0.4\<close> it is \<open>none\<close>, upgraded to \<open>weak\<close>
  (never to \<open>strong\<close>) when \<open>relativeSlope \<ge> 0.03\<close>. Here \<open>relativeSlope\<close> is
  \<open>|slope|\<close> over the mean of the regression values, and 0 when that mean is 0.
\<close>

theorem trend_classification:
  assumes obs: "spec_values vals \<noteq> []"
  shows "\<exists>r w. computeLineChartAnalysis vals = Some r
     \<and> winsorizedYValuesOf (spec_values vals) = Some w
     \<and> (let meanOfWinsorizedValues = sum_list w / real (length w);
             relativeSlope = (if meanOfWinsorizedValues = 0 then 0
                              else \<bar>slope r\<bar> / meanOfWinsorizedValues);
             t = trend (interp r)
         in (standardDeviation r = 0 \<longrightarrow> t = T_none)
          \<and> (standardDeviation r \<noteq> 0 \<and> rSquared r = None \<longrightarrow> t = T_undefined)
          \<and> (\<forall>v. standardDeviation r \<noteq> 0 \<and> rSquared r = Some v \<longrightarrow>
                (v > 0.75 \<longrightarrow> t = T_strong)
              \<and> (0.4 < v \<and> v \<le> 0.75 \<longrightarrow>
                    t = (if relativeSlope \<ge> 0.06 then T_strong else T_weak))
              \<and> (v \<le> 0.4 \<longrightarrow>
                    t = (if relativeSlope \<ge> 0.03 then T_weak else T_none))))"
    (is "\<exists>r w. ?P r w")
proof -
  obtain w where w: "winsorizedYValuesOf (spec_values vals) = Some w"
    using winsorizedYValuesOf_total by blast
  define rel where "rel = (if sum_list w / real (length w) = 0 then 0
       else \<bar>spec_slope (map real (spec_indices vals)) w\<bar> / (sum_list w / real (length w)))"
  from obs have "length (spec_values vals) \<noteq> 0" by simp
  then consider "length (spec_values vals) = 1" | "2 \<le> length (spec_values vals)"
    by linarith
  then obtain r where r: "computeLineChartAnalysis vals = Some r"
    and t: "trend (interp r) = trendOf (standardDeviation r) (rSquared r) rel"
    and s: "length (spec_values vals) = 1 \<or> slope r = spec_slope (map real (spec_indices vals)) w"
  proof cases
    case 1
    then show ?thesis
      using that by (simp add: analysis_one_observation trendOf_def)
  next
    case 2
    show ?thesis
      using that analysis_of_observations[OF 2 w, folded rel_def] by simp
  qed
  have rel': "(if sum_list w / real (length w) = 0 then 0
       else \<bar>slope r\<bar> / (sum_list w / real (length w))) = rel
     \<or> standardDeviation r = 0"
  proof (cases "length (spec_values vals) = 1")
    case True
    from r analysis_one_observation[OF True] have "standardDeviation r = 0"
      by auto
    then show ?thesis by blast
  next
    case False
    with s show ?thesis by (simp add: rel_def)
  qed
  show ?thesis
  proof (cases "standardDeviation r = 0")
    case True
    with r w t have "?P r w" by (simp add: trendOf_def Let_def)
    then show ?thesis by blast
  next
    case False
    with rel' have e: "(if sum_list w / real (length w) = 0 then 0
       else \<bar>slope r\<bar> / (sum_list w / real (length w))) = rel"
      by blast
    have "?P r w"
      using r w trendOf_cases[of "standardDeviation r" "rSquared r" rel]
      unfolding Let_def e t by blast
    then show ?thesis by blast
  qed
qed

theorem trend_classification_witness:
  "spec_values [Some 1, Some 3, Some 2] \<noteq> []
   \<and> (\<exists>r. computeLineChartAnalysis [Some 1, Some 3, Some 2] = Some r
        \<and> standardDeviation r \<noteq> 0 \<and> rSquared r = Some (1 / 4) \<and> slope r = 1 / 2
        \<and> trend (interp r) = T_weak)"
proof -
  let ?vals = "[Some 1, Some 3, Some 2] :: real option list"
  have ne: "spec_values ?vals \<noteq> []" and sv: "spec_values ?vals = [1, 3, 2]"
    by (simp_all add: spec_values_def)
  have wv: "winsorizedYValuesOf [1, 3, 2] = Some [1, 3, 2]"
    by (simp add: winsorizedYValuesOf_def)
  have ev: "\<exists>r. computeLineChartAnalysis ?vals = Some r
        \<and> standardDeviation r \<noteq> 0 \<and> rSquared r = Some (1 / 4) \<and> slope r = 1 / 2"
    by (simp add: computeLineChartAnalysis_def Let_def js_div_def js_sqrt_def js_at_def
          winsorizedYValuesOf_def regressionSums_def squaresSums_def sum_numbers_def upt_rec)
  from trend_classification[OF ne] obtain r w
    where r: "computeLineChartAnalysis ?vals = Some r"
      and w: "winsorizedYValuesOf (spec_values ?vals) = Some w"
      and low: "standardDeviation r \<noteq> 0 \<and> rSquared r = Some (1 / 4) \<longrightarrow>
                 (1 / 4 \<le> (0.4 :: real) \<longrightarrow>
                    trend (interp r) =
                      (if (if sum_list w / real (length w) = 0 then 0
                           else \<bar>slope r\<bar> / (sum_list w / real (length w))) \<ge> 0.03
                       then T_weak else T_none))"
    unfolding Let_def by blast
  from w have w': "w = [1, 3, 2]" by (simp add: sv wv)
  from ev r have f: "standardDeviation r \<noteq> 0" "rSquared r = Some (1 / 4)" "slope r = 1 / 2"
    by auto
  from low f have "trend (interp r) = T_weak"
    by (simp add: w')
  with r f ne show ?thesis by blast
qed

section \<open>Totality\<close>




section \<open>The range of rSquared\<close>

text \<open>
  Claim C10: a returned \<open>rSquared\<close> lies in \<open>[0, 1]\<close>. In exact arithmetic it does
  (\<open>analysis_rSquared_bounds\<close> above). In double arithmetic the series 0.1, 1, 0.1
  refutes it: the total sum of squares is accumulated as \<open>0.5399999999999998\<close>, the
  residual sum of squares as \<open>0.54\<close>, one unit in the last place above, and the
  function returns \<open>1 - ssResidual / ssTotal = - 2\<^sup>-\<^sup>5\<^sup>1\<close>, about \<open>-4.44e-16\<close>; nothing
  clamps the value.
\<close>

theorem rSquared64_negative:
  "squares64 [Some (round64 (1 / 10)), Some (Fin 1), Some (round64 (1 / 10))]
     = (Fin (2431943798780067 / 4503599627370496), Fin (607985949695017 / 1125899906842624))
   \<and> map_option rSquared64 (computeLineChartAnalysis64
       [Some (round64 (1 / 10)), Some (Fin 1), Some (round64 (1 / 10))])
     = Some (Some (Fin (- (1 / 2251799813685248))))"
  using computeLineChartAnalysis64_closed[of
      "[Some (Fin (3602879701896397 / 36028797018963968)), Some (Fin 1),
        Some (Fin (3602879701896397 / 36028797018963968))]"]
  by (simp add: tenths64_count tenths64_denominator tenths64_squares ssTotal64_def ssResidual64_def
        f_sub_def roundings del: indexValues64.simps)

end
